theory Spec2Isabelle
  imports Complex_Main "HOL-Library.Char_ord" "HOL-Library.List_Lexorder" "HOL-Library.AList"
begin

section \<open>Numbers, identifiers, items and errors\<close>

text \<open>
  Capacities are JavaScript numbers that the validator guarantees to be finite; they are
  modelled as exact reals (rounding of IEEE doubles is not modelled). The only non-finite
  values the code can then produce come from \<^verbatim>\<open>Math.max()\<close> / \<^verbatim>\<open>Math.min()\<close> of
  an empty argument list and from a division by a zero group count; \<open>jsnum\<close> carries them.
\<close>

datatype jsnum = NegInf | Fin real | PosInf | NaN

fun js_max :: "jsnum \<Rightarrow> jsnum \<Rightarrow> jsnum" where
  "js_max NaN _ = NaN"
| "js_max _ NaN = NaN"
| "js_max PosInf _ = PosInf"
| "js_max _ PosInf = PosInf"
| "js_max NegInf b = b"
| "js_max a NegInf = a"
| "js_max (Fin a) (Fin b) = Fin (max a b)"

fun js_min :: "jsnum \<Rightarrow> jsnum \<Rightarrow> jsnum" where
  "js_min NaN _ = NaN"
| "js_min _ NaN = NaN"
| "js_min NegInf _ = NegInf"
| "js_min _ NegInf = NegInf"
| "js_min PosInf b = b"
| "js_min a PosInf = a"
| "js_min (Fin a) (Fin b) = Fin (min a b)"

fun js_sub :: "jsnum \<Rightarrow> jsnum \<Rightarrow> jsnum" where
  "js_sub NaN _ = NaN"
| "js_sub _ NaN = NaN"
| "js_sub PosInf PosInf = NaN"
| "js_sub NegInf NegInf = NaN"
| "js_sub PosInf _ = PosInf"
| "js_sub NegInf _ = NegInf"
| "js_sub (Fin a) PosInf = NegInf"
| "js_sub (Fin a) NegInf = PosInf"
| "js_sub (Fin a) (Fin b) = Fin (a - b)"

fun js_less :: "jsnum \<Rightarrow> jsnum \<Rightarrow> bool" where
  "js_less NaN _ = False"
| "js_less _ NaN = False"
| "js_less (Fin a) (Fin b) = (a < b)"
| "js_less NegInf NegInf = False"
| "js_less NegInf _ = True"
| "js_less _ NegInf = False"
| "js_less PosInf _ = False"
| "js_less _ PosInf = True"

fun js_le :: "jsnum \<Rightarrow> jsnum \<Rightarrow> bool" where
  "js_le NaN _ = False"
| "js_le _ NaN = False"
| "js_le (Fin a) (Fin b) = (a \<le> b)"
| "js_le NegInf _ = True"
| "js_le _ PosInf = True"
| "js_le PosInf _ = False"
| "js_le _ NegInf = False"

text \<open>\<^verbatim>\<open>Math.max(...xs)\<close> and \<^verbatim>\<open>Math.min(...xs)\<close> over finite numbers.\<close>

definition math_max :: "real list \<Rightarrow> jsnum" where
  "math_max xs = foldr (\<lambda>x acc. js_max (Fin x) acc) xs NegInf"

definition math_min :: "real list \<Rightarrow> jsnum" where
  "math_min xs = foldr (\<lambda>x acc. js_min (Fin x) acc) xs PosInf"

text \<open>\<^verbatim>\<open>Math.max(...groupSums) - Math.min(...groupSums)\<close>.\<close>

definition delta_of :: "real list \<Rightarrow> jsnum" where
  "delta_of sms = js_sub (math_max sms) (math_min sms)"

text \<open>
  The standard deviation block shared by the solvers:
  \<^verbatim>\<open>mean = groupSums.reduce(+, 0) / groups; variance = groupSums.reduce((s, v) => s + (v - mean)^2, 0) / groups;
  stdev = Math.sqrt(variance)\<close>. With \<open>groups = 0\<close> the divisions give NaN or Infinity.
\<close>

definition stdev_of :: "real list \<Rightarrow> nat \<Rightarrow> jsnum" where
  "stdev_of sms groups =
     (if groups = 0 then (if sms = [] \<or> sum_list sms = 0 then NaN else PosInf)
      else (let mean = sum_list sms / real groups
            in Fin (sqrt (sum_list (map (\<lambda>v. (v - mean)\<^sup>2) sms) / real groups))))"

text \<open>An item id is a string or a number (integral numbers are modelled).\<close>

datatype ident = StrId string | NumId int

record item =
  item_id :: ident
  capacity :: real

text \<open>The error taxonomy of \<^verbatim>\<open>errors.ts\<close>, plus the built-in errors the code can raise.\<close>

datatype err =
    ValidationError
  | AlgorithmError string
  | TimeoutError
  | InfeasibleError
  | ConfigurationError
  | NumericalError
  | MemoryError
  | UnsupportedError
  | TypeError
  | JsError string

fun isBalancedKGroupsError :: "err \<Rightarrow> bool" where
  "isBalancedKGroupsError TypeError = False"
| "isBalancedKGroupsError (JsError m) = False"
| "isBalancedKGroupsError e = True"

fun isValidationError :: "err \<Rightarrow> bool" where
  "isValidationError ValidationError = True"
| "isValidationError e = False"

record grouping =
  groupsById :: "ident list list"
  groupsByIndex :: "nat list list"
  groupSums :: "real list"
  delta :: jsnum
  stdev :: jsnum
  iterations :: "nat option"
  methodUsed :: string

section \<open>Comparators and sorting\<close>

definition digit_char :: "nat \<Rightarrow> char" where
  "digit_char d = ''0123456789abcdefghijklmnopqrstuvwxyz'' ! d"

function show_nat :: "nat \<Rightarrow> nat \<Rightarrow> string" where
  "show_nat base n =
     (if n < base \<or> base < 2 then [digit_char n]
      else show_nat base (n div base) @ [digit_char (n mod base)])"
  by pat_completeness auto
termination
  by (relation "measure (\<lambda>(base, n). n)") auto

text \<open>\<^verbatim>\<open>n.toString(base)\<close> for an integer \<open>n\<close>.\<close>

definition show_int :: "nat \<Rightarrow> int \<Rightarrow> string" where
  "show_int base n = (if n < 0 then CHR ''-'' # show_nat base (nat (- n)) else show_nat base (nat n))"

text \<open>
  \<^verbatim>\<open>String(id)\<close>. A numeric id is modelled only when it is an integer of magnitude below
  \<^verbatim>\<open>1e21\<close>, where JavaScript prints all its digits; fractional ids and the exponent
  notation of larger numbers are outside the model.
\<close>

fun String :: "ident \<Rightarrow> string" where
  "String (StrId s) = s"
| "String (NumId n) = show_int 10 n"

definition compareIds :: "ident \<Rightarrow> ident \<Rightarrow> real" where
  "compareIds a b =
     (let strA = String a; strB = String b
      in if strA < strB then - 1 else if strA > strB then 1 else 0)"

definition compareItemsByCapacity :: "item \<Rightarrow> item \<Rightarrow> real" where
  "compareItemsByCapacity a b =
     (let capacityDiff = capacity b - capacity a
      in if capacityDiff \<noteq> 0 then capacityDiff else compareIds (item_id a) (item_id b))"

text \<open>
  \<^verbatim>\<open>Array.prototype.sort(cmp)\<close> is a stable sort; for a comparator that is a total preorder
  (every comparator of this program is one) its result is the one a stable insertion sort
  gives.
\<close>

fun insort_cmp :: "('a \<Rightarrow> 'a \<Rightarrow> real) \<Rightarrow> 'a \<Rightarrow> 'a list \<Rightarrow> 'a list" where
  "insort_cmp cmp x [] = [x]"
| "insort_cmp cmp x (y # ys) =
     (if cmp x y \<le> 0 then x # y # ys else y # insort_cmp cmp x ys)"

definition sort_cmp :: "('a \<Rightarrow> 'a \<Rightarrow> real) \<Rightarrow> 'a list \<Rightarrow> 'a list" where
  "sort_cmp cmp xs = foldr (insort_cmp cmp) xs []"

text \<open>\<^verbatim>\<open>items.map((item, index) => ({ item, index }))\<close>\<close>

definition indexed :: "'a list \<Rightarrow> ('a \<times> nat) list" where
  "indexed xs = zip xs [0..<length xs]"

section \<open>Round-robin\<close>

type_synonym rr_state = "ident list list \<times> nat list list \<times> real list \<times> nat"

text \<open>
  The distribution loop of \<^verbatim>\<open>roundRobinPartition\<close>. Pushing to \<^verbatim>\<open>groupsById[currentGroup]\<close>
  when that slot does not exist raises a TypeError.
\<close>

fun rr_loop :: "nat \<Rightarrow> (item \<times> nat) list \<Rightarrow> rr_state \<Rightarrow> err + rr_state" where
  "rr_loop groups [] st = Inr st"
| "rr_loop groups ((it, index) # rest) (byId, byIdx, sms, currentGroup) =
     (if currentGroup < length byId then
        rr_loop groups rest
          (byId[currentGroup := byId ! currentGroup @ [item_id it]],
           byIdx[currentGroup := byIdx ! currentGroup @ [index]],
           sms[currentGroup := sms ! currentGroup + capacity it],
           (currentGroup + 1) mod groups)
      else Inl TypeError)"

definition roundRobinPartition :: "item list \<Rightarrow> nat \<Rightarrow> nat \<Rightarrow> err + grouping" where
  "roundRobinPartition items groups groupSize =
     (let indexedItems = sort_cmp (\<lambda>a b. compareItemsByCapacity (fst a) (fst b)) (indexed items)
      in case rr_loop groups indexedItems
                (replicate groups [], replicate groups [], replicate groups 0, 0) of
           Inl e \<Rightarrow> Inl (AlgorithmError ''roundrobin'')
         | Inr (byId, byIdx, sms, cur) \<Rightarrow>
             Inr \<lparr> groupsById = byId, groupsByIndex = byIdx, groupSums = sms,
                   delta = delta_of sms, stdev = stdev_of sms groups,
                   iterations = Some 1, methodUsed = ''roundrobin'' \<rparr>)"

text \<open>
  \<^verbatim>\<open>optimizedRoundRobinPartition\<close>: the search for the group of an item. \<open>bestGroup\<close>
  starts at group 0 whatever its count; the scan from group 1 replaces it by a group with
  space and a strictly smaller sum; if the chosen group is full, the first group with space
  is taken instead.
\<close>

fun orr_scan :: "nat \<Rightarrow> real list \<Rightarrow> nat list \<Rightarrow> nat list \<Rightarrow> nat \<times> real \<Rightarrow> nat \<times> real" where
  "orr_scan groupSize sms counts [] best = best"
| "orr_scan groupSize sms counts (g # gs) (bestGroup, bestSum) =
     (if counts ! g < groupSize \<and> sms ! g < bestSum
      then orr_scan groupSize sms counts gs (g, sms ! g)
      else orr_scan groupSize sms counts gs (bestGroup, bestSum))"

fun first_with_space :: "nat \<Rightarrow> nat list \<Rightarrow> nat list \<Rightarrow> nat \<Rightarrow> nat" where
  "first_with_space groupSize counts [] bestGroup = bestGroup"
| "first_with_space groupSize counts (g # gs) bestGroup =
     (if counts ! g < groupSize then g else first_with_space groupSize counts gs bestGroup)"

definition orr_choose :: "nat \<Rightarrow> nat \<Rightarrow> real list \<Rightarrow> nat list \<Rightarrow> err + nat" where
  "orr_choose groups groupSize sms counts =
     (if groups = 0 then Inl TypeError
      else (let bestGroup = fst (orr_scan groupSize sms counts [1..<groups] (0, sms ! 0))
            in if counts ! bestGroup \<ge> groupSize
               then Inr (first_with_space groupSize counts [0..<groups] bestGroup)
               else Inr bestGroup))"

type_synonym orr_state = "ident list list \<times> nat list list \<times> real list \<times> nat list"

fun orr_loop :: "nat \<Rightarrow> nat \<Rightarrow> (item \<times> nat) list \<Rightarrow> orr_state \<Rightarrow> err + orr_state" where
  "orr_loop groups groupSize [] st = Inr st"
| "orr_loop groups groupSize ((it, index) # rest) (byId, byIdx, sms, counts) =
     (case orr_choose groups groupSize sms counts of
        Inl e \<Rightarrow> Inl e
      | Inr bestGroup \<Rightarrow>
          orr_loop groups groupSize rest
            (byId[bestGroup := byId ! bestGroup @ [item_id it]],
             byIdx[bestGroup := byIdx ! bestGroup @ [index]],
             sms[bestGroup := sms ! bestGroup + capacity it],
             counts[bestGroup := counts ! bestGroup + 1]))"

definition optimizedRoundRobinPartition :: "item list \<Rightarrow> nat \<Rightarrow> nat \<Rightarrow> err + grouping" where
  "optimizedRoundRobinPartition items groups groupSize =
     (let indexedItems = sort_cmp (\<lambda>a b. compareItemsByCapacity (fst a) (fst b)) (indexed items)
      in case orr_loop groups groupSize indexedItems
                (replicate groups [], replicate groups [], replicate groups 0, replicate groups 0) of
           Inl e \<Rightarrow> Inl (AlgorithmError ''roundrobin-optimized'')
         | Inr (byId, byIdx, sms, counts) \<Rightarrow>
             Inr \<lparr> groupsById = byId, groupsByIndex = byIdx, groupSums = sms,
                   delta = delta_of sms, stdev = stdev_of sms groups,
                   iterations = Some 1, methodUsed = ''roundrobin-optimized'' \<rparr>)"

text \<open>\<^verbatim>\<open>roundRobin\<close>: the basic variant unless \<open>optimized\<close> and more than 20 items.\<close>

definition roundRobin :: "item list \<Rightarrow> nat \<Rightarrow> nat \<Rightarrow> bool \<Rightarrow> err + grouping" where
  "roundRobin items groups groupSize optimized =
     (if \<not> optimized \<or> length items \<le> 20
      then roundRobinPartition items groups groupSize
      else optimizedRoundRobinPartition items groups groupSize)"

text \<open>\<^verbatim>\<open>fromCapacities(capacities, idPrefix)\<close>\<close>

definition fromCapacities :: "real list \<Rightarrow> string \<Rightarrow> item list" where
  "fromCapacities capacities idPrefix =
     map (\<lambda>(c, index). \<lparr> item_id = StrId (idPrefix @ show_nat 10 index), capacity = c \<rparr>)
       (indexed capacities)"

section \<open>Evaluation and its cache\<close>

record evaluation_result =
  evalGroupSums :: "real list"
  evalDelta :: jsnum
  evalStdev :: jsnum
  evalMean :: jsnum
  evalCv :: jsnum
  evalTotalCapacity :: real

text \<open>
  \<^verbatim>\<open>items[idx]!.capacity\<close>: reading \<open>capacity\<close> of \<^verbatim>\<open>undefined\<close> (an index that is
  negative or not below \<^verbatim>\<open>items.length\<close>) raises a TypeError.
\<close>

definition capacity_at :: "item list \<Rightarrow> int \<Rightarrow> err + real" where
  "capacity_at items idx =
     (if 0 \<le> idx \<and> idx < int (length items) then Inr (capacity (items ! nat idx))
      else Inl TypeError)"

fun group_sum :: "item list \<Rightarrow> int list \<Rightarrow> real \<Rightarrow> err + real" where
  "group_sum items [] s = Inr s"
| "group_sum items (idx # idxs) s =
     (case capacity_at items idx of
        Inl e \<Rightarrow> Inl e
      | Inr c \<Rightarrow> group_sum items idxs (s + c))"

fun group_sums_of :: "item list \<Rightarrow> int list list \<Rightarrow> err + real list" where
  "group_sums_of items [] = Inr []"
| "group_sums_of items (g # gs) =
     (case group_sum items g 0 of
        Inl e \<Rightarrow> Inl e
      | Inr s \<Rightarrow> (case group_sums_of items gs of
                    Inl e \<Rightarrow> Inl e
                  | Inr ss \<Rightarrow> Inr (s # ss)))"

text \<open>
  \<^verbatim>\<open>evaluateGroupingFastCPU\<close>. The running maximum and minimum start at \<^verbatim>\<open>-Infinity\<close> and
  \<^verbatim>\<open>Infinity\<close>; with no group the mean and the variance are \<^verbatim>\<open>0 / 0\<close>.
\<close>

definition evaluateGroupingFastCPU :: "item list \<Rightarrow> int list list \<Rightarrow> err + evaluation_result" where
  "evaluateGroupingFastCPU items byIdx =
     (case group_sums_of items byIdx of
        Inl e \<Rightarrow> Inl e
      | Inr sms \<Rightarrow>
          (let groups = length byIdx;
               total = foldl (+) 0 sms;
               maxSum = foldl (\<lambda>m s. if js_less m (Fin s) then Fin s else m) NegInf sms;
               minSum = foldl (\<lambda>m s. if js_less (Fin s) m then Fin s else m) PosInf sms;
               mean = total / real groups;
               varianceAcc = foldl (\<lambda>acc s. acc + (s - mean) * (s - mean)) 0 sms;
               sd = sqrt (varianceAcc / real groups)
           in Inr \<lparr> evalGroupSums = sms,
                    evalDelta = js_sub maxSum minSum,
                    evalStdev = (if groups = 0 then NaN else Fin sd),
                    evalMean = (if groups = 0 then NaN else Fin mean),
                    evalCv = (if groups \<noteq> 0 \<and> mean > 0 then Fin (sd / mean) else Fin 0),
                    evalTotalCapacity = total \<rparr>))"

text \<open>
  \<^verbatim>\<open>ToInt32\<close> of an integer, and \<^verbatim>\<open>hashGrouping\<close>:
  \<^verbatim>\<open>hash = ((hash << 5) - hash + group[i]) & 0xffffffff\<close> over all indices of all groups in
  order, then \<^verbatim>\<open>hash.toString(36)\<close>. The shift and the mask work on signed 32-bit integers.
\<close>

definition to_int32 :: "int \<Rightarrow> int" where
  "to_int32 v = (v + 2147483648) mod 4294967296 - 2147483648"

definition hash_step :: "int \<Rightarrow> int \<Rightarrow> int" where
  "hash_step hash x = to_int32 (to_int32 (hash * 32) - hash + x)"

definition hashGrouping :: "int list list \<Rightarrow> string" where
  "hashGrouping byIdx = show_int 36 (foldl hash_step 0 (concat byIdx))"

text \<open>
  \<^verbatim>\<open>EvaluationCache\<close>: a \<^verbatim>\<open>WeakMap\<close> from the identity of the items array (a reference,
  here a natural number naming the object) to an insertion-ordered \<^verbatim>\<open>Map\<close> from grouping
  key to value; both are association lists. The time stamp stored with a value is never
  read and is left out.
\<close>

record 'v evaluation_cache =
  store :: "(nat \<times> (string \<times> 'v) list) list"
  maxEntriesPerItemsRef :: nat

definition new_EvaluationCache :: "nat \<Rightarrow> 'v evaluation_cache" where
  "new_EvaluationCache n = \<lparr> store = [], maxEntriesPerItemsRef = max 10 n \<rparr>"

definition cache_get :: "'v evaluation_cache \<Rightarrow> nat \<Rightarrow> string \<Rightarrow> 'v option" where
  "cache_get c itemsRef groupingKey =
     (case map_of (store c) itemsRef of None \<Rightarrow> None | Some bucket \<Rightarrow> map_of bucket groupingKey)"

text \<open>The reference of a newly allocated array: one that is no key of the store.\<close>

definition fresh_ref :: "'v evaluation_cache \<Rightarrow> nat" where
  "fresh_ref c = Suc (foldr max (map fst (store c)) 0)"

text \<open>\<^verbatim>\<open>Map.prototype.set\<close>: an existing key keeps its place, a new key goes last.\<close>

fun map_set :: "(string \<times> 'v) list \<Rightarrow> string \<Rightarrow> 'v \<Rightarrow> (string \<times> 'v) list" where
  "map_set [] k v = [(k, v)]"
| "map_set ((k', v') # rest) k v =
     (if k' = k then (k, v) # rest else (k', v') # map_set rest k v)"

definition cache_set :: "'v evaluation_cache \<Rightarrow> nat \<Rightarrow> string \<Rightarrow> 'v \<Rightarrow> 'v evaluation_cache" where
  "cache_set c itemsRef groupingKey v =
     (let bucket = (case map_of (store c) itemsRef of None \<Rightarrow> [] | Some b \<Rightarrow> b);
          bucket' = (if length bucket \<ge> maxEntriesPerItemsRef c
                     then (case bucket of
                             [] \<Rightarrow> bucket
                           | (firstKey, _) # rest \<Rightarrow> if firstKey \<noteq> [] then rest else bucket)
                     else bucket)
      in c \<lparr> store := AList.update itemsRef (map_set bucket' groupingKey v) (store c) \<rparr>)"

definition globalEvaluationCache :: "evaluation_result evaluation_cache" where
  "globalEvaluationCache = new_EvaluationCache 200"

record evaluate_options =
  maxCacheItems :: nat
  maxCacheGroups :: nat
  maxCacheGroupSize :: nat

definition default_evaluate_options :: evaluate_options where
  "default_evaluate_options = \<lparr> maxCacheItems = 1000, maxCacheGroups = 50, maxCacheGroupSize = 100 \<rparr>"

text \<open>
  \<^verbatim>\<open>evaluateGrouping\<close>, with the cache it reads and writes passed in and returned. \<open>itemsRef\<close>
  is the identity of the \<open>items\<close> array. Every error raised inside is rethrown as an
  \<^verbatim>\<open>AlgorithmError\<close> of algorithm \<^verbatim>\<open>'evaluate'\<close>.
\<close>

definition evaluateGrouping ::
  "evaluation_result evaluation_cache \<Rightarrow> nat \<Rightarrow> item list \<Rightarrow> int list list \<Rightarrow> evaluate_options
     \<Rightarrow> (err + evaluation_result) \<times> evaluation_result evaluation_cache" where
  "evaluateGrouping cache itemsRef items byIdx opts =
     (let totalItems = foldl (\<lambda>s g. s + length g) 0 byIdx;
          groupCount = length byIdx;
          shouldSkipCache =
            (totalItems > maxCacheItems opts \<or> groupCount > maxCacheGroups opts \<or>
             (\<exists>g \<in> set byIdx. length g > maxCacheGroupSize opts));
          groupingKey = (if shouldSkipCache then [] else hashGrouping byIdx);
          cached = (if groupingKey \<noteq> [] then cache_get cache itemsRef groupingKey else None)
      in case cached of
           Some r \<Rightarrow> (Inr r, cache)
         | None \<Rightarrow>
             (case evaluateGroupingFastCPU items byIdx of
                Inl e \<Rightarrow> (Inl (AlgorithmError ''evaluate''), cache)
              | Inr result \<Rightarrow>
                  (Inr result,
                   if groupingKey \<noteq> [] then cache_set cache itemsRef groupingKey result else cache)))"

datatype grouping_problem =
    WrongGroupSize nat nat
  | MultiplyAssigned
  | WrongAssignedCount nat
  | InvalidIndex int

text \<open>\<^verbatim>\<open>validateGrouping\<close>: the list of errors found; the grouping is valid when it is empty.\<close>

definition validateGrouping_errors :: "item list \<Rightarrow> int list list \<Rightarrow> nat \<Rightarrow> grouping_problem list" where
  "validateGrouping_errors items byIdx expectedGroupSize =
     (let allIndices = concat byIdx;
          uniqueSize = card (set allIndices)
      in concat (map (\<lambda>(group, i). if length group \<noteq> expectedGroupSize
                                    then [WrongGroupSize i (length group)] else [])
                   (indexed byIdx))
         @ (if length allIndices \<noteq> uniqueSize then [MultiplyAssigned] else [])
         @ (if uniqueSize \<noteq> length items then [WrongAssignedCount uniqueSize] else [])
         @ concat (map (\<lambda>index. if index < 0 \<or> index \<ge> int (length items)
                                 then [InvalidIndex index] else []) allIndices))"

definition validateGrouping :: "item list \<Rightarrow> int list list \<Rightarrow> nat \<Rightarrow> bool" where
  "validateGrouping items byIdx expectedGroupSize =
     (validateGrouping_errors items byIdx expectedGroupSize = [])"


section \<open>LPT with swap refinement\<close>

text \<open>
  Inside the solvers every index stored in a group is an index of \<open>items\<close> produced by
  \<^verbatim>\<open>items.map((item, index) => ...)\<close>, so \<^verbatim>\<open>items[idx]!\<close> is read with \<open>!\<close>.
\<close>

definition cap :: "item list \<Rightarrow> nat \<Rightarrow> real" where
  "cap items idx = capacity (items ! idx)"

text \<open>Phase 1 of \<^verbatim>\<open>lptPartition\<close>: the group with minimum sum that still has space.\<close>

fun lpt_scan :: "nat \<Rightarrow> real list \<Rightarrow> nat list \<Rightarrow> nat list \<Rightarrow> nat option \<times> jsnum \<Rightarrow> nat option \<times> jsnum" where
  "lpt_scan groupSize sms counts [] best = best"
| "lpt_scan groupSize sms counts (g # gs) (bestGroup, bestSum) =
     (if counts ! g < groupSize \<and> js_less (Fin (sms ! g)) bestSum
      then lpt_scan groupSize sms counts gs (Some g, Fin (sms ! g))
      else lpt_scan groupSize sms counts gs (bestGroup, bestSum))"

fun min_sum_group :: "real list \<Rightarrow> nat list \<Rightarrow> nat \<Rightarrow> nat" where
  "min_sum_group sms [] bestGroup = bestGroup"
| "min_sum_group sms (g # gs) bestGroup =
     (if sms ! g < sms ! bestGroup then min_sum_group sms gs g else min_sum_group sms gs bestGroup)"

definition lpt_choose :: "nat \<Rightarrow> nat \<Rightarrow> real list \<Rightarrow> nat list \<Rightarrow> nat" where
  "lpt_choose groups groupSize sms counts =
     (case fst (lpt_scan groupSize sms counts [0..<groups] (None, PosInf)) of
        Some g \<Rightarrow> g
      | None \<Rightarrow> min_sum_group sms [1..<groups] 0)"

fun lpt_loop :: "nat \<Rightarrow> nat \<Rightarrow> (item \<times> nat) list \<Rightarrow> orr_state \<Rightarrow> err + orr_state" where
  "lpt_loop groups groupSize [] st = Inr st"
| "lpt_loop groups groupSize ((it, index) # rest) (byId, byIdx, sms, counts) =
     (let bestGroup = lpt_choose groups groupSize sms counts
      in if bestGroup < length byId then
           lpt_loop groups groupSize rest
             (byId[bestGroup := byId ! bestGroup @ [item_id it]],
              byIdx[bestGroup := byIdx ! bestGroup @ [index]],
              sms[bestGroup := sms ! bestGroup + capacity it],
              counts[bestGroup := counts ! bestGroup + 1])
         else Inl TypeError)"

type_synonym lpt_state = "ident list list \<times> nat list list \<times> real list"

text \<open>
  \<^verbatim>\<open>try11Swaps\<close>: the candidate swaps in the order of the four nested loops
  (\<open>groups\<close> is \<^verbatim>\<open>groupsById.length\<close>, which is the length of \<^verbatim>\<open>groupsByIndex\<close> at every
  call). Nothing is changed before the first improving swap is found, which is applied at
  once.
\<close>

definition cands11 :: "nat \<Rightarrow> nat list list \<Rightarrow> (nat \<times> nat \<times> nat \<times> nat) list" where
  "cands11 groups byIdx =
     concat (map (\<lambda>g1. concat (map (\<lambda>g2. concat (map (\<lambda>i1. map (\<lambda>i2. (g1, i1, g2, i2))
         [0..<length (byIdx ! g2)]) [0..<length (byIdx ! g1)]))
       [g1 + 1..<groups])) [0..<groups])"

definition improves11 :: "item list \<Rightarrow> nat list list \<Rightarrow> real list \<Rightarrow> nat \<times> nat \<times> nat \<times> nat \<Rightarrow> bool" where
  "improves11 items byIdx sms c =
     (case c of (g1, i1, g2, i2) \<Rightarrow>
        (let idx1 = byIdx ! g1 ! i1; idx2 = byIdx ! g2 ! i2;
             cap1 = cap items idx1; cap2 = cap items idx2;
             currentDelta = delta_of sms;
             newSum1 = sms ! g1 - cap1 + cap2;
             newSum2 = sms ! g2 - cap2 + cap1;
             tempSums = sms[g1 := newSum1, g2 := newSum2]
         in js_less (delta_of tempSums) currentDelta))"

definition apply11 :: "item list \<Rightarrow> lpt_state \<Rightarrow> nat \<times> nat \<times> nat \<times> nat \<Rightarrow> lpt_state" where
  "apply11 items st c =
     (case (st, c) of ((byId, byIdx, sms), (g1, i1, g2, i2)) \<Rightarrow>
        (let idx1 = byIdx ! g1 ! i1; idx2 = byIdx ! g2 ! i2;
             cap1 = cap items idx1; cap2 = cap items idx2;
             newSum1 = sms ! g1 - cap1 + cap2;
             newSum2 = sms ! g2 - cap2 + cap1
         in (byId[g1 := (byId ! g1)[i1 := item_id (items ! idx2)],
                  g2 := (byId ! g2)[i2 := item_id (items ! idx1)]],
             byIdx[g1 := (byIdx ! g1)[i1 := idx2], g2 := (byIdx ! g2)[i2 := idx1]],
             sms[g1 := newSum1, g2 := newSum2])))"

definition try11Swaps :: "item list \<Rightarrow> lpt_state \<Rightarrow> bool \<times> lpt_state" where
  "try11Swaps items st =
     (case st of (byId, byIdx, sms) \<Rightarrow>
        (case find (improves11 items byIdx sms) (cands11 (length byId) byIdx) of
           None \<Rightarrow> (False, st)
         | Some c \<Rightarrow> (True, apply11 items st c)))"

text \<open>
  \<^verbatim>\<open>try22Swaps\<close>: a pair of groups is skipped when \<^verbatim>\<open>comb1 * comb2 > MAX_22_COMBINATIONS\<close>.
\<close>

definition MAX_22_COMBINATIONS :: nat where
  "MAX_22_COMBINATIONS = 200000"

definition pairs_of :: "nat \<Rightarrow> (nat \<times> nat) list" where
  "pairs_of n = concat (map (\<lambda>a. map (\<lambda>b. (a, b)) [a + 1..<n]) [0..<n])"

definition cands22 ::
  "nat \<Rightarrow> nat list list \<Rightarrow> (nat \<times> (nat \<times> nat) \<times> nat \<times> (nat \<times> nat)) list" where
  "cands22 groups byIdx =
     concat (map (\<lambda>g1. concat (map (\<lambda>g2.
         (let n1 = length (byIdx ! g1); n2 = length (byIdx ! g2);
              comb1 = (n1 * (n1 - 1)) div 2; comb2 = (n2 * (n2 - 1)) div 2
          in if comb1 * comb2 > MAX_22_COMBINATIONS then []
             else concat (map (\<lambda>p1. map (\<lambda>p2. (g1, p1, g2, p2)) (pairs_of n2)) (pairs_of n1))))
       [g1 + 1..<groups])) [0..<groups])"

definition improves22 ::
  "item list \<Rightarrow> nat list list \<Rightarrow> real list \<Rightarrow> nat \<times> (nat \<times> nat) \<times> nat \<times> (nat \<times> nat) \<Rightarrow> bool" where
  "improves22 items byIdx sms c =
     (case c of (g1, (i1a, i1b), g2, (i2a, i2b)) \<Rightarrow>
        (let cap1a = cap items (byIdx ! g1 ! i1a); cap1b = cap items (byIdx ! g1 ! i1b);
             cap2a = cap items (byIdx ! g2 ! i2a); cap2b = cap items (byIdx ! g2 ! i2b);
             currentDelta = delta_of sms;
             newSum1 = sms ! g1 - cap1a - cap1b + cap2a + cap2b;
             newSum2 = sms ! g2 - cap2a - cap2b + cap1a + cap1b;
             tempSums = sms[g1 := newSum1, g2 := newSum2]
         in js_less (delta_of tempSums) currentDelta))"

definition apply22 ::
  "item list \<Rightarrow> lpt_state \<Rightarrow> nat \<times> (nat \<times> nat) \<times> nat \<times> (nat \<times> nat) \<Rightarrow> lpt_state" where
  "apply22 items st c =
     (case (st, c) of ((byId, byIdx, sms), (g1, (i1a, i1b), g2, (i2a, i2b))) \<Rightarrow>
        (let idx1a = byIdx ! g1 ! i1a; idx1b = byIdx ! g1 ! i1b;
             idx2a = byIdx ! g2 ! i2a; idx2b = byIdx ! g2 ! i2b;
             cap1a = cap items idx1a; cap1b = cap items idx1b;
             cap2a = cap items idx2a; cap2b = cap items idx2b;
             newSum1 = sms ! g1 - cap1a - cap1b + cap2a + cap2b;
             newSum2 = sms ! g2 - cap2a - cap2b + cap1a + cap1b
         in (byId[g1 := (byId ! g1)[i1a := item_id (items ! idx2a), i1b := item_id (items ! idx2b)],
                  g2 := (byId ! g2)[i2a := item_id (items ! idx1a), i2b := item_id (items ! idx1b)]],
             byIdx[g1 := (byIdx ! g1)[i1a := idx2a, i1b := idx2b],
                   g2 := (byIdx ! g2)[i2a := idx1a, i2b := idx1b]],
             sms[g1 := newSum1, g2 := newSum2])))"

definition try22Swaps :: "item list \<Rightarrow> lpt_state \<Rightarrow> bool \<times> lpt_state" where
  "try22Swaps items st =
     (case st of (byId, byIdx, sms) \<Rightarrow>
        (case find (improves22 items byIdx sms) (cands22 (length byId) byIdx) of
           None \<Rightarrow> (False, st)
         | Some c \<Rightarrow> (True, apply22 items st c)))"

text \<open>
  \<^verbatim>\<open>performLocalRefinement\<close>: \<^verbatim>\<open>while (improved && iterations < maxIters)\<close>; the number of
  iterations made is returned with the refined state.
\<close>

function performLocalRefinement_loop ::
  "item list \<Rightarrow> real \<Rightarrow> bool \<Rightarrow> nat \<Rightarrow> lpt_state \<Rightarrow> nat \<times> lpt_state" where
  "performLocalRefinement_loop items maxIters improved iters st =
     (if improved \<and> real iters < maxIters then
        (let r11 = try11Swaps items st
         in if fst r11 then performLocalRefinement_loop items maxIters True (iters + 1) (snd r11)
            else (let r22 = try22Swaps items (snd r11)
                  in if fst r22
                     then performLocalRefinement_loop items maxIters True (iters + 1) (snd r22)
                     else performLocalRefinement_loop items maxIters False (iters + 1) (snd r22)))
      else (iters, st))"
  by pat_completeness auto
termination
  by (relation "measure (\<lambda>(items, maxIters, improved, iters, st). nat \<lceil>maxIters\<rceil> - iters)")
     (auto simp: zless_nat_eq_int_zless less_ceiling_iff intro!: diff_less_mono2)

definition performLocalRefinement :: "item list \<Rightarrow> lpt_state \<Rightarrow> real \<Rightarrow> nat \<times> lpt_state" where
  "performLocalRefinement items st maxIters = performLocalRefinement_loop items maxIters True 0 st"

record lpt_options =
  useRefinement :: bool
  maxRefinementIters :: real
  maxGroupsForRefinement :: nat
  maxGroupSizeForRefinement :: nat
  useAdvanced :: bool

definition default_lpt_options :: lpt_options where
  "default_lpt_options = \<lparr> useRefinement = True, maxRefinementIters = 100,
     maxGroupsForRefinement = 20, maxGroupSizeForRefinement = 50, useAdvanced = False \<rparr>"

text \<open>
  \<^verbatim>\<open>lptPartition\<close>. Group sums are added and compared as exact reals; where the code's
  double additions round, the group it picks can differ from the one picked here.
\<close>

definition lptPartition :: "item list \<Rightarrow> nat \<Rightarrow> nat \<Rightarrow> lpt_options \<Rightarrow> err + grouping" where
  "lptPartition items groups groupSize opts =
     (let indexedItems = sort_cmp (\<lambda>a b. compareItemsByCapacity (fst a) (fst b)) (indexed items)
      in case lpt_loop groups groupSize indexedItems
                (replicate groups [], replicate groups [], replicate groups 0, replicate groups 0) of
           Inl e \<Rightarrow> Inl (AlgorithmError ''lpt'')
         | Inr (byId, byIdx, sms, counts) \<Rightarrow>
             (let refine = (useRefinement opts \<and> groups \<le> maxGroupsForRefinement opts \<and>
                            groupSize \<le> maxGroupSizeForRefinement opts);
                  (n, byId', byIdx', sms') =
                    (if refine then performLocalRefinement items (byId, byIdx, sms) (maxRefinementIters opts)
                     else (0, byId, byIdx, sms))
              in Inr \<lparr> groupsById = byId', groupsByIndex = byIdx', groupSums = sms',
                       delta = delta_of sms', stdev = stdev_of sms' groups,
                       iterations = Some (1 + n),
                       methodUsed = (if refine then ''lpt-refined'' else ''lpt'') \<rparr>))"

text \<open>
  \<^verbatim>\<open>advancedLptPartition\<close>: a plain LPT assignment followed by
  \<^verbatim>\<open>Math.min(3, Math.ceil(maxRefinementIters / 50))\<close> refinement rounds of
  \<^verbatim>\<open>Math.floor(maxRefinementIters / refinementRounds)\<close> iterations each.
\<close>

fun refinement_rounds :: "item list \<Rightarrow> real \<Rightarrow> nat \<Rightarrow> nat \<times> lpt_state \<Rightarrow> nat \<times> lpt_state" where
  "refinement_rounds items roundIters 0 acc = acc"
| "refinement_rounds items roundIters (Suc k) (iters, st) =
     (let (additionalIters, st') = performLocalRefinement items st roundIters
      in refinement_rounds items roundIters k
           ((if iters = 0 then 1 else iters) + additionalIters, st'))"

definition advancedLptPartition ::
  "item list \<Rightarrow> nat \<Rightarrow> nat \<Rightarrow> lpt_options \<Rightarrow> bool \<Rightarrow> err + grouping" where
  "advancedLptPartition items groups groupSize opts useMultiPhase =
     (if \<not> useMultiPhase
      then lptPartition items groups groupSize
             (default_lpt_options \<lparr> useRefinement := useRefinement opts,
                                    maxRefinementIters := maxRefinementIters opts \<rparr>)
      else case lptPartition items groups groupSize
             (default_lpt_options \<lparr> useRefinement := False \<rparr>) of
        Inl e \<Rightarrow> Inl e
      | Inr result \<Rightarrow>
          (let refinementRounds =
                 (if useRefinement opts then nat (min 3 \<lceil>maxRefinementIters opts / 50\<rceil>) else 0);
               roundIters = real_of_int \<lfloor>maxRefinementIters opts / real refinementRounds\<rfloor>;
               (iters, byId, byIdx, sms) =
                  refinement_rounds items roundIters refinementRounds
                    (case iterations result of None \<Rightarrow> 0 | Some n \<Rightarrow> n,
                     groupsById result, groupsByIndex result, groupSums result)
           in Inr (result \<lparr> groupsById := byId, groupsByIndex := byIdx, groupSums := sms,
                            delta := delta_of sms, stdev := stdev_of sms groups,
                            iterations := Some iters, methodUsed := ''lpt-advanced'' \<rparr>)))"

definition lpt :: "item list \<Rightarrow> nat \<Rightarrow> nat \<Rightarrow> lpt_options \<Rightarrow> err + grouping" where
  "lpt items groups groupSize opts =
     (if useAdvanced opts then advancedLptPartition items groups groupSize opts True
      else lptPartition items groups groupSize opts)"

section \<open>The flow placeholder\<close>

record solver_result =
  srGroupsByIndex :: "nat list list"
  srGroupSums :: "real list"
  srIterations :: nat
  srMethod :: string

text \<open>
  \<^verbatim>\<open>flow\<close>: \<open>best\<close> starts at group 0 whatever its size; a later group replaces it when its
  sum is strictly smaller and it has space.
\<close>

fun flow_scan :: "nat \<Rightarrow> nat list list \<Rightarrow> real list \<Rightarrow> nat list \<Rightarrow> nat \<Rightarrow> nat" where
  "flow_scan groupSize byIdx sms [] best = best"
| "flow_scan groupSize byIdx sms (g # gs) best =
     (if sms ! g < sms ! best \<and> length (byIdx ! g) < groupSize
      then flow_scan groupSize byIdx sms gs g
      else flow_scan groupSize byIdx sms gs best)"

fun flow_loop ::
  "nat \<Rightarrow> nat \<Rightarrow> (nat \<times> real) list \<Rightarrow> nat list list \<times> real list \<times> nat
     \<Rightarrow> err + nat list list \<times> real list \<times> nat" where
  "flow_loop groups groupSize [] st = Inr st"
| "flow_loop groups groupSize ((idx, c) # rest) (byIdx, sms, iters) =
     (let best = flow_scan groupSize byIdx sms [1..<groups] 0
      in if best < length byIdx then
           flow_loop groups groupSize rest
             (byIdx[best := byIdx ! best @ [idx]], sms[best := sms ! best + c], iters + 1)
         else Inl TypeError)"

definition flow :: "item list \<Rightarrow> nat \<Rightarrow> nat \<Rightarrow> err + solver_result" where
  "flow items groups groupSize =
     (if length items \<noteq> groups * groupSize
      then Inl (JsError ''Flow requires exact group size constraints'')
      else (let sorted = sort_cmp (\<lambda>a b. snd b - snd a)
                           (map (\<lambda>(it, idx). (idx, capacity it)) (indexed items))
            in case flow_loop groups groupSize sorted (replicate groups [], replicate groups 0, 0) of
                 Inl e \<Rightarrow> Inl e
               | Inr (byIdx, sms, iters) \<Rightarrow>
                   Inr \<lparr> srGroupsByIndex = byIdx, srGroupSums = sms, srIterations = iters,
                         srMethod = ''flow-heuristic'' \<rparr>))"

section \<open>KK-inspired partition\<close>

text \<open>\<^verbatim>\<open>reduce((acc, idx) => acc + items[idx]!.capacity, 0)\<close>\<close>

definition sum_caps :: "item list \<Rightarrow> nat list \<Rightarrow> real" where
  "sum_caps items idxs = foldl (\<lambda>acc idx. acc + cap items idx) 0 idxs"

fun split_loop :: "item list \<Rightarrow> nat list \<Rightarrow> nat list \<times> nat list \<times> real \<times> real
     \<Rightarrow> nat list \<times> nat list \<times> real \<times> real" where
  "split_loop items [] st = st"
| "split_loop items (idx # rest) (left, right, sumL, sumR) =
     (let c = cap items idx
      in if sumL \<le> sumR then split_loop items rest (left @ [idx], right, sumL + c, sumR)
         else split_loop items rest (left, right @ [idx], sumL, sumR + c))"

definition splitIntoTwo :: "item list \<Rightarrow> nat list \<Rightarrow> nat list \<times> nat list" where
  "splitIntoTwo items indices =
     (let sorted = sort_cmp (\<lambda>a b. cap items b - cap items a) indices;
          (left, right, sumL, sumR) = split_loop items sorted ([], [], 0, 0)
      in (left, right))"

text \<open>
  One pass of the loop of \<^verbatim>\<open>repairToExactSizes\<close>: the first over-full group gives, the
  first under-full group receives; the item moved is the last one of the donor whose move
  gives a delta not above the best seen so far (starting from the current delta), or the
  donor's last item when no move qualifies.
\<close>

definition first_index_where :: "('a \<Rightarrow> bool) \<Rightarrow> 'a list \<Rightarrow> nat option" where
  "first_index_where P xs = (case filter (\<lambda>i. P (xs ! i)) [0..<length xs] of [] \<Rightarrow> None | i # _ \<Rightarrow> Some i)"

fun repair_scan :: "item list \<Rightarrow> nat list \<Rightarrow> real list \<Rightarrow> nat \<Rightarrow> nat \<Rightarrow> nat list
     \<Rightarrow> nat option \<times> jsnum \<Rightarrow> nat option \<times> jsnum" where
  "repair_scan items donorGroup sms donor receiver [] best = best"
| "repair_scan items donorGroup sms donor receiver (i # rest) (bestIdxInDonor, bestDelta) =
     (let idx = donorGroup ! i;
          c = cap items idx;
          newSumDonor = sms ! donor - c;
          newSumReceiver = sms ! receiver + c;
          temp = sms[donor := newSumDonor, receiver := newSumReceiver];
          d = delta_of temp
      in if js_le d bestDelta
         then repair_scan items donorGroup sms donor receiver rest (Some i, d)
         else repair_scan items donorGroup sms donor receiver rest (bestIdxInDonor, bestDelta))"

text \<open>\<^verbatim>\<open>arr.splice(i, 1)\<close>\<close>

definition splice1 :: "'a list \<Rightarrow> nat \<Rightarrow> 'a list" where
  "splice1 xs i = take i xs @ drop (Suc i) xs"

fun repair_loop :: "item list \<Rightarrow> nat \<Rightarrow> nat \<Rightarrow> nat list list \<times> real list \<Rightarrow> nat list list \<times> real list" where
  "repair_loop items groupSize 0 st = st"
| "repair_loop items groupSize (Suc fuel) (byIdx, sms) =
     (case (first_index_where (\<lambda>g. length g > groupSize) byIdx,
            first_index_where (\<lambda>g. length g < groupSize) byIdx) of
        (Some donor, Some receiver) \<Rightarrow>
          (let currentDelta = delta_of sms;
               donorGroup = byIdx ! donor;
               bestIdxInDonor = fst (repair_scan items donorGroup sms donor receiver
                                       [0..<length donorGroup] (None, currentDelta));
               moveIdx = (case bestIdxInDonor of Some i \<Rightarrow> i | None \<Rightarrow> length donorGroup - 1);
               itemIdx = donorGroup ! moveIdx;
               c = cap items itemIdx;
               byIdx1 = byIdx[donor := splice1 donorGroup moveIdx];
               byIdx2 = byIdx1[receiver := byIdx1 ! receiver @ [itemIdx]];
               sms1 = sms[donor := sms ! donor - c];
               sms2 = sms1[receiver := sms1 ! receiver + c]
           in repair_loop items groupSize fuel (byIdx2, sms2))
      | _ \<Rightarrow> (byIdx, sms))"

text \<open>
  \<^verbatim>\<open>repairToExactSizes\<close>: \<^verbatim>\<open>while (iter < maxIters)\<close> makes at most \<open>maxIters\<close> passes; the
  sums are recomputed from the groups on entry.
\<close>

definition repairToExactSizes :: "item list \<Rightarrow> nat list list \<Rightarrow> nat \<Rightarrow> nat \<Rightarrow> nat list list" where
  "repairToExactSizes items byIdx groupSize maxIters =
     fst (repair_loop items groupSize maxIters (byIdx, map (sum_caps items) byIdx))"

text \<open>
  \<^verbatim>\<open>localOptimizeOneOne\<close>: each pass applies the first improving 1-1 swap, if any, and the
  loop ends after a pass without one or after \<open>maxLocalIters\<close> passes.
\<close>

definition improves11_kk :: "item list \<Rightarrow> nat list list \<Rightarrow> real list \<Rightarrow> nat \<times> nat \<times> nat \<times> nat \<Rightarrow> bool" where
  "improves11_kk items byIdx sms c =
     (case c of (g1, i1, g2, i2) \<Rightarrow>
        (let idx1 = byIdx ! g1 ! i1; idx2 = byIdx ! g2 ! i2;
             cap1 = cap items idx1; cap2 = cap items idx2;
             newSum1 = sms ! g1 - cap1 + cap2;
             newSum2 = sms ! g2 - cap2 + cap1;
             temp = sms[g1 := newSum1, g2 := newSum2]
         in js_less (delta_of temp) (delta_of sms)))"

definition apply11_kk :: "item list \<Rightarrow> nat list list \<times> real list \<Rightarrow> nat \<times> nat \<times> nat \<times> nat
     \<Rightarrow> nat list list \<times> real list" where
  "apply11_kk items st c =
     (case (st, c) of ((byIdx, sms), (g1, i1, g2, i2)) \<Rightarrow>
        (let idx1 = byIdx ! g1 ! i1; idx2 = byIdx ! g2 ! i2;
             cap1 = cap items idx1; cap2 = cap items idx2;
             newSum1 = sms ! g1 - cap1 + cap2;
             newSum2 = sms ! g2 - cap2 + cap1
         in (byIdx[g1 := (byIdx ! g1)[i1 := idx2], g2 := (byIdx ! g2)[i2 := idx1]],
             sms[g1 := newSum1, g2 := newSum2])))"

function localOptimize_loop ::
  "item list \<Rightarrow> nat \<Rightarrow> bool \<Rightarrow> nat \<Rightarrow> nat list list \<times> real list \<Rightarrow> nat \<times> nat list list" where
  "localOptimize_loop items maxLocalIters improved iters st =
     (if improved \<and> iters < maxLocalIters then
        (case find (improves11_kk items (fst st) (snd st)) (cands11 (length (fst st)) (fst st)) of
           Some c \<Rightarrow> localOptimize_loop items maxLocalIters True (iters + 1) (apply11_kk items st c)
         | None \<Rightarrow> localOptimize_loop items maxLocalIters False (iters + 1) st)
      else (iters, fst st))"
  by pat_completeness auto
termination
  by (relation "measure (\<lambda>(items, maxLocalIters, improved, iters, st). maxLocalIters - iters)") auto

definition localOptimizeOneOne :: "item list \<Rightarrow> nat list list \<Rightarrow> nat \<Rightarrow> nat \<times> nat list list" where
  "localOptimizeOneOne items byIdx maxLocalIters =
     localOptimize_loop items maxLocalIters True 0 (byIdx, map (sum_caps items) byIdx)"

text \<open>
  The two loops of \<^verbatim>\<open>kk\<close> over \<^verbatim>\<open>partitions\<close>, a list of (indices, sum). The first sorts by
  sum descending and removes the head with \<^verbatim>\<open>shift()\<close>; when that head has at most one
  index the loop is left by \<^verbatim>\<open>break\<close>, the head already removed.
\<close>

type_synonym partition_set = "nat list \<times> real"

function kk_split_loop :: "item list \<Rightarrow> nat \<Rightarrow> partition_set list \<Rightarrow> partition_set list" where
  "kk_split_loop items groups partitions =
     (if length partitions < groups then
        (case sort_cmp (\<lambda>a b. snd b - snd a) partitions of
           [] \<Rightarrow> []
         | topSet # rest \<Rightarrow>
             if length (fst topSet) \<le> 1 then rest
             else (let (left, right) = splitIntoTwo items (fst topSet)
                   in kk_split_loop items groups
                        (rest @ [(left, sum_caps items left), (right, sum_caps items right)])))
      else partitions)"
  by pat_completeness auto
termination
proof (relation "measure (\<lambda>(items, groups, partitions). groups - length partitions)", goal_cases)
  case 1
  show ?case by simp
next
  case (2 items groups partitions topSet rest x left right)
  have len: "length (sort_cmp cmp xs) = length xs" for cmp :: "partition_set \<Rightarrow> partition_set \<Rightarrow> real" and xs
  proof -
    have ins: "length (insort_cmp cmp x ys) = Suc (length ys)" for x ys
      by (induction ys) auto
    show ?thesis unfolding sort_cmp_def by (induction xs) (auto simp: ins)
  qed
  from 2(2) have "length partitions = Suc (length rest)"
    using len [of "\<lambda>a b. snd b - snd a" partitions] by simp
  with 2(1) show ?case by simp
qed

text \<open>
  The second loop merges the two smallest sets while there are more sets than groups;
  \<^verbatim>\<open>b.indices\<close> of a missing second set raises a TypeError.
\<close>

function kk_merge_loop :: "nat \<Rightarrow> partition_set list \<Rightarrow> err + partition_set list" where
  "kk_merge_loop groups partitions =
     (if length partitions > groups then
        (case sort_cmp (\<lambda>a b. snd a - snd b) partitions of
           a # b # rest \<Rightarrow> kk_merge_loop groups (rest @ [(fst a @ fst b, snd a + snd b)])
         | _ \<Rightarrow> Inl TypeError)
      else Inr partitions)"
  by pat_completeness auto
termination
proof (relation "measure (\<lambda>(groups, partitions). length partitions)", goal_cases)
  case 1
  show ?case by simp
next
  case (2 groups partitions a list b rest)
  have len: "length (sort_cmp cmp xs) = length xs" for cmp :: "partition_set \<Rightarrow> partition_set \<Rightarrow> real" and xs
  proof -
    have ins: "length (insort_cmp cmp x ys) = Suc (length ys)" for x ys
      by (induction ys) auto
    show ?thesis unfolding sort_cmp_def by (induction xs) (auto simp: ins)
  qed
  from 2(2,3) have "length partitions = Suc (Suc (length rest))"
    using len [of "\<lambda>a b. snd a - snd b" partitions] by simp
  then show ?case by simp
qed

record kk_options =
  maxRepairIters :: nat
  maxLocalIters :: nat

definition default_kk_options :: kk_options where
  "default_kk_options = \<lparr> maxRepairIters = 1000, maxLocalIters = 300 \<rparr>"

definition kk :: "item list \<Rightarrow> nat \<Rightarrow> nat \<Rightarrow> kk_options \<Rightarrow> err + grouping" where
  "kk items groups groupSize opts =
     (let allIndices = [0..<length items];
          initial = (allIndices, foldl (\<lambda>acc it. acc + capacity it) 0 items)
      in case kk_merge_loop groups (kk_split_loop items groups [initial]) of
           Inl e \<Rightarrow> Inl (AlgorithmError ''kk'')
         | Inr partitions \<Rightarrow>
             (let byIdx0 = map fst partitions;
                  byIdx1 = repairToExactSizes items byIdx0 groupSize (maxRepairIters opts);
                  (localIters, byIdx) = localOptimizeOneOne items byIdx1 (maxLocalIters opts);
                  sms = map (sum_caps items) byIdx
              in Inr \<lparr> groupsById = map (map (\<lambda>idx. item_id (items ! idx))) byIdx,
                       groupsByIndex = byIdx, groupSums = sms,
                       delta = delta_of sms, stdev = stdev_of sms groups,
                       iterations = Some (1 + localIters), methodUsed = ''kk'' \<rparr>))"

section \<open>Dynamic programming\<close>

text \<open>
  A solver reads the wall clock only to compare the time elapsed since its start with its
  budget. \<open>elapsed k\<close> is \<^verbatim>\<open>performance.now() - startTime\<close> as read at the \<open>k\<close>-th such
  check of one invocation (counted by the solver's own iteration counter).
\<close>

type_synonym clock = "nat \<Rightarrow> real"

text \<open>Kahan summation, as written; over exact reals the compensation stays zero.\<close>

definition kahanSum :: "real list \<Rightarrow> real" where
  "kahanSum vals =
     fst (foldl (\<lambda>(sum, c) v. (let y = v - c; t = sum + y in (t, t - sum - y))) (0, 0) vals)"

record dp_options =
  dp_maxIters :: nat
  dp_timeLimitMs :: real
  maxTotalSum :: real
  maxItems :: nat

definition default_dp_options :: dp_options where
  "default_dp_options = \<lparr> dp_maxIters = 1000, dp_timeLimitMs = 5000, maxTotalSum = 10000, maxItems = 20 \<rparr>"

text \<open>\<^verbatim>\<open>Math.round\<close> rounds half up.\<close>

definition math_round :: "real \<Rightarrow> real" where
  "math_round x = real_of_int \<lfloor>x + 1 / 2\<rfloor>"

text \<open>
  \<^verbatim>\<open>Math.max(1, Math.floor(1000 / Math.max(...capacities)))\<close>. With no capacity the inner
  maximum is \<^verbatim>\<open>-Infinity\<close> and the factor is 1; a largest capacity of exactly 0 makes it
  \<^verbatim>\<open>Infinity\<close>.
\<close>

definition scaleFactor_of :: "real list \<Rightarrow> jsnum" where
  "scaleFactor_of capacities =
     (case math_max capacities of
        Fin m \<Rightarrow> (if m = 0 then PosInf else Fin (max 1 (real_of_int \<lfloor>1000 / m\<rfloor>)))
      | _ \<Rightarrow> Fin 1)"

text \<open>
  The table \<^verbatim>\<open>dp[i][j]\<close> (\<open>None\<close> is \<^verbatim>\<open>Infinity\<close>) and \<^verbatim>\<open>parent[i][j]\<close> (\<open>None\<close> is \<open>-1\<close>).
\<close>

type_synonym dp_tables = "real option list list \<times> nat option list list"

definition dp_cell :: "nat \<Rightarrow> real list \<Rightarrow> real \<Rightarrow> nat \<Rightarrow> dp_tables \<Rightarrow> nat \<Rightarrow> dp_tables" where
  "dp_cell groupSize scaledCapacities scaledTargetSum i tbl j =
     (case tbl of (dp, parent) \<Rightarrow>
        if i \<ge> groupSize then
          (let prevItems = i - groupSize; prevGroups = j - 1
           in case dp ! prevItems ! prevGroups of
                None \<Rightarrow> tbl
              | Some prevDelta \<Rightarrow>
                  (let groupSum = foldl (\<lambda>acc k. acc + scaledCapacities ! k) 0 [prevItems..<i];
                       currentDelta = \<bar>groupSum - scaledTargetSum\<bar>;
                       newDelta = max prevDelta currentDelta
                   in if (case dp ! i ! j of None \<Rightarrow> True | Some cur \<Rightarrow> newDelta < cur)
                      then (dp[i := (dp ! i)[j := Some newDelta]],
                            parent[i := (parent ! i)[j := Some prevItems]])
                      else tbl))
        else tbl)"

text \<open>
  The fill loop. \<open>scaled\<close> is \<open>None\<close> when the scale factor is \<^verbatim>\<open>Infinity\<close>: every scaled
  value is then \<^verbatim>\<open>NaN\<close> or \<^verbatim>\<open>-Infinity\<close>, every \<^verbatim>\<open>newDelta\<close> is \<^verbatim>\<open>NaN\<close> and no cell changes.
\<close>

fun dp_fill :: "dp_options \<Rightarrow> clock \<Rightarrow> nat \<Rightarrow> nat \<Rightarrow> (real list \<times> real) option \<Rightarrow> nat list
     \<Rightarrow> dp_tables \<times> nat \<Rightarrow> dp_tables \<times> nat" where
  "dp_fill opts elapsed groups groupSize scaled [] st = st"
| "dp_fill opts elapsed groups groupSize scaled (i # rest) (tbl, iters) =
     (let tbl' = (case scaled of
                    None \<Rightarrow> tbl
                  | Some (scaledCapacities, scaledTargetSum) \<Rightarrow>
                      foldl (dp_cell groupSize scaledCapacities scaledTargetSum i) tbl [1..<groups + 1]);
          iters' = iters + 1
      in if iters' > dp_maxIters opts \<or> elapsed iters' > dp_timeLimitMs opts then (tbl', iters')
         else dp_fill opts elapsed groups groupSize scaled rest (tbl', iters'))"

fun dp_reconstruct :: "nat option list list \<Rightarrow> nat \<Rightarrow> nat \<Rightarrow> nat list list \<Rightarrow> nat list list" where
  "dp_reconstruct parent 0 currentItems byIdx = byIdx"
| "dp_reconstruct parent (Suc g) currentItems byIdx =
     (if currentItems > 0 then
        (case parent ! currentItems ! Suc g of
           Some prevItems \<Rightarrow>
             dp_reconstruct parent g prevItems (byIdx[g := byIdx ! g @ [prevItems..<currentItems]])
         | None \<Rightarrow> byIdx)
      else byIdx)"

text \<open>\<^verbatim>\<open>items.findIndex(it => it.id === id)\<close>; \<open>None\<close> is \<open>-1\<close>.\<close>

definition findIndex_id :: "item list \<Rightarrow> ident \<Rightarrow> nat option" where
  "findIndex_id items i = first_index_where (\<lambda>it. item_id it = i) items"

text \<open>
  The greedy fallback shared by \<^verbatim>\<open>dp\<close> and \<^verbatim>\<open>backtracking\<close>: the sorted items are dealt
  cyclically, each under the index \<^verbatim>\<open>findIndex\<close> gives for its id.
\<close>

fun cyclic_by_id :: "item list \<Rightarrow> nat \<Rightarrow> (item \<times> nat) list \<Rightarrow> nat list list \<Rightarrow> nat list list" where
  "cyclic_by_id items groups [] byIdx = byIdx"
| "cyclic_by_id items groups ((s, i) # rest) byIdx =
     (let gi = i mod groups
      in case findIndex_id items (item_id s) of
           Some idx \<Rightarrow> cyclic_by_id items groups rest (byIdx[gi := byIdx ! gi @ [idx]])
         | None \<Rightarrow> cyclic_by_id items groups rest byIdx)"

definition dp :: "clock \<Rightarrow> item list \<Rightarrow> nat \<Rightarrow> nat \<Rightarrow> dp_options \<Rightarrow> err + solver_result" where
  "dp elapsed items groups groupSize opts =
     (let totalItems = length items in
      if totalItems \<noteq> groups * groupSize
      then Inl (JsError ''DP requires exact group size constraints'')
      else if totalItems > maxItems opts
      then Inl (JsError ''DP algorithm restricted to small problems'')
      else
        (let sortedItems = sort_cmp compareItemsByCapacity items;
             capacities = map capacity sortedItems;
             totalSum = kahanSum capacities
         in if totalSum > maxTotalSum opts
            then Inl (JsError ''DP algorithm restricted to bounded total capacity'')
            else
              (let targetSum = totalSum / real groups;
                   scaled = (case scaleFactor_of capacities of
                               Fin scaleFactor \<Rightarrow>
                                 Some (map (\<lambda>c. math_round (c * scaleFactor)) capacities,
                                       math_round (targetSum * scaleFactor))
                             | _ \<Rightarrow> None);
                   tooBig = (case scaled of
                               None \<Rightarrow> False
                             | Some (scaledCapacities, scaledTargetSum) \<Rightarrow>
                                 real (totalItems + 1) * real (groups + 1) *
                                   (foldl (+) 0 scaledCapacities + 1) * 8 > 50 * 1024 * 1024)
               in if tooBig then Inl (JsError ''DP algorithm would require too much memory'')
                  else
                    (let dp0 = (replicate (totalItems + 1) (replicate (groups + 1) None))
                                 [0 := (replicate (groups + 1) None)[0 := Some 0]];
                         parent0 = replicate (totalItems + 1) (replicate (groups + 1) None);
                         ((dpT, parent), iters) =
                            dp_fill opts elapsed groups groupSize scaled [1..<totalItems + 1]
                              ((dp0, parent0), 0)
                     in if dpT ! totalItems ! groups = None
                        then (let byIdx = cyclic_by_id items groups (indexed sortedItems)
                                            (replicate groups [])
                              in Inr \<lparr> srGroupsByIndex = byIdx,
                                       srGroupSums = map (sum_caps items) byIdx,
                                       srIterations = iters, srMethod = ''dp-fallback'' \<rparr>)
                        else (let byIdx = dp_reconstruct parent groups totalItems (replicate groups [])
                              in Inr \<lparr> srGroupsByIndex = byIdx,
                                       srGroupSums = map (sum_caps items) byIdx,
                                       srIterations = iters, srMethod = ''dp-integer-scaled'' \<rparr>)))))"

section \<open>Backtracking\<close>

record bt_options =
  bt_maxIters :: nat
  bt_timeLimitMs :: real
  enablePruning :: bool
  enableEarlyTermination :: bool
  enableBoundCalculation :: bool
  maxRecursionDepth :: nat

definition default_bt_options :: bt_options where
  "default_bt_options = \<lparr> bt_maxIters = 10000, bt_timeLimitMs = 10000, enablePruning = True,
     enableEarlyTermination = True, enableBoundCalculation = True, maxRecursionDepth = 50 \<rparr>"

text \<open>The values the closure of \<^verbatim>\<open>backtrackRecursive\<close> captures.\<close>

record bt_env =
  env_opts :: bt_options
  env_elapsed :: clock
  env_capacities :: "real list"
  env_totalItems :: nat
  env_targetGroupSize :: nat
  env_targetGroups :: nat
  env_totalSum :: real
  env_targetSum :: real

text \<open>The variables it updates; \<open>bestDelta = None\<close> is \<^verbatim>\<open>Infinity\<close>.\<close>

record bt_state =
  bt_iterations :: nat
  bestDelta :: "real option"
  bestGroups :: "nat list list"

definition at_least_best :: "real \<Rightarrow> real option \<Rightarrow> bool" where
  "at_least_best x best = (case best of None \<Rightarrow> False | Some b \<Rightarrow> x \<ge> b)"

definition calculateLowerBound :: "bt_env \<Rightarrow> nat list list \<Rightarrow> real list \<Rightarrow> real" where
  "calculateLowerBound env currentGroups currentSums =
     (if \<not> enableBoundCalculation (env_opts env) then 0
      else
        (let currentDelta =
               foldl (\<lambda>d g. if currentSums ! g > 0
                             then max d \<bar>currentSums ! g - env_targetSum env\<bar> else d)
                 0 [0..<env_targetGroups env];
             remainingCapacity = env_totalSum env - kahanSum currentSums;
             remainingItems = env_totalItems env - foldl (\<lambda>s g. s + length g) 0 currentGroups
         in if remainingItems = 0 then currentDelta
            else (let avgRemainingPerGroup = remainingCapacity / real (env_targetGroups env)
                  in max currentDelta \<bar>avgRemainingPerGroup - env_targetSum env\<bar>)))"

definition canImprove :: "bt_env \<Rightarrow> bt_state \<Rightarrow> nat list list \<Rightarrow> real list \<Rightarrow> real \<Rightarrow> bool" where
  "canImprove env st currentGroups currentSums currentDelta =
     (if \<not> enablePruning (env_opts env) then True
      else if at_least_best currentDelta (bestDelta st) then False
      else if at_least_best (calculateLowerBound env currentGroups currentSums) (bestDelta st) then False
      else if env_totalItems env - foldl (\<lambda>s g. s + length g) 0 currentGroups = 0 then True
      else if (\<exists>g \<in> set [0..<env_targetGroups env].
                 length (currentGroups ! g) = env_targetGroupSize env \<and>
                 currentSums ! g > env_targetSum env * 1.5) then False
      else True)"

function backtrackRecursive ::
  "bt_env \<Rightarrow> nat \<Rightarrow> nat list list \<Rightarrow> real list \<Rightarrow> real \<Rightarrow> nat \<Rightarrow> bt_state \<Rightarrow> bt_state" where
  "backtrackRecursive env itemIndex currentGroups currentSums currentDelta recursionDepth st =
     (let st1 = st \<lparr> bt_iterations := bt_iterations st + 1 \<rparr> in
      if bt_iterations st1 > bt_maxIters (env_opts env) \<or>
         env_elapsed env (bt_iterations st1) > bt_timeLimitMs (env_opts env) then st1
      else if recursionDepth > maxRecursionDepth (env_opts env) then st1
      else if enableEarlyTermination (env_opts env) \<and>
              (case bestDelta st1 of None \<Rightarrow> False | Some b \<Rightarrow> b \<le> 0.1) then st1
      else if \<not> canImprove env st1 currentGroups currentSums currentDelta then st1
      else if itemIndex = env_totalItems env then
        (if \<not> at_least_best currentDelta (bestDelta st1)
         then st1 \<lparr> bestDelta := Some currentDelta, bestGroups := currentGroups \<rparr>
         else st1)
      else
        foldl (\<lambda>s g.
                 if length (currentGroups ! g) < env_targetGroupSize env then
                   (let newSum = currentSums ! g + env_capacities env ! itemIndex;
                        newDelta = max currentDelta \<bar>newSum - env_targetSum env\<bar>
                    in backtrackRecursive env (itemIndex + 1)
                         (currentGroups[g := currentGroups ! g @ [itemIndex]])
                         (currentSums[g := newSum]) newDelta (recursionDepth + 1) s)
                 else s)
          st1 [0..<env_targetGroups env])"
  by pat_completeness auto
termination
  by (relation "measure (\<lambda>(env, itemIndex, currentGroups, currentSums, currentDelta, recursionDepth, st).
                   Suc (maxRecursionDepth (env_opts env)) - recursionDepth)") auto

text \<open>
  The conversion of the best groups (indices into the sorted items) back to indices of
  \<open>items\<close>, by id.
\<close>

definition to_original :: "item list \<Rightarrow> item list \<Rightarrow> nat list \<Rightarrow> nat list" where
  "to_original items sortedItems grp =
     concat (map (\<lambda>sortedIndex.
                    case findIndex_id items (item_id (sortedItems ! sortedIndex)) of
                      Some originalIndex \<Rightarrow> [originalIndex]
                    | None \<Rightarrow> []) grp)"

definition backtracking :: "clock \<Rightarrow> item list \<Rightarrow> nat \<Rightarrow> nat \<Rightarrow> bt_options \<Rightarrow> err + solver_result" where
  "backtracking elapsed items groups groupSize opts =
     (let totalItems = length items in
      if totalItems \<noteq> groups * groupSize
      then Inl (JsError ''Backtracking requires exact group size constraints'')
      else
        (let sortedItems = sort_cmp (\<lambda>a b. capacity b - capacity a) items;
             capacities = map capacity sortedItems;
             totalSum = kahanSum capacities;
             env = \<lparr> env_opts = opts, env_elapsed = elapsed, env_capacities = capacities,
                     env_totalItems = totalItems, env_targetGroupSize = groupSize,
                     env_targetGroups = groups, env_totalSum = totalSum,
                     env_targetSum = totalSum / real groups \<rparr>;
             final = backtrackRecursive env 0 (replicate groups []) (replicate groups 0) 0 0
                       \<lparr> bt_iterations = 0, bestDelta = None, bestGroups = [] \<rparr>
         in if bestGroups final = []
            then (let byIdx = cyclic_by_id items groups (indexed sortedItems) (replicate groups [])
                  in Inr \<lparr> srGroupsByIndex = byIdx, srGroupSums = map (sum_caps items) byIdx,
                           srIterations = bt_iterations final, srMethod = ''backtracking-fallback'' \<rparr>)
            else (let byIdx = map (to_original items sortedItems) (take groups (bestGroups final))
                  in Inr \<lparr> srGroupsByIndex = byIdx, srGroupSums = map (sum_caps items) byIdx,
                           srIterations = bt_iterations final, srMethod = ''backtracking'' \<rparr>)))"

section \<open>Metaheuristics\<close>

record mh_options =
  mh_type :: string
  mh_maxIters :: nat
  mh_timeLimitMs :: real
  mh_seed :: "real option"
  populationSize :: nat
  mutationRate :: real
  crossoverRate :: real
  eliteSize :: nat
  initialTemperature :: real
  coolingRate :: real
  minTemperature :: real
  tabuSize :: nat
  aspirationCriteria :: bool

definition default_mh_options :: "string \<Rightarrow> mh_options" where
  "default_mh_options ty = \<lparr> mh_type = ty, mh_maxIters = 1000, mh_timeLimitMs = 10000,
     mh_seed = None, populationSize = 50, mutationRate = 0.1, crossoverRate = 0.8, eliteSize = 5,
     initialTemperature = 1000, coolingRate = 0.95, minTemperature = 0.1, tabuSize = 20,
     aspirationCriteria = True \<rparr>"

record mh_result = solver_result +
  srFitness :: real

text \<open>
  The seeded generator: \<^verbatim>\<open>randState = (seed ?? 123456789) >>> 0\<close>, then each call does
  \<^verbatim>\<open>randState = (1664525 * randState + 1013904223) >>> 0; return randState / 0xffffffff\<close>.
  The product stays below \<open>2^53\<close>, so the doubles are exact integers.
\<close>

definition to_uint32 :: "real \<Rightarrow> int" where
  "to_uint32 x = (if x \<ge> 0 then \<lfloor>x\<rfloor> else \<lceil>x\<rceil>) mod 4294967296"

definition init_rand :: "real option \<Rightarrow> int" where
  "init_rand seed = to_uint32 (case seed of None \<Rightarrow> 123456789 | Some x \<Rightarrow> x)"

definition lcg_next :: "int \<Rightarrow> int" where
  "lcg_next randState = (1664525 * randState + 1013904223) mod 4294967296"

definition rand :: "int \<Rightarrow> real \<times> int" where
  "rand randState = (real_of_int (lcg_next randState) / 4294967295, lcg_next randState)"

text \<open>\<^verbatim>\<open>Math.floor(rand() * n)\<close>, with the new generator state.\<close>

definition rand_below :: "nat \<Rightarrow> int \<Rightarrow> nat \<times> int" where
  "rand_below n randState = (nat \<lfloor>fst (rand randState) * real n\<rfloor>, snd (rand randState))"

text \<open>
  A solution is an array of arrays of indices. Reading an array past its end gives
  \<^verbatim>\<open>undefined\<close> and writing past its end extends it; \<^verbatim>\<open>undefined\<close> is represented by the
  number \<open>u = items.length\<close>, which like \<^verbatim>\<open>undefined\<close> is no index of \<open>items\<close> and no member of
  \<open>[0, items.length)\<close>.
\<close>

definition js_get :: "nat \<Rightarrow> nat list \<Rightarrow> nat \<Rightarrow> nat" where
  "js_get u xs i = (if i < length xs then xs ! i else u)"

definition js_put :: "nat \<Rightarrow> nat list \<Rightarrow> nat \<Rightarrow> nat \<Rightarrow> nat list" where
  "js_put u xs i v = (if i < length xs then xs[i := v] else xs @ replicate (i - length xs) u @ [v])"

text \<open>
  \<^verbatim>\<open>[s[g1][i1], s[g2][i2]] = [s[g2][i2], s[g1][i1]]\<close> on a copy of \<open>s\<close>; indexing a missing
  group raises a TypeError.
\<close>

definition swap_entries :: "nat \<Rightarrow> nat list list \<Rightarrow> nat \<Rightarrow> nat \<Rightarrow> nat \<Rightarrow> nat \<Rightarrow> err + nat list list" where
  "swap_entries u sol g1 i1 g2 i2 =
     (if g2 < length sol \<and> g1 < length sol then
        (let v2 = js_get u (sol ! g2) i2;
             v1 = js_get u (sol ! g1) i1;
             sol1 = sol[g1 := js_put u (sol ! g1) i1 v2]
         in Inr (sol1[g2 := js_put u (sol1 ! g2) i2 v1]))
      else Inl TypeError)"

fun mh_group_sums :: "item list \<Rightarrow> nat \<Rightarrow> nat list list \<Rightarrow> nat list \<Rightarrow> err + real list" where
  "mh_group_sums items u sol [] = Inr []"
| "mh_group_sums items u sol (g # gs) =
     (if g < length sol \<and> list_all (\<lambda>idx. idx < length items) (sol ! g) then
        (case mh_group_sums items u sol gs of
           Inl e \<Rightarrow> Inl e
         | Inr rest \<Rightarrow> Inr (foldl (\<lambda>acc idx. acc + cap items idx) 0 (sol ! g) # rest))
      else Inl TypeError)"

definition calculateGroupSums :: "item list \<Rightarrow> nat \<Rightarrow> nat list list \<Rightarrow> err + real list" where
  "calculateGroupSums items targetGroups sol =
     mh_group_sums items (length items) sol [0..<targetGroups]"

text \<open>\<^verbatim>\<open>calculateFitness\<close>: \<^verbatim>\<open>1 / (1 + delta)\<close>; with no group the delta is \<^verbatim>\<open>-Infinity\<close>.\<close>

definition calculateFitness :: "item list \<Rightarrow> nat \<Rightarrow> nat list list \<Rightarrow> err + real" where
  "calculateFitness items targetGroups sol =
     (case calculateGroupSums items targetGroups sol of
        Inl e \<Rightarrow> Inl e
      | Inr sms \<Rightarrow> (case delta_of sms of Fin d \<Rightarrow> Inr (1 / (1 + d)) | _ \<Rightarrow> Inr 0))"

text \<open>The Fisher-Yates shuffle, \<open>i\<close> from the last position down to 1.\<close>

fun shuffle_loop :: "nat \<Rightarrow> nat list \<Rightarrow> nat list \<times> int \<Rightarrow> nat list \<times> int" where
  "shuffle_loop u [] st = st"
| "shuffle_loop u (i # rest) (arr, randState) =
     (let (j, randState') = rand_below (i + 1) randState;
          vj = js_get u arr j; vi = js_get u arr i;
          arr1 = js_put u arr i vj
      in shuffle_loop u rest (js_put u arr1 j vi, randState'))"

fun deal_cyclic :: "nat \<Rightarrow> (nat \<times> nat) list \<Rightarrow> nat list list \<Rightarrow> nat list list" where
  "deal_cyclic groups [] sol = sol"
| "deal_cyclic groups ((v, i) # rest) sol =
     (let groupIndex = i mod groups
      in deal_cyclic groups rest (sol[groupIndex := sol ! groupIndex @ [v]]))"

definition generateRandomSolution :: "nat \<Rightarrow> nat \<Rightarrow> int \<Rightarrow> nat list list \<times> int" where
  "generateRandomSolution totalItems targetGroups randState =
     (let (shuffled, randState') =
            shuffle_loop totalItems (rev [1..<totalItems]) ([0..<totalItems], randState)
      in (deal_cyclic targetGroups (take totalItems (indexed shuffled)) (replicate targetGroups []),
          randState'))"

text \<open>\<^verbatim>\<open>mutate\<close> and \<^verbatim>\<open>generateNeighbor\<close>: one random swap between two distinct groups.\<close>

definition mutate :: "nat \<Rightarrow> nat \<Rightarrow> nat \<Rightarrow> nat list list \<Rightarrow> int \<Rightarrow> err + nat list list \<times> int" where
  "mutate u targetGroups targetGroupSize sol randState =
     (let (g1, r1) = rand_below targetGroups randState;
          (g2, r2) = rand_below targetGroups r1
      in if g1 \<noteq> g2 then
           (let (i1, r3) = rand_below targetGroupSize r2;
                (i2, r4) = rand_below targetGroupSize r3
            in case swap_entries u sol g1 i1 g2 i2 of
                 Inl e \<Rightarrow> Inl e
               | Inr sol' \<Rightarrow> Inr (sol', r4))
         else Inr (sol, r2))"

text \<open>
  \<^verbatim>\<open>crossover\<close>: slot by slot a coin picks the parent whose entry is taken unless already
  used; then every index not used goes to the first group with space.
\<close>

fun crossover_pick ::
  "nat \<Rightarrow> nat list list \<Rightarrow> nat list list \<Rightarrow> (nat \<times> nat) list \<Rightarrow> nat list list \<times> nat list \<times> int
     \<Rightarrow> err + nat list list \<times> nat list \<times> int" where
  "crossover_pick u parent1 parent2 [] st = Inr st"
| "crossover_pick u parent1 parent2 ((g, i) # rest) (child, usedItems, randState) =
     (let (r, randState') = rand randState;
          parent = (if r < 0.5 then parent1 else parent2)
      in if g < length parent then
           (let it = js_get u (parent ! g) i
            in if it \<notin> set usedItems
               then crossover_pick u parent1 parent2 rest
                      (child[g := child ! g @ [it]], usedItems @ [it], randState')
               else crossover_pick u parent1 parent2 rest (child, usedItems, randState'))
         else Inl TypeError)"

fun crossover_fill :: "nat \<Rightarrow> nat list \<Rightarrow> nat list \<Rightarrow> nat list list \<Rightarrow> nat list list" where
  "crossover_fill targetGroupSize usedItems [] child = child"
| "crossover_fill targetGroupSize usedItems (i # rest) child =
     (if i \<notin> set usedItems then
        (case first_index_where (\<lambda>grp. length grp < targetGroupSize) child of
           Some g \<Rightarrow> crossover_fill targetGroupSize usedItems rest (child[g := child ! g @ [i]])
         | None \<Rightarrow> crossover_fill targetGroupSize usedItems rest child)
      else crossover_fill targetGroupSize usedItems rest child)"

definition crossover ::
  "nat \<Rightarrow> nat \<Rightarrow> nat \<Rightarrow> nat list list \<Rightarrow> nat list list \<Rightarrow> int \<Rightarrow> err + nat list list \<times> int" where
  "crossover totalItems targetGroups targetGroupSize parent1 parent2 randState =
     (case crossover_pick totalItems parent1 parent2
             (concat (map (\<lambda>g. map (\<lambda>i. (g, i)) [0..<targetGroupSize]) [0..<targetGroups]))
             (replicate targetGroups [], [], randState) of
        Inl e \<Rightarrow> Inl e
      | Inr (child, usedItems, randState') \<Rightarrow>
          Inr (crossover_fill targetGroupSize usedItems [0..<totalItems] child, randState'))"

text \<open>The genetic algorithm.\<close>

record mh_env =
  mhe_items :: "item list"
  mhe_groups :: nat
  mhe_groupSize :: nat
  mhe_opts :: mh_options
  mhe_elapsed :: clock

type_synonym solution = "nat list list"

fun init_population :: "mh_env \<Rightarrow> nat \<Rightarrow> solution list \<times> int \<Rightarrow> solution list \<times> int" where
  "init_population env 0 st = st"
| "init_population env (Suc k) (population, randState) =
     (let (sol, randState') = generateRandomSolution (length (mhe_items env)) (mhe_groups env) randState
      in init_population env k (population @ [sol], randState'))"

text \<open>The fitness scan of one generation, which also updates the best solution.\<close>

fun ga_evaluate :: "mh_env \<Rightarrow> solution list \<Rightarrow> (solution \<times> real) list \<times> solution \<times> real
     \<Rightarrow> err + (solution \<times> real) list \<times> solution \<times> real" where
  "ga_evaluate env [] st = Inr st"
| "ga_evaluate env (sol # rest) (fitnessScores, bestSolution, bestFitness) =
     (case calculateFitness (mhe_items env) (mhe_groups env) sol of
        Inl e \<Rightarrow> Inl e
      | Inr fitness \<Rightarrow>
          ga_evaluate env rest
            (fitnessScores @ [(sol, fitness)],
             if fitness > bestFitness then sol else bestSolution,
             if fitness > bestFitness then fitness else bestFitness))"

text \<open>One new non-elite member: crossover of two elite parents or a copy, then mutation.\<close>

definition ga_offspring :: "mh_env \<Rightarrow> (solution \<times> real) list \<Rightarrow> int \<Rightarrow> err + solution \<times> int" where
  "ga_offspring env fitnessScores randState =
     (let opts = mhe_opts env; u = length (mhe_items env);
          (r, s1) = rand randState;
          made =
            (if r < crossoverRate opts then
               (let (p1, s2) = rand_below (eliteSize opts) s1;
                    (p2, s3) = rand_below (eliteSize opts) s2
                in if p1 < length fitnessScores \<and> p2 < length fitnessScores
                   then crossover u (mhe_groups env) (mhe_groupSize env)
                          (fst (fitnessScores ! p1)) (fst (fitnessScores ! p2)) s3
                   else Inl TypeError)
             else
               (let (k, s2) = rand_below (populationSize opts) s1
                in if k < length fitnessScores then Inr (fst (fitnessScores ! k), s2)
                   else Inl TypeError))
      in case made of
           Inl e \<Rightarrow> Inl e
         | Inr (newSolution, s4) \<Rightarrow>
             (let (r', s5) = rand s4
              in if r' < mutationRate opts
                 then mutate u (mhe_groups env) (mhe_groupSize env) newSolution s5
                 else Inr (newSolution, s5)))"

fun ga_fill :: "mh_env \<Rightarrow> (solution \<times> real) list \<Rightarrow> nat \<Rightarrow> solution list \<times> int
     \<Rightarrow> err + solution list \<times> int" where
  "ga_fill env fitnessScores 0 st = Inr st"
| "ga_fill env fitnessScores (Suc k) (newPopulation, randState) =
     (case ga_offspring env fitnessScores randState of
        Inl e \<Rightarrow> Inl e
      | Inr (newSolution, randState') \<Rightarrow>
          ga_fill env fitnessScores k (newPopulation @ [newSolution], randState'))"

record ga_state =
  ga_population :: "solution list"
  ga_bestSolution :: solution
  ga_bestFitness :: real
  ga_iterations :: nat
  ga_randState :: int

definition ga_generation :: "mh_env \<Rightarrow> ga_state \<Rightarrow> err + ga_state" where
  "ga_generation env st =
     (let opts = mhe_opts env in
      case ga_evaluate env (take (populationSize opts) (ga_population st))
             ([], ga_bestSolution st, ga_bestFitness st) of
        Inl e \<Rightarrow> Inl e
      | Inr (fitnessScores, bestSolution, bestFitness) \<Rightarrow>
          (let sorted = sort_cmp (\<lambda>a b. snd b - snd a) fitnessScores
           in if eliteSize opts > length sorted then Inl TypeError
              else
                (case ga_fill env sorted (populationSize opts - eliteSize opts)
                        (map fst (take (eliteSize opts) sorted), ga_randState st) of
                   Inl e \<Rightarrow> Inl e
                 | Inr (newPopulation, randState') \<Rightarrow>
                     Inr (st \<lparr> ga_population := take (populationSize opts) newPopulation,
                               ga_bestSolution := bestSolution, ga_bestFitness := bestFitness,
                               ga_randState := randState' \<rparr>))))"

fun ga_loop :: "mh_env \<Rightarrow> nat \<Rightarrow> ga_state \<Rightarrow> err + ga_state" where
  "ga_loop env 0 st = Inr st"
| "ga_loop env (Suc remaining) st =
     (let st1 = st \<lparr> ga_iterations := ga_iterations st + 1 \<rparr>
      in if mhe_elapsed env (ga_iterations st1) > mh_timeLimitMs (mhe_opts env) then Inr st1
         else (case ga_generation env st1 of
                 Inl e \<Rightarrow> Inl e
               | Inr st2 \<Rightarrow> ga_loop env remaining st2))"

definition mh_finish :: "mh_env \<Rightarrow> string \<Rightarrow> solution \<Rightarrow> real \<Rightarrow> nat \<Rightarrow> err + mh_result" where
  "mh_finish env name bestSolution bestFitness iters =
     (case calculateGroupSums (mhe_items env) (mhe_groups env) bestSolution of
        Inl e \<Rightarrow> Inl e
      | Inr sms \<Rightarrow>
          Inr \<lparr> srGroupsByIndex = bestSolution, srGroupSums = sms, srIterations = iters,
                srMethod = name, srFitness = bestFitness \<rparr>)"

text \<open>
  \<^verbatim>\<open>geneticAlgorithm\<close>. \<^verbatim>\<open>population[0]\<close> of an empty population is \<^verbatim>\<open>undefined\<close>, whose
  fitness cannot be computed (a TypeError, unless there is no group to look at; that corner,
  \<open>populationSize = 0\<close> with \<open>groups = 0\<close>, is outside this model and treated alike).
\<close>

definition geneticAlgorithm :: "mh_env \<Rightarrow> int \<Rightarrow> err + mh_result" where
  "geneticAlgorithm env randState =
     (let opts = mhe_opts env;
          (population, randState') = init_population env (populationSize opts) ([], randState)
      in case population of
           [] \<Rightarrow> Inl TypeError
         | first # _ \<Rightarrow>
             (case calculateFitness (mhe_items env) (mhe_groups env) first of
                Inl e \<Rightarrow> Inl e
              | Inr bestFitness \<Rightarrow>
                  (case ga_loop env (mh_maxIters opts)
                          \<lparr> ga_population = population, ga_bestSolution = first,
                            ga_bestFitness = bestFitness, ga_iterations = 0,
                            ga_randState = randState' \<rparr> of
                     Inl e \<Rightarrow> Inl e
                   | Inr st \<Rightarrow>
                       mh_finish env ''metaheuristic-genetic'' (ga_bestSolution st)
                         (ga_bestFitness st) (ga_iterations st))))"

text \<open>Simulated annealing.\<close>

record sa_state =
  sa_current :: solution
  sa_currentFitness :: real
  sa_bestSolution :: solution
  sa_bestFitness :: real
  sa_temperature :: real
  sa_iterations :: nat
  sa_randState :: int

text \<open>
  \<^verbatim>\<open>deltaFitness > 0 || rand() < Math.exp(deltaFitness / temperature)\<close>; the generator is
  only advanced when the first test fails. At temperature 0 the quotient is \<^verbatim>\<open>-Infinity\<close>
  or \<^verbatim>\<open>NaN\<close> and the second test fails.
\<close>

definition sa_accept :: "real \<Rightarrow> real \<Rightarrow> int \<Rightarrow> bool \<times> int" where
  "sa_accept deltaFitness temperature randState =
     (if deltaFitness > 0 then (True, randState)
      else (let (r, randState') = rand randState
            in (temperature \<noteq> 0 \<and> r < exp (deltaFitness / temperature), randState')))"

definition sa_step :: "mh_env \<Rightarrow> sa_state \<Rightarrow> err + sa_state" where
  "sa_step env st =
     (let opts = mhe_opts env in
      case mutate (length (mhe_items env)) (mhe_groups env) (mhe_groupSize env)
             (sa_current st) (sa_randState st) of
        Inl e \<Rightarrow> Inl e
      | Inr (neighbor, r1) \<Rightarrow>
          (case calculateFitness (mhe_items env) (mhe_groups env) neighbor of
             Inl e \<Rightarrow> Inl e
           | Inr neighborFitness \<Rightarrow>
               (let deltaFitness = neighborFitness - sa_currentFitness st;
                    (accepted, r2) = sa_accept deltaFitness (sa_temperature st) r1;
                    st1 = (if accepted
                           then st \<lparr> sa_current := neighbor, sa_currentFitness := neighborFitness,
                                     sa_bestSolution := (if neighborFitness > sa_bestFitness st
                                                         then neighbor else sa_bestSolution st),
                                     sa_bestFitness := (if neighborFitness > sa_bestFitness st
                                                        then neighborFitness else sa_bestFitness st) \<rparr>
                           else st);
                    t = sa_temperature st * coolingRate opts
                in Inr (st1 \<lparr> sa_temperature := (if t < minTemperature opts then minTemperature opts else t),
                              sa_randState := r2 \<rparr>))))"

fun sa_loop :: "mh_env \<Rightarrow> nat \<Rightarrow> sa_state \<Rightarrow> err + sa_state" where
  "sa_loop env 0 st = Inr st"
| "sa_loop env (Suc remaining) st =
     (let st1 = st \<lparr> sa_iterations := sa_iterations st + 1 \<rparr>
      in if mhe_elapsed env (sa_iterations st1) > mh_timeLimitMs (mhe_opts env) then Inr st1
         else (case sa_step env st1 of
                 Inl e \<Rightarrow> Inl e
               | Inr st2 \<Rightarrow> sa_loop env remaining st2))"

definition simulatedAnnealing :: "mh_env \<Rightarrow> int \<Rightarrow> err + mh_result" where
  "simulatedAnnealing env randState =
     (let opts = mhe_opts env;
          (currentSolution, randState') =
             generateRandomSolution (length (mhe_items env)) (mhe_groups env) randState
      in case calculateFitness (mhe_items env) (mhe_groups env) currentSolution of
           Inl e \<Rightarrow> Inl e
         | Inr currentFitness \<Rightarrow>
             (case sa_loop env (mh_maxIters opts)
                     \<lparr> sa_current = currentSolution, sa_currentFitness = currentFitness,
                       sa_bestSolution = currentSolution, sa_bestFitness = currentFitness,
                       sa_temperature = initialTemperature opts, sa_iterations = 0,
                       sa_randState = randState' \<rparr> of
                Inl e \<Rightarrow> Inl e
              | Inr st \<Rightarrow>
                  mh_finish env ''metaheuristic-simulated-annealing'' (sa_bestSolution st)
                    (sa_bestFitness st) (sa_iterations st)))"

text \<open>
  Tabu search. The tabu list is a \<^verbatim>\<open>Set\<close> of move keys \<^verbatim>\<open>`${g1}-${i1}-${g2}-${i2}`\<close>, kept
  here as the list of the moves in insertion order.
\<close>

type_synonym move = "nat \<times> nat \<times> nat \<times> nat"

record tabu_state =
  tb_current :: solution
  tb_currentFitness :: real
  tb_bestSolution :: solution
  tb_bestFitness :: real
  tb_tabuList :: "move list"
  tb_iterations :: nat

text \<open>The scan of all swap neighbours; \<open>None\<close> is no neighbour yet (fitness \<^verbatim>\<open>-Infinity\<close>).\<close>

fun tabu_scan :: "mh_env \<Rightarrow> tabu_state \<Rightarrow> move list \<Rightarrow> (solution \<times> real \<times> move) option
     \<Rightarrow> err + (solution \<times> real \<times> move) option" where
  "tabu_scan env st [] best = Inr best"
| "tabu_scan env st ((g1, i1, g2, i2) # rest) best =
     (case swap_entries (length (mhe_items env)) (tb_current st) g1 i1 g2 i2 of
        Inl e \<Rightarrow> Inl e
      | Inr neighbor \<Rightarrow>
          (case calculateFitness (mhe_items env) (mhe_groups env) neighbor of
             Inl e \<Rightarrow> Inl e
           | Inr neighborFitness \<Rightarrow>
               (if ((g1, i1, g2, i2) \<notin> set (tb_tabuList st) \<or>
                    (aspirationCriteria (mhe_opts env) \<and> neighborFitness > tb_bestFitness st)) \<and>
                   (case best of None \<Rightarrow> True | Some (_, bestNeighborFitness, _) \<Rightarrow>
                      neighborFitness > bestNeighborFitness)
                then tabu_scan env st rest (Some (neighbor, neighborFitness, (g1, i1, g2, i2)))
                else tabu_scan env st rest best)))"

definition tabu_moves :: "nat \<Rightarrow> nat \<Rightarrow> move list" where
  "tabu_moves targetGroups targetGroupSize =
     concat (map (\<lambda>g1. concat (map (\<lambda>g2. concat (map (\<lambda>i1. map (\<lambda>i2. (g1, i1, g2, i2))
         [0..<targetGroupSize]) [0..<targetGroupSize]))
       [g1 + 1..<targetGroups])) [0..<targetGroups])"

definition tabu_step :: "mh_env \<Rightarrow> tabu_state \<Rightarrow> err + tabu_state" where
  "tabu_step env st =
     (case tabu_scan env st (tabu_moves (mhe_groups env) (mhe_groupSize env)) None of
        Inl e \<Rightarrow> Inl e
      | Inr None \<Rightarrow> Inr st
      | Inr (Some (bestNeighbor, bestNeighborFitness, bestMove)) \<Rightarrow>
          (let tl1 = (if bestMove \<in> set (tb_tabuList st) then tb_tabuList st
                      else tb_tabuList st @ [bestMove]);
               tl2 = (if length tl1 > tabuSize (mhe_opts env) then tl tl1 else tl1)
           in Inr (st \<lparr> tb_current := bestNeighbor, tb_currentFitness := bestNeighborFitness,
                        tb_bestSolution := (if bestNeighborFitness > tb_bestFitness st
                                            then bestNeighbor else tb_bestSolution st),
                        tb_bestFitness := (if bestNeighborFitness > tb_bestFitness st
                                           then bestNeighborFitness else tb_bestFitness st),
                        tb_tabuList := tl2 \<rparr>)))"

fun tabu_loop :: "mh_env \<Rightarrow> nat \<Rightarrow> tabu_state \<Rightarrow> err + tabu_state" where
  "tabu_loop env 0 st = Inr st"
| "tabu_loop env (Suc remaining) st =
     (let st1 = st \<lparr> tb_iterations := tb_iterations st + 1 \<rparr>
      in if mhe_elapsed env (tb_iterations st1) > mh_timeLimitMs (mhe_opts env) then Inr st1
         else (case tabu_step env st1 of
                 Inl e \<Rightarrow> Inl e
               | Inr st2 \<Rightarrow> tabu_loop env remaining st2))"

definition tabuSearch :: "mh_env \<Rightarrow> int \<Rightarrow> err + mh_result" where
  "tabuSearch env randState =
     (let opts = mhe_opts env;
          (currentSolution, randState') =
             generateRandomSolution (length (mhe_items env)) (mhe_groups env) randState
      in case calculateFitness (mhe_items env) (mhe_groups env) currentSolution of
           Inl e \<Rightarrow> Inl e
         | Inr currentFitness \<Rightarrow>
             (case tabu_loop env (mh_maxIters opts)
                     \<lparr> tb_current = currentSolution, tb_currentFitness = currentFitness,
                       tb_bestSolution = currentSolution, tb_bestFitness = currentFitness,
                       tb_tabuList = [], tb_iterations = 0 \<rparr> of
                Inl e \<Rightarrow> Inl e
              | Inr st \<Rightarrow>
                  mh_finish env ''metaheuristic-tabu-search'' (tb_bestSolution st)
                    (tb_bestFitness st) (tb_iterations st)))"

definition metaheuristic :: "clock \<Rightarrow> item list \<Rightarrow> nat \<Rightarrow> nat \<Rightarrow> mh_options \<Rightarrow> err + mh_result" where
  "metaheuristic elapsed items groups groupSize opts =
     (let randState = init_rand (mh_seed opts);
          env = \<lparr> mhe_items = items, mhe_groups = groups, mhe_groupSize = groupSize,
                  mhe_opts = opts, mhe_elapsed = elapsed \<rparr>
      in if length items \<noteq> groups * groupSize
         then Inl (JsError ''Metaheuristic requires exact group size constraints'')
         else if mh_type opts = ''genetic'' then geneticAlgorithm env randState
         else if mh_type opts = ''simulated-annealing'' then simulatedAnnealing env randState
         else if mh_type opts = ''tabu-search'' then tabuSearch env randState
         else Inl (JsError ''Unknown metaheuristic type''))"

section \<open>Local refinement\<close>

datatype swap_strategy = Best | Stochastic

record lr_options =
  lr_maxIters :: nat
  lr_strategy :: swap_strategy
  enable11 :: bool
  enable12 :: bool
  enable22 :: bool
  lr_seed :: "real option"

definition default_lr_options :: lr_options where
  "default_lr_options = \<lparr> lr_maxIters = 200, lr_strategy = Best, enable11 = True,
     enable12 = False, enable22 = True, lr_seed = None \<rparr>"

record lr_state =
  lr_groups :: "int list list"
  lr_sums :: "real list"
  lr_iterations :: nat
  lr_improvements :: nat
  lr_randState :: int

text \<open>
  Once the group sums have been computed every index in a group has been read from \<open>items\<close>
  without error, and swaps only exchange them; later reads \<^verbatim>\<open>items[idx]!.capacity\<close> use
  \<open>!\<close>.
\<close>

definition capI :: "item list \<Rightarrow> int \<Rightarrow> real" where
  "capI items idx = capacity (items ! nat idx)"

text \<open>\<^verbatim>\<open>groupSums.filter((_, gg) => gg !== g1 && gg !== g2)\<close>\<close>

definition others :: "real list \<Rightarrow> nat \<Rightarrow> nat \<Rightarrow> real list" where
  "others sms g1 g2 = map fst (filter (\<lambda>(s, gg). gg \<noteq> g1 \<and> gg \<noteq> g2) (indexed sms))"

text \<open>
  \<^verbatim>\<open>Math.max(maxOther, newSum1, newSum2) - Math.min(minOther, newSum1, newSum2)\<close>
\<close>

definition newDelta_of :: "real list \<Rightarrow> nat \<Rightarrow> nat \<Rightarrow> real \<Rightarrow> real \<Rightarrow> jsnum" where
  "newDelta_of sms g1 g2 newSum1 newSum2 =
     (let maxOther = math_max (others sms g1 g2);
          minOther = math_min (others sms g1 g2)
      in js_sub (js_max maxOther (js_max (Fin newSum1) (Fin newSum2)))
                (js_min minOther (js_min (Fin newSum1) (Fin newSum2))))"

text \<open>A move found by \<^verbatim>\<open>iterateBest\<close>: the values its closure captured.\<close>

datatype lr_move =
    Move11 nat nat nat nat int int real real
  | Move22 nat nat nat nat nat nat int int int int real real

fun apply_move :: "lr_move \<Rightarrow> lr_state \<Rightarrow> lr_state" where
  "apply_move (Move11 g1 i1 g2 i2 idx1 idx2 newSum1 newSum2) st =
     (let grps1 = (lr_groups st)[g1 := (lr_groups st ! g1)[i1 := idx2]];
          grps2 = grps1[g2 := (grps1 ! g2)[i2 := idx1]]
      in st \<lparr> lr_groups := grps2, lr_sums := (lr_sums st)[g1 := newSum1, g2 := newSum2] \<rparr>)"
| "apply_move (Move22 g1 i1a i1b g2 i2a i2b idx1a idx1b idx2a idx2b newSum1 newSum2) st =
     (let grps1 = (lr_groups st)[g1 := (lr_groups st ! g1)[i1a := idx2a, i1b := idx2b]];
          grps2 = grps1[g2 := (grps1 ! g2)[i2a := idx1a, i2b := idx1b]]
      in st \<lparr> lr_groups := grps2, lr_sums := (lr_sums st)[g1 := newSum1, g2 := newSum2] \<rparr>)"

definition lr_cands11 :: "nat \<Rightarrow> nat \<Rightarrow> (nat \<times> nat \<times> nat \<times> nat) list" where
  "lr_cands11 groups groupSize =
     concat (map (\<lambda>g1. concat (map (\<lambda>g2. concat (map (\<lambda>i1. map (\<lambda>i2. (g1, i1, g2, i2))
         [0..<groupSize]) [0..<groupSize]))
       [g1 + 1..<groups])) [0..<groups])"

definition lr_cands22 :: "nat \<Rightarrow> nat \<Rightarrow> (nat \<times> (nat \<times> nat) \<times> nat \<times> (nat \<times> nat)) list" where
  "lr_cands22 groups groupSize =
     concat (map (\<lambda>g1. concat (map (\<lambda>g2.
         concat (map (\<lambda>p1. map (\<lambda>p2. (g1, p1, g2, p2)) (pairs_of groupSize)) (pairs_of groupSize)))
       [g1 + 1..<groups])) [0..<groups])"

definition scan11 :: "item list \<Rightarrow> lr_state \<Rightarrow> jsnum \<times> lr_move option
     \<Rightarrow> nat \<times> nat \<times> nat \<times> nat \<Rightarrow> jsnum \<times> lr_move option" where
  "scan11 items st best c =
     (case c of (g1, i1, g2, i2) \<Rightarrow>
        (let idx1 = lr_groups st ! g1 ! i1; idx2 = lr_groups st ! g2 ! i2;
             c1 = capI items idx1; c2 = capI items idx2;
             newSum1 = lr_sums st ! g1 - c1 + c2;
             newSum2 = lr_sums st ! g2 - c2 + c1;
             newDelta = newDelta_of (lr_sums st) g1 g2 newSum1 newSum2
         in if js_less newDelta (fst best)
            then (newDelta, Some (Move11 g1 i1 g2 i2 idx1 idx2 newSum1 newSum2))
            else best))"

definition scan22 :: "item list \<Rightarrow> lr_state \<Rightarrow> jsnum \<times> lr_move option
     \<Rightarrow> nat \<times> (nat \<times> nat) \<times> nat \<times> (nat \<times> nat) \<Rightarrow> jsnum \<times> lr_move option" where
  "scan22 items st best c =
     (case c of (g1, (i1a, i1b), g2, (i2a, i2b)) \<Rightarrow>
        (let idx1a = lr_groups st ! g1 ! i1a; idx1b = lr_groups st ! g1 ! i1b;
             idx2a = lr_groups st ! g2 ! i2a; idx2b = lr_groups st ! g2 ! i2b;
             c1a = capI items idx1a; c1b = capI items idx1b;
             c2a = capI items idx2a; c2b = capI items idx2b;
             newSum1 = lr_sums st ! g1 - c1a - c1b + c2a + c2b;
             newSum2 = lr_sums st ! g2 - c2a - c2b + c1a + c1b;
             newDelta = newDelta_of (lr_sums st) g1 g2 newSum1 newSum2
         in if js_less newDelta (fst best)
            then (newDelta, Some (Move22 g1 i1a i1b g2 i2a i2b idx1a idx1b idx2a idx2b newSum1 newSum2))
            else best))"

text \<open>\<^verbatim>\<open>iterateBest\<close>: the result says whether a move was applied.\<close>

definition iterateBest :: "item list \<Rightarrow> lr_options \<Rightarrow> nat \<Rightarrow> nat \<Rightarrow> lr_state \<Rightarrow> bool \<times> lr_state" where
  "iterateBest items opts groups groupSize st =
     (let best0 = (delta_of (lr_sums st), None);
          best1 = (if enable11 opts then foldl (scan11 items st) best0 (lr_cands11 groups groupSize)
                   else best0);
          best2 = (if enable22 opts then foldl (scan22 items st) best1 (lr_cands22 groups groupSize)
                   else best1)
      in case snd best2 of
           Some bestMove \<Rightarrow>
             (True, (apply_move bestMove st) \<lparr> lr_improvements := lr_improvements st + 1 \<rparr>)
         | None \<Rightarrow> (False, st))"









section \<open>Input validation\<close>

datatype scale_option = ScaleAuto | ScaleNum real

record hybrid_options =
  hy_enable :: "bool option"
  hy_refineIters :: "real option"

text \<open>
  \<^verbatim>\<open>PartitionOptions\<close> as the caller passes them; \<open>None\<close> is an absent (or \<^verbatim>\<open>undefined\<close>)
  field. Numeric fields hold finite numbers.
\<close>

record partition_options =
  po_method :: "string option"
  po_scale :: "scale_option option"
  po_timeLimitMs :: "real option"
  po_seed :: "real option"
  po_maxIters :: "real option"
  po_threads :: "real option"
  po_tolerance :: "real option"
  po_earlyStopDelta :: "real option"
  po_refineIters :: "real option"
  po_preferredAlgorithms :: "string list option"
  po_disallowedAlgorithms :: "string list option"
  po_selectionStrategy :: "string option"
  po_hybrid :: "hybrid_options option"
  po_allowPlaceholderAlgorithms :: "bool option"

definition no_options :: partition_options where
  "no_options = \<lparr> po_method = None, po_scale = None, po_timeLimitMs = None, po_seed = None,
     po_maxIters = None, po_threads = None, po_tolerance = None, po_earlyStopDelta = None,
     po_refineIters = None, po_preferredAlgorithms = None, po_disallowedAlgorithms = None,
     po_selectionStrategy = None, po_hybrid = None, po_allowPlaceholderAlgorithms = None \<rparr>"

definition validateGroupParameters :: "nat \<Rightarrow> nat \<Rightarrow> err option" where
  "validateGroupParameters groups groupSize =
     (if groups \<le> 0 then Some ValidationError
      else if groupSize \<le> 0 then Some ValidationError
      else if groups > 1000 then Some ValidationError
      else if groupSize > 1000 then Some ValidationError
      else None)"

definition validateItemCount :: "item list \<Rightarrow> nat \<Rightarrow> nat \<Rightarrow> err option" where
  "validateItemCount items groups groupSize =
     (if length items \<noteq> groups * groupSize then Some ValidationError else None)"

definition assertUniqueIds :: "item list \<Rightarrow> err option" where
  "assertUniqueIds items = (if \<not> distinct (map item_id items) then Some ValidationError else None)"

definition validateCapacities :: "item list \<Rightarrow> err option" where
  "validateCapacities items =
     (if list_ex (\<lambda>it. capacity it \<le> 0) items then Some ValidationError else None)"

definition MAX_SAFE_INTEGER :: real where
  "MAX_SAFE_INTEGER = 9007199254740991"

text \<open>\<^verbatim>\<open>validatePartitionInputs\<close>: the first error raised, if any.\<close>

definition validatePartitionInputs :: "item list \<Rightarrow> nat \<Rightarrow> nat \<Rightarrow> err option" where
  "validatePartitionInputs items groups groupSize =
     (if items = [] then Some ValidationError
      else case validateGroupParameters groups groupSize of
        Some e \<Rightarrow> Some e
      | None \<Rightarrow>
       (case validateItemCount items groups groupSize of
          Some e \<Rightarrow> Some e
        | None \<Rightarrow>
         (case assertUniqueIds items of
            Some e \<Rightarrow> Some e
          | None \<Rightarrow>
           (case validateCapacities items of
              Some e \<Rightarrow> Some e
            | None \<Rightarrow>
               if foldl (\<lambda>s it. s + capacity it) 0 items = 0 then Some InfeasibleError
               else (case js_sub (math_max (map capacity items)) (math_min (map capacity items)) of
                       Fin capacityRange \<Rightarrow>
                         if capacityRange > MAX_SAFE_INTEGER / 1000 then Some ValidationError
                         else None
                     | _ \<Rightarrow> None)))))"

definition negative_option :: "real option \<Rightarrow> bool" where
  "negative_option v = (case v of None \<Rightarrow> False | Some x \<Rightarrow> x < 0)"

definition validatePartitionOptions :: "partition_options \<Rightarrow> err option" where
  "validatePartitionOptions options =
     (if (case po_method options of
            None \<Rightarrow> False
          | Some m \<Rightarrow> m \<notin> set [''auto'', ''lpt'', ''kk'', ''dp'', ''backtracking'', ''ilp'',
                                 ''metaheuristic'', ''flow'', ''roundrobin''])
      then Some ValidationError
      else if (case po_scale options of Some (ScaleNum x) \<Rightarrow> x \<le> 0 | _ \<Rightarrow> False)
      then Some ValidationError
      else if list_ex negative_option
                [po_timeLimitMs options, po_seed options, po_maxIters options, po_threads options,
                 po_tolerance options, po_earlyStopDelta options, po_refineIters options]
      then Some ValidationError
      else if (case po_selectionStrategy options of
                 None \<Rightarrow> False
               | Some v \<Rightarrow> v \<notin> set [''speed'', ''quality'', ''balanced''])
      then Some ValidationError
      else None)"

text \<open>\<^verbatim>\<open>ensureInputImmutability\<close>: a copy of the items (a new array).\<close>

definition ensureInputImmutability :: "item list \<Rightarrow> item list" where
  "ensureInputImmutability items = map (\<lambda>it. \<lparr> item_id = item_id it, capacity = capacity it \<rparr>) items"

record normalized_options =
  no_method :: string
  no_timeLimitMs :: real
  no_seed :: "real option"
  no_maxIters :: real
  no_tolerance :: real
  no_earlyStopDelta :: real
  no_preferredAlgorithms :: "string list option"
  no_disallowedAlgorithms :: "string list option"
  no_selectionStrategy :: "string option"
  no_hybrid :: "hybrid_options option"
  no_allowPlaceholderAlgorithms :: bool

definition normalizeOptions :: "partition_options \<Rightarrow> normalized_options" where
  "normalizeOptions options =
     \<lparr> no_method = (case po_method options of None \<Rightarrow> ''auto'' | Some m \<Rightarrow> m),
       no_timeLimitMs = (case po_timeLimitMs options of None \<Rightarrow> 30000 | Some t \<Rightarrow> t),
       no_seed = po_seed options,
       no_maxIters = (case po_maxIters options of None \<Rightarrow> 1000 | Some n \<Rightarrow> n),
       no_tolerance = (case po_tolerance options of None \<Rightarrow> 1 / 1000000 | Some t \<Rightarrow> t),
       no_earlyStopDelta = (case po_earlyStopDelta options of None \<Rightarrow> 0 | Some d \<Rightarrow> d),
       no_preferredAlgorithms = po_preferredAlgorithms options,
       no_disallowedAlgorithms = po_disallowedAlgorithms options,
       no_selectionStrategy = po_selectionStrategy options,
       no_hybrid = po_hybrid options,
       no_allowPlaceholderAlgorithms =
         (case po_allowPlaceholderAlgorithms options of None \<Rightarrow> False | Some b \<Rightarrow> b) \<rparr>"

section \<open>Recovery\<close>

text \<open>
  \<^verbatim>\<open>createGracefulDegradation\<close>: the items sorted by capacity (descending, stable) are dealt
  cyclically. With no group the first push raises a TypeError.
\<close>

fun gd_loop :: "nat \<Rightarrow> ((item \<times> nat) \<times> nat) list \<Rightarrow> ident list list \<times> nat list list \<times> real list
     \<Rightarrow> err + ident list list \<times> nat list list \<times> real list" where
  "gd_loop groups [] st = Inr st"
| "gd_loop groups (((it, index), i) # rest) (byId, byIdx, sms) =
     (if groups = 0 then Inl TypeError
      else (let groupIndex = i mod groups
            in if groupIndex < length byId then
                 gd_loop groups rest
                   (byId[groupIndex := byId ! groupIndex @ [item_id it]],
                    byIdx[groupIndex := byIdx ! groupIndex @ [index]],
                    sms[groupIndex := sms ! groupIndex + capacity it])
               else Inl TypeError))"

definition createGracefulDegradation :: "item list \<Rightarrow> nat \<Rightarrow> nat \<Rightarrow> err + grouping" where
  "createGracefulDegradation items groups groupSize =
     (let sortedItems = sort_cmp (\<lambda>a b. capacity (fst b) - capacity (fst a)) (indexed items)
      in case gd_loop groups (indexed sortedItems)
                (replicate groups [], replicate groups [], replicate groups 0) of
           Inl e \<Rightarrow> Inl e
         | Inr (byId, byIdx, sms) \<Rightarrow>
             Inr \<lparr> groupsById = byId, groupsByIndex = byIdx, groupSums = sms,
                   delta = delta_of sms, stdev = stdev_of sms groups,
                   iterations = None, methodUsed = ''graceful-degradation'' \<rparr>)"

text \<open>
  A recovery strategy: its name, the errors it handles, and its recovery action, which
  returns a grouping, \<^verbatim>\<open>null\<close> (\<open>Inr None\<close>) or raises.
\<close>

record recovery_strategy =
  rs_name :: string
  rs_canHandle :: "err \<Rightarrow> bool"
  rs_recover :: "item list \<Rightarrow> nat \<Rightarrow> nat \<Rightarrow> normalized_options \<Rightarrow> err \<Rightarrow> err + grouping option"

fun is_AlgorithmError :: "err \<Rightarrow> bool" where
  "is_AlgorithmError (AlgorithmError a) = True"
| "is_AlgorithmError e = False"

text \<open>
  The four strategies of the default manager; each recovery action is a stub that returns
  \<^verbatim>\<open>null\<close>.
\<close>

definition NumericalPrecisionRecovery :: recovery_strategy where
  "NumericalPrecisionRecovery =
     \<lparr> rs_name = ''NumericalPrecisionRecovery'', rs_canHandle = (\<lambda>e. e = NumericalError),
       rs_recover = (\<lambda>items groups groupSize options e. Inr None) \<rparr>"

definition ProblemSizeReduction :: recovery_strategy where
  "ProblemSizeReduction =
     \<lparr> rs_name = ''ProblemSizeReduction'', rs_canHandle = (\<lambda>e. e = MemoryError \<or> e = TimeoutError),
       rs_recover = (\<lambda>items groups groupSize options e. Inr None) \<rparr>"

definition TimeoutRecovery :: recovery_strategy where
  "TimeoutRecovery =
     \<lparr> rs_name = ''TimeoutRecovery'', rs_canHandle = (\<lambda>e. e = TimeoutError),
       rs_recover = (\<lambda>items groups groupSize options e. Inr None) \<rparr>"

definition SimplerAlgorithmFallback :: recovery_strategy where
  "SimplerAlgorithmFallback =
     \<lparr> rs_name = ''SimplerAlgorithmFallback'',
       rs_canHandle = (\<lambda>e. is_AlgorithmError e \<or> e = TimeoutError \<or> e = MemoryError \<or> e = NumericalError),
       rs_recover = (\<lambda>items groups groupSize options e. Inr None) \<rparr>"

text \<open>
  \<^verbatim>\<open>RecoveryManager.recover\<close>: the first strategy that handles the error and returns a
  grouping wins; a strategy that raises is skipped.
\<close>

fun recover :: "recovery_strategy list \<Rightarrow> item list \<Rightarrow> nat \<Rightarrow> nat \<Rightarrow> normalized_options \<Rightarrow> err
     \<Rightarrow> grouping option" where
  "recover [] items groups groupSize options e = None"
| "recover (strategy # rest) items groups groupSize options e =
     (if rs_canHandle strategy e then
        (case rs_recover strategy items groups groupSize options e of
           Inr (Some result) \<Rightarrow>
             Some (result \<lparr> methodUsed := methodUsed result @ '' (recovered via '' @
                                           rs_name strategy @ '')'' \<rparr>)
         | _ \<Rightarrow> recover rest items groups groupSize options e)
      else recover rest items groups groupSize options e)"

text \<open>
  The strategies of \<^verbatim>\<open>defaultRecoveryManager\<close> as it is constructed (strategies added or
  removed later by a caller are not modelled).
\<close>

definition defaultRecoveryManager :: "recovery_strategy list" where
  "defaultRecoveryManager =
     [NumericalPrecisionRecovery, ProblemSizeReduction, TimeoutRecovery, SimplerAlgorithmFallback]"

section \<open>The orchestrator\<close>

definition to_lower_char :: "char \<Rightarrow> char" where
  "to_lower_char c =
     (if CHR ''A'' \<le> c \<and> c \<le> CHR ''Z'' then char_of (of_char c + (32 :: nat)) else c)"

definition toLowerCase :: "string \<Rightarrow> string" where
  "toLowerCase str = map to_lower_char str"

definition determineCandidateAlgorithms :: "nat \<Rightarrow> real \<Rightarrow> bool \<Rightarrow> string list" where
  "determineCandidateAlgorithms problemSize timeLimitMs allowPlaceholderAlgorithms =
     (if problemSize \<le> 12 then
        [''roundrobin'', ''dp'', ''backtracking'', ''lpt'', ''kk''] @
        (if allowPlaceholderAlgorithms then [''flow'', ''ilp''] else [])
      else if problemSize \<le> 60 then
        [''roundrobin'', ''lpt'', ''kk''] @
        (if allowPlaceholderAlgorithms then [''flow'', ''ilp''] else [])
      else
        [''roundrobin'', ''lpt'', ''kk''] @
        (if timeLimitMs \<ge> 300 then [''metaheuristic''] else []) @
        (if allowPlaceholderAlgorithms then [''flow'', ''ilp''] else []))"

text \<open>
  \<^verbatim>\<open>prioritizeByHistory\<close>. \<open>recs\<close> is what the performance-history tracker recommends:
  (algorithm, confidence) pairs. The first candidate stays first; with no candidate it is
  \<^verbatim>\<open>undefined\<close>, written here as the name \<open>''undefined''\<close> of no solver.
\<close>

definition scoreByAlg :: "(string \<times> real) list \<Rightarrow> string \<Rightarrow> real" where
  "scoreByAlg recs a =
     foldl (\<lambda>score (alg, confidence). if toLowerCase alg = a then max score confidence else score)
       0 recs"

definition prioritizeByHistory :: "(string \<times> real) list \<Rightarrow> string list \<Rightarrow> string list" where
  "prioritizeByHistory recs candidates =
     (if recs = [] then candidates
      else (case candidates of
              [] \<Rightarrow> [''undefined'']
            | first # rest \<Rightarrow>
                first # sort_cmp (\<lambda>a b. scoreByAlg recs b - scoreByAlg recs a) rest))"

definition quality_priority :: "string \<Rightarrow> real" where
  "quality_priority a =
     (if a = ''kk'' then 3 else if a = ''lpt'' then 2 else if a = ''dp'' then 2
      else if a = ''backtracking'' then 1 else if a = ''flow'' then 1
      else if a = ''metaheuristic'' then 1 else 0)"

definition speed_priority :: "string \<Rightarrow> real" where
  "speed_priority a =
     (if a = ''roundrobin'' then 3 else if a = ''lpt'' then 2 else if a = ''kk'' then 2
      else if a = ''flow'' then 1 else 0)"

record auto_options =
  ao_timeLimitMs :: real
  ao_seed :: "real option"
  ao_maxIters :: real
  ao_tolerance :: real
  ao_earlyStopDelta :: real
  ao_preferredAlgorithms :: "string list option"
  ao_disallowedAlgorithms :: "string list option"
  ao_selectionStrategy :: "string option"
  ao_hybrid :: "hybrid_options option"
  ao_isLargeProblem :: "bool option"
  ao_isVeryLargeProblem :: "bool option"
  ao_allowPlaceholderAlgorithms :: "bool option"

text \<open>
  What a run reads besides its arguments: the clock checks of the orchestrator and of each
  solver it starts (by solver name), the tracker's recommendations, and the evaluation cache.
\<close>

record world =
  w_clock :: clock
  w_solver_clock :: "string \<Rightarrow> clock"
  w_recs :: "(string \<times> real) list"

definition prefer_sort :: "string list \<Rightarrow> string list \<Rightarrow> string list" where
  "prefer_sort preferred candidates =
     sort_cmp (\<lambda>a b. (if b \<in> set preferred then 1 else 0) - (if a \<in> set preferred then 1 else 0))
       candidates"

definition select_candidates :: "world \<Rightarrow> nat \<Rightarrow> auto_options \<Rightarrow> string list" where
  "select_candidates w problemSize options =
     (let base0 = determineCandidateAlgorithms problemSize (ao_timeLimitMs options)
                    (case ao_allowPlaceholderAlgorithms options of None \<Rightarrow> False | Some b \<Rightarrow> b);
          base1 = (case ao_disallowedAlgorithms options of
                     None \<Rightarrow> base0
                   | Some ds \<Rightarrow> if ds = [] then base0
                               else filter (\<lambda>a. a \<notin> set (map toLowerCase ds)) base0);
          base2 = (case ao_preferredAlgorithms options of
                     None \<Rightarrow> base1
                   | Some ps \<Rightarrow> if ps = [] then base1 else prefer_sort (map toLowerCase ps) base1);
          candidates = prioritizeByHistory (w_recs w) base2
      in if ao_selectionStrategy options = Some ''quality''
         then sort_cmp (\<lambda>a b. quality_priority b - quality_priority a) candidates
         else if ao_selectionStrategy options = Some ''speed''
         then sort_cmp (\<lambda>a b. speed_priority b - speed_priority a) candidates
         else candidates)"

text \<open>\<^verbatim>\<open>tryUpdateBest\<close>\<close>

definition tryUpdateBest :: "grouping option \<Rightarrow> grouping \<Rightarrow> grouping option" where
  "tryUpdateBest bestResult candidate =
     (case bestResult of
        None \<Rightarrow> Some candidate
      | Some b \<Rightarrow> if js_less (delta candidate) (delta b) then Some candidate else Some b)"

text \<open>
  The grouping built from the result of \<^verbatim>\<open>dp\<close>, \<^verbatim>\<open>backtracking\<close>, \<^verbatim>\<open>flow\<close> or
  \<^verbatim>\<open>metaheuristic\<close>; \<^verbatim>\<open>items[i]!.id\<close> of an index outside \<open>items\<close> raises a TypeError.
\<close>

definition to_grouping :: "item list \<Rightarrow> nat list list \<Rightarrow> real list \<Rightarrow> nat \<Rightarrow> string \<Rightarrow> err + grouping" where
  "to_grouping items byIdx sms iters name =
     (if list_all (list_all (\<lambda>i. i < length items)) byIdx
      then Inr \<lparr> groupsById = map (map (\<lambda>i. item_id (items ! i))) byIdx,
                 groupsByIndex = byIdx, groupSums = sms, delta = delta_of sms,
                 stdev = Fin 0, iterations = Some iters, methodUsed = name \<rparr>
      else Inl TypeError)"

text \<open>
  One candidate of the loop of \<^verbatim>\<open>executeAutoStrategy\<close>: the grouping it hands to
  \<^verbatim>\<open>tryUpdateBest\<close> (or the error it raises, which the loop swallows), and whether the
  branch tests the early-stop threshold.
\<close>

definition run_candidate ::
  "world \<Rightarrow> item list \<Rightarrow> nat \<Rightarrow> nat \<Rightarrow> auto_options \<Rightarrow> real \<Rightarrow> string \<Rightarrow> (err + grouping) \<times> bool" where
  "run_candidate w items groups groupSize options perAlgoBudget algo =
     (if algo = ''roundrobin'' then (roundRobin items groups groupSize True, True)
      else if algo = ''lpt'' then
        (lpt items groups groupSize
           (default_lpt_options \<lparr> useRefinement := True,
              maxRefinementIters := max 10 (real_of_int \<lfloor>ao_maxIters options / 5\<rfloor>) \<rparr>), True)
      else if algo = ''kk'' then (kk items groups groupSize default_kk_options, True)
      else if algo = ''dp'' then
        (case dp (w_solver_clock w ''dp'') items groups groupSize
                (default_dp_options \<lparr> dp_timeLimitMs := perAlgoBudget \<rparr>) of
           Inl e \<Rightarrow> Inl e
         | Inr r \<Rightarrow> to_grouping items (srGroupsByIndex r) (srGroupSums r) (srIterations r) (srMethod r),
         False)
      else if algo = ''backtracking'' then
        (case backtracking (w_solver_clock w ''backtracking'') items groups groupSize
                (default_bt_options \<lparr> bt_timeLimitMs := perAlgoBudget,
                   maxRecursionDepth := (if ao_isLargeProblem options = Some True then 20 else 50) \<rparr>) of
           Inl e \<Rightarrow> Inl e
         | Inr r \<Rightarrow> to_grouping items (srGroupsByIndex r) (srGroupSums r) (srIterations r) (srMethod r),
         False)
      else if algo = ''flow'' then
        (case flow items groups groupSize of
           Inl e \<Rightarrow> Inl e
         | Inr r \<Rightarrow> to_grouping items (srGroupsByIndex r) (srGroupSums r) (srIterations r) (srMethod r),
         False)
      else if algo = ''metaheuristic'' then
        (case metaheuristic (w_solver_clock w ''metaheuristic'') items groups groupSize
                ((default_mh_options ''genetic'')
                   \<lparr> mh_timeLimitMs := perAlgoBudget,
                     mh_maxIters := nat (max 100 \<lfloor>ao_maxIters options / 2\<rfloor>),
                     mh_seed := ao_seed options \<rparr>) of
           Inl e \<Rightarrow> Inl e
         | Inr r \<Rightarrow> to_grouping items (srGroupsByIndex r) (srGroupSums r) (srIterations r) (srMethod r),
         False)
      else (Inl (JsError ''no such candidate''), False))"

text \<open>
  The candidate loop. \<open>k\<close> counts the candidates reached, for the clock. The result is
  \<open>Inl g\<close> when a branch returned \<open>g\<close> at once, \<open>Inr bestResult\<close> when the loop ended.
  A name that is no case of the \<^verbatim>\<open>switch\<close> does nothing.
\<close>

fun auto_loop ::
  "world \<Rightarrow> item list \<Rightarrow> nat \<Rightarrow> nat \<Rightarrow> auto_options \<Rightarrow> real \<Rightarrow> nat \<Rightarrow> string list \<Rightarrow> grouping option
     \<Rightarrow> grouping + grouping option" where
  "auto_loop w items groups groupSize options perAlgoBudget k [] bestResult = Inr bestResult"
| "auto_loop w items groups groupSize options perAlgoBudget k (algo # rest) bestResult =
     (if w_clock w k > ao_timeLimitMs options then Inr bestResult
      else if algo \<notin> set [''roundrobin'', ''lpt'', ''kk'', ''dp'', ''backtracking'', ''flow'',
                            ''metaheuristic'']
      then auto_loop w items groups groupSize options perAlgoBudget (k + 1) rest bestResult
      else
        (case run_candidate w items groups groupSize options perAlgoBudget algo of
           (Inl e, checks) \<Rightarrow>
             auto_loop w items groups groupSize options perAlgoBudget (k + 1) rest bestResult
         | (Inr res, checks) \<Rightarrow>
             if checks \<and> js_le (delta res) (Fin (ao_earlyStopDelta options)) then Inl res
             else auto_loop w items groups groupSize options perAlgoBudget (k + 1) rest
                    (tryUpdateBest bestResult res)))"

definition executeAutoStrategy ::
  "world \<Rightarrow> item list \<Rightarrow> nat \<Rightarrow> nat \<Rightarrow> auto_options \<Rightarrow> err + grouping" where
  "executeAutoStrategy w items groups groupSize options =
     (let candidates = select_candidates w (length items) options;
          perAlgoBudget = max 5 (real_of_int \<lfloor>ao_timeLimitMs options / real (max 1 (length candidates))\<rfloor>)
      in case auto_loop w items groups groupSize options perAlgoBudget 0 candidates None of
           Inl res \<Rightarrow> Inr res
         | Inr bestResult \<Rightarrow>
             (let hybridRefineIters =
                    (case ao_hybrid options of
                       None \<Rightarrow> None
                     | Some h \<Rightarrow>
                         if hy_enable h = Some True
                         then Some (max 5 (case hy_refineIters h of
                                             Some n \<Rightarrow> n
                                           | None \<Rightarrow> real_of_int \<lfloor>ao_maxIters options / 10\<rfloor>))
                         else None);
                  bestResult' =
                    (case (hybridRefineIters, bestResult) of
                       (Some refineIters, Some currentBest) \<Rightarrow>
                         (case lpt items groups groupSize
                                 (default_lpt_options \<lparr> useRefinement := True,
                                    maxRefinementIters := refineIters \<rparr>) of
                            Inl e \<Rightarrow> Some currentBest
                          | Inr refined \<Rightarrow>
                              if js_less (delta refined) (delta currentBest) then Some refined
                              else Some currentBest)
                     | _ \<Rightarrow> bestResult)
              in case bestResult' of
                   Some res \<Rightarrow> Inr res
                 | None \<Rightarrow> createGracefulDegradation items groups groupSize))"

section \<open>The entry point\<close>

text \<open>
  \<^verbatim>\<open>partitionBalanced\<close>, together with the evaluation cache it leaves behind. The copy of
  the items is a new array, so its reference is fresh for the cache.
\<close>

definition solve :: "world \<Rightarrow> item list \<Rightarrow> nat \<Rightarrow> nat \<Rightarrow> normalized_options \<Rightarrow> bool \<Rightarrow> bool \<Rightarrow> err + grouping" where
  "solve w itemsCopy groups groupSize normalizedOptions isLargeProblem isVeryLargeProblem =
     (if no_method normalizedOptions = ''roundrobin''
      then roundRobin itemsCopy groups groupSize True
      else if no_method normalizedOptions = ''lpt''
      then lpt itemsCopy groups groupSize
             (default_lpt_options \<lparr> useRefinement := \<not> isLargeProblem,
                maxRefinementIters := real_of_int \<lfloor>no_maxIters normalizedOptions / 10\<rfloor> \<rparr>)
      else if no_method normalizedOptions = ''kk''
      then kk itemsCopy groups groupSize default_kk_options
      else executeAutoStrategy w itemsCopy groups groupSize
             \<lparr> ao_timeLimitMs = no_timeLimitMs normalizedOptions,
               ao_seed = no_seed normalizedOptions,
               ao_maxIters = no_maxIters normalizedOptions,
               ao_tolerance = no_tolerance normalizedOptions,
               ao_earlyStopDelta = no_earlyStopDelta normalizedOptions,
               ao_preferredAlgorithms = no_preferredAlgorithms normalizedOptions,
               ao_disallowedAlgorithms = no_disallowedAlgorithms normalizedOptions,
               ao_selectionStrategy = no_selectionStrategy normalizedOptions,
               ao_hybrid = no_hybrid normalizedOptions,
               ao_isLargeProblem = Some isLargeProblem,
               ao_isVeryLargeProblem = Some isVeryLargeProblem,
               ao_allowPlaceholderAlgorithms = None \<rparr>)"

definition partitionBalanced ::
  "world \<Rightarrow> evaluation_result evaluation_cache \<Rightarrow> item list \<Rightarrow> nat \<Rightarrow> nat \<Rightarrow> partition_options
     \<Rightarrow> (err + grouping) \<times> evaluation_result evaluation_cache" where
  "partitionBalanced w cache items groups groupSize options =
     (case validatePartitionInputs items groups groupSize of
        Some e \<Rightarrow> (Inl (if isBalancedKGroupsError e then e else AlgorithmError ''partitionBalanced''), cache)
      | None \<Rightarrow>
       (case validatePartitionOptions options of
          Some e \<Rightarrow> (Inl (if isBalancedKGroupsError e then e else AlgorithmError ''partitionBalanced''), cache)
        | None \<Rightarrow>
           (let itemsCopy = ensureInputImmutability items;
                itemsRef = fresh_ref cache;
                normalizedOptions0 = normalizeOptions options;
                totalItems = length itemsCopy;
                isLargeProblem = (totalItems > 50 \<or> groups > 10 \<or> groupSize > 20);
                isVeryLargeProblem = (totalItems > 100 \<or> groups > 20 \<or> groupSize > 50);
                normalizedOptions =
                  (if isVeryLargeProblem \<and> no_method normalizedOptions0 = ''auto''
                   then normalizedOptions0
                          \<lparr> no_preferredAlgorithms := Some [''roundrobin'', ''lpt''],
                            no_disallowedAlgorithms := Some [''dp'', ''backtracking'', ''metaheuristic''] \<rparr>
                   else normalizedOptions0);
                attempt =
                  (case solve w itemsCopy groups groupSize normalizedOptions isLargeProblem
                          isVeryLargeProblem of
                     Inl e \<Rightarrow> (Inl e, cache)
                   | Inr result \<Rightarrow>
                       if \<not> validateGrouping itemsCopy (map (map int) (groupsByIndex result)) groupSize
                       then (Inl (AlgorithmError (methodUsed result)), cache)
                       else
                         (case evaluateGrouping cache itemsRef itemsCopy
                                 (map (map int) (groupsByIndex result))
                                 \<lparr> maxCacheItems = (if isLargeProblem then 500 else 1000),
                                   maxCacheGroups = (if isLargeProblem then 25 else 50),
                                   maxCacheGroupSize = (if isLargeProblem then 50 else 100) \<rparr> of
                            (Inl e, cache') \<Rightarrow> (Inl e, cache')
                          | (Inr evalResult, cache') \<Rightarrow>
                              (Inr (result \<lparr> groupSums := evalGroupSums evalResult,
                                             delta := evalDelta evalResult,
                                             stdev := evalStdev evalResult \<rparr>), cache')))
            in case attempt of
                 (Inr result, cache') \<Rightarrow> (Inr result, cache')
               | (Inl algorithmError, cache') \<Rightarrow>
                   (case recover defaultRecoveryManager itemsCopy groups groupSize normalizedOptions
                           algorithmError of
                      Some recoveredResult \<Rightarrow> (Inr recoveredResult, cache')
                    | None \<Rightarrow>
                        (case createGracefulDegradation itemsCopy groups groupSize of
                           Inr g \<Rightarrow> (Inr g, cache')
                         | Inl e \<Rightarrow>
                             (Inl (if isBalancedKGroupsError e then e
                                   else AlgorithmError ''partitionBalanced''), cache'))))))"


section \<open>Inputs of the worked examples\<close>

text \<open>The six items of the round-robin example, built by \<^verbatim>\<open>fromCapacities\<close> with an
  arbitrary id prefix.\<close>

definition items6 :: "string \<Rightarrow> item list" where
  "items6 p = fromCapacities [10, 8, 6, 4, 2, 1] p"

text \<open>Nine items for three groups of three, already in descending capacity order.\<close>

definition items9 :: "item list" where
  "items9 = fromCapacities [20, 18, 16, 11, 10, 4, 3, 2, 1] ''item''"

text \<open>One heavy item and five light ones, for three groups of two.\<close>

definition items_kk :: "item list" where
  "items_kk = fromCapacities [100, 1, 1, 1, 1, 1] ''item''"

text \<open>Four items, and the state of the global cache after evaluating the grouping
  \<open>[[0, 1], [2, 3]]\<close> of them (the array has reference 0).\<close>

definition items4 :: "item list" where
  "items4 = fromCapacities [10, 8, 6, 4] ''item''"

definition cache_a :: "evaluation_result evaluation_cache" where
  "cache_a = snd (evaluateGrouping globalEvaluationCache 0 items4 [[0, 1], [2, 3]] default_evaluate_options)"

definition result_a :: evaluation_result where
  "result_a = \<lparr> evalGroupSums = [18, 10], evalDelta = Fin 8, evalStdev = Fin 4, evalMean = Fin 14,
     evalCv = Fin (2 / 7), evalTotalCapacity = 28 \<rparr>"

text \<open>The cache size limits that switch caching off for every non-empty grouping.\<close>

definition no_cache_options :: evaluate_options where
  "no_cache_options = \<lparr> maxCacheItems = 0, maxCacheGroups = 50, maxCacheGroupSize = 100 \<rparr>"

text \<open>
  Four items for two groups of two; a world whose clocks never advance and whose tracker
  has no history; and the call \<^verbatim>\<open>partition(items, 2, 2, {preferredAlgorithms: ['dp'],
  earlyStopDelta: 4})\<close> together with the options \<^verbatim>\<open>executeAutoStrategy\<close> receives from it.
\<close>

definition items_d :: "item list" where
  "items_d = fromCapacities [4, 3, 2, 1] ''item''"

definition world0 :: world where
  "world0 = \<lparr> w_clock = (\<lambda>k. 0), w_solver_clock = (\<lambda>name k. 0), w_recs = [] \<rparr>"

definition opts_d :: partition_options where
  "opts_d = no_options \<lparr> po_preferredAlgorithms := Some [''dp''], po_earlyStopDelta := Some 4 \<rparr>"

definition auto_d :: auto_options where
  "auto_d = \<lparr> ao_timeLimitMs = 30000, ao_seed = None, ao_maxIters = 1000, ao_tolerance = 1 / 1000000,
      ao_earlyStopDelta = 4, ao_preferredAlgorithms = Some [''dp''], ao_disallowedAlgorithms = None,
      ao_selectionStrategy = None, ao_hybrid = None, ao_isLargeProblem = Some False,
      ao_isVeryLargeProblem = Some False, ao_allowPlaceholderAlgorithms = None \<rparr>"

text \<open>
  Tabu search with a time limit of one millisecond and \<open>n\<close> iterations at most (the
  default is 1000), and two clocks: one that has passed the limit at the first check, one
  that passes it between the first check and the second.
\<close>

definition tabu_opts :: "nat \<Rightarrow> mh_options" where
  "tabu_opts n = (default_mh_options ''tabu-search'') \<lparr> mh_timeLimitMs := 1, mh_maxIters := n \<rparr>"

definition clock_slow :: clock where
  "clock_slow k = 3 / 2"

definition clock_fast :: clock where
  "clock_fast k = (if k \<le> 1 then 1 / 2 else 3 / 2)"

text \<open>A world whose orchestrator clock is far beyond every limit.\<close>

definition world_late :: world where
  "world_late = \<lparr> w_clock = (\<lambda>k. 50000), w_solver_clock = (\<lambda>name k. 50000),
      w_recs = [(''kk'', 1)] \<rparr>"

section \<open>The invariant of local refinement\<close>

text \<open>
  What \<^verbatim>\<open>localRefine\<close> keeps true of its working copy: the number of groups, their common
  size, and that \<^verbatim>\<open>groupSums\<close> holds the sums of the groups as they stand.
\<close>

definition lr_inv :: "item list \<Rightarrow> nat \<Rightarrow> nat \<Rightarrow> lr_state \<Rightarrow> bool" where
  "lr_inv items groups groupSize st \<longleftrightarrow>
     length (lr_groups st) = groups \<and> list_all (\<lambda>g. length g = groupSize) (lr_groups st) \<and>
     group_sums_of items (lr_groups st) = Inr (lr_sums st)"


section \<open>Inputs of the local refinement example\<close>

text \<open>Capacities 15, 14, 10, 8, 4, 3; the grouping refined is \<open>[[0, 3, 5], [1, 2, 4]]\<close>.\<close>

definition items_lr :: "item list" where
  "items_lr = fromCapacities [15, 14, 10, 8, 4, 3] ''item''"


section \<open>Facts about the example inputs\<close>

lemma items6_eq: "items6 p =
  [\<lparr>item_id = StrId (p @ ''0''), capacity = 10\<rparr>, \<lparr>item_id = StrId (p @ ''1''), capacity = 8\<rparr>,
   \<lparr>item_id = StrId (p @ ''2''), capacity = 6\<rparr>, \<lparr>item_id = StrId (p @ ''3''), capacity = 4\<rparr>,
   \<lparr>item_id = StrId (p @ ''4''), capacity = 2\<rparr>, \<lparr>item_id = StrId (p @ ''5''), capacity = 1\<rparr>]"
  by (simp add: items6_def fromCapacities_def indexed_def upt_rec numeral_nat digit_char_def)

lemma items9_eq: "items9 =
  [\<lparr>item_id = StrId ''item0'', capacity = 20\<rparr>, \<lparr>item_id = StrId ''item1'', capacity = 18\<rparr>,
   \<lparr>item_id = StrId ''item2'', capacity = 16\<rparr>, \<lparr>item_id = StrId ''item3'', capacity = 11\<rparr>,
   \<lparr>item_id = StrId ''item4'', capacity = 10\<rparr>, \<lparr>item_id = StrId ''item5'', capacity = 4\<rparr>,
   \<lparr>item_id = StrId ''item6'', capacity = 3\<rparr>, \<lparr>item_id = StrId ''item7'', capacity = 2\<rparr>,
   \<lparr>item_id = StrId ''item8'', capacity = 1\<rparr>]"
  by (simp add: items9_def fromCapacities_def indexed_def upt_rec numeral_nat digit_char_def)

lemma items_kk_eq: "items_kk =
  [\<lparr>item_id = StrId ''item0'', capacity = 100\<rparr>, \<lparr>item_id = StrId ''item1'', capacity = 1\<rparr>,
   \<lparr>item_id = StrId ''item2'', capacity = 1\<rparr>, \<lparr>item_id = StrId ''item3'', capacity = 1\<rparr>,
   \<lparr>item_id = StrId ''item4'', capacity = 1\<rparr>, \<lparr>item_id = StrId ''item5'', capacity = 1\<rparr>]"
  by (simp add: items_kk_def fromCapacities_def indexed_def upt_rec numeral_nat digit_char_def)

lemmas validate_defs = validatePartitionInputs_def validateGroupParameters_def
  validateItemCount_def assertUniqueIds_def validateCapacities_def math_max_def math_min_def
  MAX_SAFE_INTEGER_def

lemma valid6: "validatePartitionInputs (items6 p) 2 3 = None"
  by (simp add: items6_eq validate_defs)

lemma valid9: "validatePartitionInputs items9 3 3 = None"
  by (simp add: items9_eq validate_defs)

lemma valid_kk: "validatePartitionInputs items_kk 3 2 = None"
  by (simp add: items_kk_eq validate_defs)

section \<open>The evaluation cache\<close>

lemma foldr_max_ge: "(k::nat) \<in> set ks \<Longrightarrow> k \<le> foldr max ks 0"
  by (induction ks) (auto simp: max_def)

lemma fresh_ref_miss: "map_of (store c) (fresh_ref c) = None"
proof -
  have "fresh_ref c \<notin> set (map fst (store c))"
    using foldr_max_ge [of "fresh_ref c" "map fst (store c)"] by (auto simp: fresh_ref_def)
  then show ?thesis by (simp add: map_of_eq_None_iff)
qed

lemma cache_get_fresh: "cache_get c (fresh_ref c) k = None"
  by (simp add: cache_get_def fresh_ref_miss)

section \<open>Round-robin on the six-item example\<close>

lemma rr6: "roundRobin (items6 p) 2 3 True =
     Inr \<lparr> groupsById = [[StrId (p @ ''0''), StrId (p @ ''2''), StrId (p @ ''4'')],
                          [StrId (p @ ''1''), StrId (p @ ''3''), StrId (p @ ''5'')]],
           groupsByIndex = [[0, 2, 4], [1, 3, 5]], groupSums = [18, 13],
           delta = Fin 5, stdev = stdev_of [18, 13] 2,
           iterations = Some 1, methodUsed = ''roundrobin'' \<rparr>"
  by (simp add: items6_eq roundRobin_def roundRobinPartition_def indexed_def
      sort_cmp_def compareItemsByCapacity_def delta_of_def math_max_def math_min_def
      upt_rec numeral_nat)

lemma copy6: "ensureInputImmutability (items6 p) = items6 p"
  by (simp add: items6_eq ensureInputImmutability_def)

lemma vg6: "validateGrouping (items6 p) [[0, 2, 4], [1, 3, 5]] 3"
  by (simp add: items6_eq validateGrouping_def validateGrouping_errors_def indexed_def upt_rec
      numeral_nat card_insert_if)

lemma ev6: "evaluateGroupingFastCPU (items6 p) [[0, 2, 4], [1, 3, 5]] =
   Inr \<lparr> evalGroupSums = [18, 13], evalDelta = Fin 5, evalStdev = Fin (sqrt (25/4)),
     evalMean = Fin (31/2), evalCv = Fin (sqrt (25/4) / (31/2)), evalTotalCapacity = 31 \<rparr>"
  by (simp add: items6_eq evaluateGroupingFastCPU_def capacity_at_def Let_def)

lemma pb6:
  "fst (partitionBalanced w cache (items6 p) 2 3 (no_options \<lparr> po_method := Some ''roundrobin'' \<rparr>)) =
   Inr \<lparr> groupsById = [[StrId (p @ ''0''), StrId (p @ ''2''), StrId (p @ ''4'')],
                          [StrId (p @ ''1''), StrId (p @ ''3''), StrId (p @ ''5'')]],
           groupsByIndex = [[0, 2, 4], [1, 3, 5]], groupSums = [18, 13],
           delta = Fin 5, stdev = Fin (sqrt (25/4)),
           iterations = Some 1, methodUsed = ''roundrobin'' \<rparr>"
proof -
  have len: "length (items6 p) = 6" by (simp add: items6_eq)
  have opts: "validatePartitionOptions (no_options \<lparr> po_method := Some ''roundrobin'' \<rparr>) = None"
    by (simp add: validatePartitionOptions_def no_options_def negative_option_def)
  have meth: "no_method (normalizeOptions (no_options \<lparr> po_method := Some ''roundrobin'' \<rparr>)) = ''roundrobin''"
    by (simp add: normalizeOptions_def no_options_def)
  have key: "hashGrouping [[0, 2, 4], [1, 3, 5]] \<noteq> []"
    by (simp add: hashGrouping_def show_int_def)
  show ?thesis
    unfolding partitionBalanced_def
    by (simp add: valid6 opts copy6 meth solve_def rr6 vg6 evaluateGrouping_def ev6
        cache_get_fresh len key Let_def)
qed

text \<open>
  Claim C4. For the six items with capacities 10, 8, 6, 4, 2, 1 (whatever their id prefix),
  the public entry point with method \<^verbatim>\<open>roundrobin\<close>, two groups of three, returns the
  cyclic assignment of the descending order: group 0 holds the items of capacity 10, 6, 2
  (indices 0, 2, 4), group 1 those of capacity 8, 4, 1 (indices 1, 3, 5); the group sums
  are 18 and 13 and delta is 5. This holds for every clock and every state of the
  evaluation cache.
\<close>

theorem C4_roundrobin_example:
  "fst (partitionBalanced w cache (items6 p) 2 3 (no_options \<lparr> po_method := Some ''roundrobin'' \<rparr>)) =
   Inr \<lparr> groupsById = [[StrId (p @ ''0''), StrId (p @ ''2''), StrId (p @ ''4'')],
                          [StrId (p @ ''1''), StrId (p @ ''3''), StrId (p @ ''5'')]],
           groupsByIndex = [[0, 2, 4], [1, 3, 5]], groupSums = [18, 13],
           delta = Fin 5, stdev = Fin (sqrt (25/4)),
           iterations = Some 1, methodUsed = ''roundrobin'' \<rparr>"
  by (rule pb6)

section \<open>Optimized round-robin\<close>

lemma sorted9:
  "sort_cmp (\<lambda>a b. compareItemsByCapacity (fst a) (fst b)) (indexed items9) = indexed items9"
  by (simp add: items9_eq indexed_def sort_cmp_def compareItemsByCapacity_def upt_rec numeral_nat)

text \<open>The state of the assignment loop before the eighth item (capacity 2, index 7).\<close>

lemma orr_prefix:
  "orr_loop 3 3 (take 7 (indexed items9)) (replicate 3 [], replicate 3 [], replicate 3 0, replicate 3 0)
    = Inr ([[StrId ''item0'', StrId ''item5'', StrId ''item6''], [StrId ''item1'', StrId ''item4''],
            [StrId ''item2'', StrId ''item3'']],
       [[0, 5, 6], [1, 4], [2, 3]], [27, 28, 27], [3, 2, 2])"
  by (simp add: items9_eq indexed_def orr_choose_def upt_rec numeral_nat)

lemma orr_choice: "orr_choose 3 3 [27, 28, 27] [3, 2, 2] = Inr 1"
  by (simp add: orr_choose_def upt_rec numeral_nat)

lemma orr9: "optimizedRoundRobinPartition items9 3 3 =
   Inr \<lparr> groupsById = [[StrId ''item0'', StrId ''item5'', StrId ''item6''],
                        [StrId ''item1'', StrId ''item4'', StrId ''item7''],
                        [StrId ''item2'', StrId ''item3'', StrId ''item8'']],
     groupsByIndex = [[0, 5, 6], [1, 4, 7], [2, 3, 8]], groupSums = [27, 30, 28],
     delta = Fin 3, stdev = stdev_of [27, 30, 28] 3, iterations = Some 1,
     methodUsed = ''roundrobin-optimized'' \<rparr>"
  unfolding optimizedRoundRobinPartition_def sorted9
  by (simp add: items9_eq indexed_def orr_choose_def upt_rec numeral_nat delta_of_def
      math_max_def math_min_def)

text \<open>
  Claim C8 (the code departs from it). The optimized round-robin is claimed to give every
  item to the lightest group that still has room. For nine valid items of capacities
  20, 18, 16, 11, 10, 4, 3, 2, 1 and three groups of three, the loop reaches the sums
  27, 28, 27 with 3, 2, 2 members; groups 1 and 2 have room and group 2 is the lighter one,
  yet the search starts from the full group 0, finds no strictly lighter group and falls
  back to the first group with room: the item of capacity 2 goes to group 1 (sum 28), and
  the final sums are 27, 30, 28 instead of 27, 28, 30 - the choice of the lightest open
  group is not what the code computes.
\<close>

theorem C8_optimized_picks_heavier_group:
  "validatePartitionInputs items9 3 3 = None \<and>
   orr_loop 3 3 (take 7 (indexed items9)) (replicate 3 [], replicate 3 [], replicate 3 0, replicate 3 0)
     = Inr ([[StrId ''item0'', StrId ''item5'', StrId ''item6''], [StrId ''item1'', StrId ''item4''],
            [StrId ''item2'', StrId ''item3'']],
       [[0, 5, 6], [1, 4], [2, 3]], [27, 28, 27], [3, 2, 2]) \<and>
   orr_choose 3 3 [27, 28, 27] [3, 2, 2] = Inr 1 \<and>
   map groupsByIndex [projr (optimizedRoundRobinPartition items9 3 3)] = [[[0, 5, 6], [1, 4, 7], [2, 3, 8]]] \<and>
   map groupSums [projr (optimizedRoundRobinPartition items9 3 3)] = [[27, 30, 28]]"
  by (simp add: valid9 orr_prefix orr_choice orr9)

section \<open>The Karmarkar-Karp solver\<close>

lemma repair_loop_done:
  "first_index_where (\<lambda>g. length g > groupSize) byIdx = None \<or>
   first_index_where (\<lambda>g. length g < groupSize) byIdx = None \<Longrightarrow>
   repair_loop items groupSize n (byIdx, sms) = (byIdx, sms)"
  by (cases n) (auto split: option.splits)

lemma kk_split_all:
  "kk_split_loop items_kk 3 [([0, Suc 0, 2, 3, 4, 5], 105)] = [([Suc 0, 2, 3, 4, 5], 5)]"
  by (simp add: sort_cmp_def splitIntoTwo_def cap_def sum_caps_def items_kk_eq)

lemma kk_repair: "repairToExactSizes items_kk [[Suc 0, 2, 3, 4, 5]] 2 n = [[Suc 0, 2, 3, 4, 5]]"
  unfolding repairToExactSizes_def
  by (subst repair_loop_done) (simp_all add: first_index_where_def)

lemma kk_local:
  "localOptimizeOneOne items_kk [[Suc 0, 2, 3, 4, 5]] 300 = (Suc 0, [[Suc 0, 2, 3, 4, 5]])"
  by (simp add: localOptimizeOneOne_def cands11_def)

lemma kk_bad: "kk items_kk 3 2 default_kk_options =
   Inr \<lparr> groupsById = [[StrId ''item1'', StrId ''item2'', StrId ''item3'', StrId ''item4'',
                         StrId ''item5'']],
      groupsByIndex = [[1, 2, 3, 4, 5]], groupSums = [5], delta = Fin 0, stdev = stdev_of [5] 3,
      iterations = Some 2, methodUsed = ''kk'' \<rparr>"
proof -
  have a: "[0..<length items_kk] = [0, Suc 0, 2, 3, 4, 5]"
    by (simp add: items_kk_eq upt_rec numeral_nat)
  have b: "foldl (\<lambda>acc it. acc + capacity it) 0 items_kk = 105" by (simp add: items_kk_eq)
  show ?thesis
    by (simp add: kk_def a b kk_split_all default_kk_options_def kk_repair kk_local
          delta_of_def math_max_def math_min_def Let_def del: kk_split_loop.simps)
       (simp add: sum_caps_def cap_def items_kk_eq)
qed

lemma kk_bad_invalid: "\<not> validateGrouping items_kk [[1, 2, 3, 4, 5]] 2"
  by (simp add: items_kk_eq validateGrouping_def validateGrouping_errors_def indexed_def upt_rec
      numeral_nat card_insert_if)

text \<open>
  Claim C1 (the code departs from it). Every solver is claimed to return a partition of
  the indices into N groups of M. For the valid input of capacities 100, 1, 1, 1, 1, 1 with
  three groups of two, \<^verbatim>\<open>kk\<close> with its default options returns a single group of five
  indices, 1 to 5: the first split yields the sets {0} and {1..5}; the next round takes
  the heavier set {0} off the list and, since it cannot be split, leaves the loop without
  putting it back. Index 0 is lost, there is one group instead of three, and the size
  repair finds no group below the target size to move items to. The result fails the
  library's own \<^verbatim>\<open>validateGrouping\<close>.
\<close>

theorem C1_kk_loses_an_index:
  "validatePartitionInputs items_kk 3 2 = None \<and>
   kk items_kk 3 2 default_kk_options =
     Inr \<lparr> groupsById = [[StrId ''item1'', StrId ''item2'', StrId ''item3'', StrId ''item4'',
                         StrId ''item5'']],
      groupsByIndex = [[1, 2, 3, 4, 5]], groupSums = [5], delta = Fin 0, stdev = stdev_of [5] 3,
      iterations = Some 2, methodUsed = ''kk'' \<rparr> \<and>
   \<not> validateGrouping items_kk [[1, 2, 3, 4, 5]] 2"
  by (simp add: valid_kk kk_bad kk_bad_invalid)

section \<open>Shape mismatch in the directly callable solvers\<close>

lemma items4_eq: "items4 =
  [\<lparr>item_id = StrId ''item0'', capacity = 10\<rparr>, \<lparr>item_id = StrId ''item1'', capacity = 8\<rparr>,
   \<lparr>item_id = StrId ''item2'', capacity = 6\<rparr>, \<lparr>item_id = StrId ''item3'', capacity = 4\<rparr>]"
  by (simp add: items4_def fromCapacities_def indexed_def upt_rec numeral_nat digit_char_def)

text \<open>
  Claim C10. Called directly with an items array whose length is not groups times
  groupSize, each of \<^verbatim>\<open>dp\<close>, \<^verbatim>\<open>backtracking\<close>, \<^verbatim>\<open>flow\<close> and \<^verbatim>\<open>metaheuristic\<close> raises its
  "requires exact group size constraints" error and returns no grouping, whatever the
  clock and the options.
\<close>

theorem C10_direct_solvers_fail_fast:
  "length items \<noteq> groups * groupSize \<Longrightarrow>
     dp elapsed items groups groupSize dpOpts = Inl (JsError ''DP requires exact group size constraints'') \<and>
     backtracking elapsed items groups groupSize btOpts
       = Inl (JsError ''Backtracking requires exact group size constraints'') \<and>
     flow items groups groupSize = Inl (JsError ''Flow requires exact group size constraints'') \<and>
     metaheuristic elapsed items groups groupSize mhOpts
       = Inl (JsError ''Metaheuristic requires exact group size constraints'')"
  by (simp add: dp_def backtracking_def flow_def metaheuristic_def Let_def)

theorem C10_direct_solvers_fail_fast_witness:
  "length items4 \<noteq> 2 * 3 \<and>
     dp (\<lambda>k. 0) items4 2 3 default_dp_options = Inl (JsError ''DP requires exact group size constraints'') \<and>
     backtracking (\<lambda>k. 0) items4 2 3 default_bt_options
       = Inl (JsError ''Backtracking requires exact group size constraints'') \<and>
     flow items4 2 3 = Inl (JsError ''Flow requires exact group size constraints'') \<and>
     metaheuristic (\<lambda>k. 0) items4 2 3 (default_mh_options ''genetic'')
       = Inl (JsError ''Metaheuristic requires exact group size constraints'')"
proof -
  have h: "length items4 \<noteq> 2 * 3" by (simp add: items4_eq)
  show ?thesis
    using h C10_direct_solvers_fail_fast [OF h, of "\<lambda>k. 0" default_dp_options default_bt_options
        "default_mh_options ''genetic''"]
    by simp
qed

section \<open>Evaluation: invalid indices and the cache\<close>

lemma group_sum_bad:
  "\<exists>idx \<in> set idxs. idx < 0 \<or> int (length items) \<le> idx \<Longrightarrow> group_sum items idxs s = Inl TypeError"
  by (induction idxs arbitrary: s) (auto simp: capacity_at_def split: sum.splits)

lemma group_sum_err: "group_sum items idxs s = Inl e \<Longrightarrow> e = TypeError"
  by (induction idxs arbitrary: s) (auto simp: capacity_at_def split: sum.splits if_splits)

lemma group_sums_of_bad:
  "\<exists>idx \<in> set (concat byIdx). idx < 0 \<or> int (length items) \<le> idx \<Longrightarrow>
   group_sums_of items byIdx = Inl TypeError"
proof (induction byIdx)
  case Nil then show ?case by simp
next
  case (Cons g gs)
  show ?case
  proof (cases "\<exists>idx \<in> set g. idx < 0 \<or> int (length items) \<le> idx")
    case True then show ?thesis by (simp add: group_sum_bad)
  next
    case False
    with Cons.prems have "\<exists>idx \<in> set (concat gs). idx < 0 \<or> int (length items) \<le> idx" by auto
    then have "group_sums_of items gs = Inl TypeError" by (rule Cons.IH)
    then show ?thesis by (auto split: sum.splits dest: group_sum_err)
  qed
qed

lemma fast_bad:
  "\<exists>idx \<in> set (concat byIdx). idx < 0 \<or> int (length items) \<le> idx \<Longrightarrow>
   evaluateGroupingFastCPU items byIdx = Inl TypeError"
  by (simp add: evaluateGroupingFastCPU_def group_sums_of_bad)

lemmas hash_defs = hashGrouping_def hash_step_def to_int32_def show_int_def digit_char_def

lemma hash_a: "hashGrouping [[0], [1, 2, 7]] = ''sm''"
  by (simp add: hash_defs)

lemma hash_b: "hashGrouping [[0, 1], [2, 3]] = ''si''"
  by (simp add: hash_defs)

lemma hash_c: "hashGrouping [[0, 1, 2], [3]] = ''si''"
  by (simp add: hash_defs)

lemma sqrt16: "sqrt 16 = 4"
  using real_sqrt_abs [of 4] by simp

lemma sqrt100: "sqrt 100 = 10"
  using real_sqrt_abs [of 10] by simp

lemma fast_a: "evaluateGroupingFastCPU items4 [[0, 1], [2, 3]] = Inr result_a"
  by (simp add: items4_eq evaluateGroupingFastCPU_def capacity_at_def Let_def result_a_def sqrt16)

lemma fast_c: "evaluateGroupingFastCPU items4 [[0, 1, 2], [3]] =
   Inr \<lparr> evalGroupSums = [24, 4], evalDelta = Fin 20, evalStdev = Fin 10, evalMean = Fin 14,
     evalCv = Fin (5 / 7), evalTotalCapacity = 28 \<rparr>"
  by (simp add: items4_eq evaluateGroupingFastCPU_def capacity_at_def Let_def sqrt100)

lemma eval_a: "evaluateGrouping globalEvaluationCache 0 items4 [[0, 1], [2, 3]] default_evaluate_options
   = (Inr result_a, \<lparr> store = [(0, [(''si'', result_a)])], maxEntriesPerItemsRef = 200 \<rparr>)"
  by (simp add: evaluateGrouping_def default_evaluate_options_def hash_b fast_a
      globalEvaluationCache_def new_EvaluationCache_def cache_get_def cache_set_def Let_def)

lemma cache_a_eq: "cache_a = \<lparr> store = [(0, [(''si'', result_a)])], maxEntriesPerItemsRef = 200 \<rparr>"
  by (simp add: cache_a_def eval_a)

lemma eval_c_cached:
  "fst (evaluateGrouping cache_a 0 items4 [[0, 1, 2], [3]] default_evaluate_options) = Inr result_a"
  by (simp add: evaluateGrouping_def default_evaluate_options_def hash_c cache_a_eq cache_get_def Let_def)

lemma eval_c_uncached:
  "fst (evaluateGrouping cache_a 0 items4 [[0, 1, 2], [3]] no_cache_options) =
   Inr \<lparr> evalGroupSums = [24, 4], evalDelta = Fin 20, evalStdev = Fin 10, evalMean = Fin 14,
     evalCv = Fin (5 / 7), evalTotalCapacity = 28 \<rparr>"
  by (simp add: evaluateGrouping_def fast_c no_cache_options_def Let_def)

lemma eval_bad: "evaluateGrouping globalEvaluationCache 0 items4 [[0], [1, 2, 7]] default_evaluate_options
   = (Inl (AlgorithmError ''evaluate''), globalEvaluationCache)"
  by (simp add: evaluateGrouping_def default_evaluate_options_def hash_a fast_bad items4_eq
      globalEvaluationCache_def new_EvaluationCache_def cache_get_def Let_def)

text \<open>
  Claim C3 (the code departs from it). The cache is claimed never to change what
  \<^verbatim>\<open>evaluateGrouping\<close> returns. The cache key hashes the indices of all groups in one run
  and ignores where a group ends, so the groupings \<open>[[0, 1], [2, 3]]\<close> and
  \<open>[[0, 1, 2], [3]]\<close> of the same four items (capacities 10, 8, 6, 4) share the key
  \<^verbatim>\<open>si\<close>. After the first has been evaluated, evaluating the second with the default
  options returns the first one's entry - sums 18 and 10, delta 8, stdev 4 - while the same
  call with caching switched off returns the sums 24 and 4, delta 20, stdev 10.
\<close>

theorem C3_cache_ignores_group_boundaries:
  "hashGrouping [[0, 1], [2, 3]] = hashGrouping [[0, 1, 2], [3]] \<and>
   fst (evaluateGrouping cache_a 0 items4 [[0, 1, 2], [3]] default_evaluate_options) =
     Inr \<lparr> evalGroupSums = [18, 10], evalDelta = Fin 8, evalStdev = Fin 4, evalMean = Fin 14,
       evalCv = Fin (2 / 7), evalTotalCapacity = 28 \<rparr> \<and>
   fst (evaluateGrouping cache_a 0 items4 [[0, 1, 2], [3]] no_cache_options) =
     Inr \<lparr> evalGroupSums = [24, 4], evalDelta = Fin 20, evalStdev = Fin 10, evalMean = Fin 14,
       evalCv = Fin (5 / 7), evalTotalCapacity = 28 \<rparr>"
  by (simp add: eval_c_cached eval_c_uncached hash_b hash_c result_a_def)

text \<open>
  Claim C9, as amended. Whenever \<^verbatim>\<open>evaluateGrouping\<close> computes the evaluation of a grouping
  that has an index which is negative or not below the number of items - the call bypasses
  the cache because of its size limits, or the cache holds no entry under the grouping's key
  for this items array - it rejects the grouping: reading the capacity of the missing item
  raises a TypeError, which \<^verbatim>\<open>evaluateGrouping\<close> rethrows as an \<^verbatim>\<open>AlgorithmError\<close> of algorithm
  \<^verbatim>\<open>evaluate\<close>, and the cache is left as it was. The condition signalled is an
  \<^verbatim>\<open>AlgorithmError\<close>, not a \<^verbatim>\<open>ValidationError\<close>.
\<close>

theorem C9_out_of_range_raises_AlgorithmError:
  assumes "\<exists>idx \<in> set (concat byIdx). idx < 0 \<or> int (length items) \<le> idx"
      and "foldl (\<lambda>s g. s + length g) 0 byIdx > maxCacheItems opts \<or>
           length byIdx > maxCacheGroups opts \<or>
           (\<exists>g \<in> set byIdx. length g > maxCacheGroupSize opts) \<or>
           cache_get cache itemsRef (hashGrouping byIdx) = None"
  shows "evaluateGrouping cache itemsRef items byIdx opts = (Inl (AlgorithmError ''evaluate''), cache)
         \<and> isBalancedKGroupsError (AlgorithmError ''evaluate'')
         \<and> \<not> isValidationError (AlgorithmError ''evaluate'')"
proof -
  have bad: "evaluateGroupingFastCPU items byIdx = Inl TypeError"
    using assms(1) by (rule fast_bad)
  show ?thesis
  proof (cases "foldl (\<lambda>s g. s + length g) 0 byIdx > maxCacheItems opts \<or>
           length byIdx > maxCacheGroups opts \<or>
           (\<exists>g \<in> set byIdx. length g > maxCacheGroupSize opts)")
    case True
    then show ?thesis by (simp add: evaluateGrouping_def bad Let_def)
  next
    case False
    with assms(2) have "cache_get cache itemsRef (hashGrouping byIdx) = None" by blast
    with False show ?thesis by (simp add: evaluateGrouping_def bad Let_def)
  qed
qed

theorem C9_out_of_range_raises_AlgorithmError_witness:
  "(\<exists>idx \<in> set (concat [[0], [1, 2, 7]]). idx < 0 \<or> int (length items4) \<le> idx) \<and>
   cache_get globalEvaluationCache 0 (hashGrouping [[0], [1, 2, 7]]) = None \<and>
   evaluateGrouping globalEvaluationCache 0 items4 [[0], [1, 2, 7]] default_evaluate_options
     = (Inl (AlgorithmError ''evaluate''), globalEvaluationCache) \<and>
   (\<exists>idx \<in> set (concat [[0, 1], [1, 34]]). idx < 0 \<or> int (length items4) \<le> idx) \<and>
   foldl (\<lambda>s g. s + length g) 0 [[0, 1], [1, 34 :: int]] > maxCacheItems no_cache_options \<and>
   evaluateGrouping cache_a 0 items4 [[0, 1], [1, 34]] no_cache_options
     = (Inl (AlgorithmError ''evaluate''), cache_a) \<and>
   isBalancedKGroupsError (AlgorithmError ''evaluate'') \<and>
   \<not> isValidationError (AlgorithmError ''evaluate'')"
proof -
  have h1: "\<exists>idx \<in> set (concat [[0], [1, 2, 7]]). idx < 0 \<or> int (length items4) \<le> idx"
    by (simp add: items4_eq)
  have h2: "cache_get globalEvaluationCache 0 (hashGrouping [[0], [1, 2, 7]]) = None"
    by (simp add: globalEvaluationCache_def new_EvaluationCache_def cache_get_def)
  have h3: "\<exists>idx \<in> set (concat [[0, 1], [1, 34]]). idx < 0 \<or> int (length items4) \<le> idx"
    by (simp add: items4_eq)
  have h4: "foldl (\<lambda>s g. s + length g) 0 [[0, 1], [1, 34 :: int]] > maxCacheItems no_cache_options"
    by (simp add: no_cache_options_def)
  from h1 h2 h3 h4
    C9_out_of_range_raises_AlgorithmError [of "[[0], [1, 2, 7]]" items4 default_evaluate_options
      globalEvaluationCache 0]
    C9_out_of_range_raises_AlgorithmError [of "[[0, 1], [1, 34]]" items4 no_cache_options cache_a 0]
  show ?thesis by blast
qed

text \<open>
  The claim as it was stated fails over four items: the grouping \<open>[[0], [1, 2, 7]]\<close>, whose
  index 7 is no index of the items, is rejected with an \<^verbatim>\<open>AlgorithmError\<close>, which is not a
  \<^verbatim>\<open>ValidationError\<close>.
\<close>

theorem C9_not_a_ValidationError_counterexample:
  "fst (evaluateGrouping globalEvaluationCache 0 items4 [[0], [1, 2, 7]] default_evaluate_options)
     = Inl (AlgorithmError ''evaluate'') \<and>
   \<not> isValidationError (AlgorithmError ''evaluate'')"
  by (simp add: eval_bad)

section \<open>Early return in the automatic strategy\<close>

lemma items_d_eq: "items_d =
  [\<lparr>item_id = StrId ''item0'', capacity = 4\<rparr>, \<lparr>item_id = StrId ''item1'', capacity = 3\<rparr>,
   \<lparr>item_id = StrId ''item2'', capacity = 2\<rparr>, \<lparr>item_id = StrId ''item3'', capacity = 1\<rparr>]"
  by (simp add: items_d_def fromCapacities_def indexed_def upt_rec numeral_nat digit_char_def)

lemma cands_d: "select_candidates world0 4 auto_d = [''dp'', ''roundrobin'', ''backtracking'', ''lpt'', ''kk'']"
  by (simp add: select_candidates_def world0_def auto_d_def determineCandidateAlgorithms_def
      prefer_sort_def sort_cmp_def prioritizeByHistory_def toLowerCase_def to_lower_char_def Let_def)

lemma sorted_d: "sort_cmp compareItemsByCapacity items_d = items_d"
  by (simp add: items_d_eq sort_cmp_def compareItemsByCapacity_def)

lemma dp_d: "dp (\<lambda>k. 0) items_d 2 2 (default_dp_options \<lparr> dp_timeLimitMs := 6000 \<rparr>) =
   Inr \<lparr> srGroupsByIndex = [[0, 1], [2, 3]], srGroupSums = [7, 3], srIterations = 4,
         srMethod = ''dp-integer-scaled'' \<rparr>"
  unfolding dp_def sorted_d
  by (simp add: items_d_eq default_dp_options_def kahanSum_def scaleFactor_of_def math_max_def
      math_round_def dp_cell_def sum_caps_def cap_def upt_rec numeral_nat Let_def)

lemma rr_d: "roundRobin items_d 2 2 True =
     Inr \<lparr> groupsById = [[StrId ''item0'', StrId ''item2''], [StrId ''item1'', StrId ''item3'']],
           groupsByIndex = [[0, 2], [1, 3]], groupSums = [6, 4],
           delta = Fin 2, stdev = stdev_of [6, 4] 2,
           iterations = Some 1, methodUsed = ''roundrobin'' \<rparr>"
  by (simp add: items_d_eq roundRobin_def roundRobinPartition_def indexed_def
      sort_cmp_def compareItemsByCapacity_def delta_of_def math_max_def math_min_def
      upt_rec numeral_nat)

lemma run_dp_d: "run_candidate world0 items_d 2 2 auto_d 6000 ''dp'' =
   (Inr \<lparr> groupsById = [[StrId ''item0'', StrId ''item1''], [StrId ''item2'', StrId ''item3'']],
           groupsByIndex = [[0, 1], [2, 3]], groupSums = [7, 3],
           delta = Fin 4, stdev = Fin 0,
           iterations = Some 4, methodUsed = ''dp-integer-scaled'' \<rparr>, False)"
proof -
  have c: "w_solver_clock world0 ''dp'' = (\<lambda>k. 0)" by (simp add: world0_def)
  show ?thesis
    unfolding run_candidate_def c
    by (simp add: dp_d to_grouping_def delta_of_def math_max_def math_min_def)
       (simp add: items_d_eq)
qed

lemma auto_d_result: "executeAutoStrategy world0 items_d 2 2 auto_d =
     Inr \<lparr> groupsById = [[StrId ''item0'', StrId ''item2''], [StrId ''item1'', StrId ''item3'']],
           groupsByIndex = [[0, 2], [1, 3]], groupSums = [6, 4],
           delta = Fin 2, stdev = stdev_of [6, 4] 2,
           iterations = Some 1, methodUsed = ''roundrobin'' \<rparr>"
proof -
  have len: "length items_d = 4" by (simp add: items_d_eq)
  have b: "max 5 (real_of_int \<lfloor>ao_timeLimitMs auto_d / real (max 1 (length [''dp'', ''roundrobin'', ''backtracking'', ''lpt'', ''kk'']))\<rfloor>) = 6000"
    by (simp add: auto_d_def)
  have clk: "w_clock world0 = (\<lambda>k. 0)" by (simp add: world0_def)
  have lim: "ao_timeLimitMs auto_d = 30000" "ao_earlyStopDelta auto_d = 4" by (simp_all add: auto_d_def)
  have rr: "run_candidate world0 items_d 2 2 auto_d 6000 ''roundrobin'' = (roundRobin items_d 2 2 True, True)"
    by (simp add: run_candidate_def)
  show ?thesis
    unfolding executeAutoStrategy_def len cands_d Let_def b
    by (simp add: clk lim run_dp_d rr rr_d tryUpdateBest_def)
qed

lemma valid_d: "validatePartitionInputs items_d 2 2 = None"
  by (simp add: items_d_eq validate_defs)

lemma copy_d: "ensureInputImmutability items_d = items_d"
  by (simp add: items_d_eq ensureInputImmutability_def)

lemma vg_d: "validateGrouping items_d [[0, 2], [1, 3]] 2"
  by (simp add: items_d_eq validateGrouping_def validateGrouping_errors_def indexed_def upt_rec
      numeral_nat card_insert_if)

lemma ev_d: "evaluateGroupingFastCPU items_d [[0, 2], [1, 3]] =
   Inr \<lparr> evalGroupSums = [6, 4], evalDelta = Fin 2, evalStdev = Fin 1,
     evalMean = Fin 5, evalCv = Fin (1 / 5), evalTotalCapacity = 10 \<rparr>"
  by (simp add: items_d_eq evaluateGroupingFastCPU_def capacity_at_def Let_def)

lemma solve_d: "solve world0 items_d 2 2 (normalizeOptions opts_d) False False =
   executeAutoStrategy world0 items_d 2 2 auto_d"
  by (simp add: solve_def normalizeOptions_def opts_d_def no_options_def auto_d_def)

lemma pb_d: "fst (partitionBalanced world0 globalEvaluationCache items_d 2 2 opts_d) =
     Inr \<lparr> groupsById = [[StrId ''item0'', StrId ''item2''], [StrId ''item1'', StrId ''item3'']],
           groupsByIndex = [[0, 2], [1, 3]], groupSums = [6, 4],
           delta = Fin 2, stdev = Fin 1,
           iterations = Some 1, methodUsed = ''roundrobin'' \<rparr>"
proof -
  have len: "length items_d = 4" by (simp add: items_d_eq)
  have opts: "validatePartitionOptions opts_d = None"
    by (simp add: validatePartitionOptions_def opts_d_def no_options_def negative_option_def)
  have meth: "no_method (normalizeOptions opts_d) = ''auto''"
    by (simp add: normalizeOptions_def opts_d_def no_options_def)
  have key: "hashGrouping [[0, 2], [1, 3]] \<noteq> []"
    by (simp add: hash_defs)
  show ?thesis
    unfolding partitionBalanced_def
    by (simp add: valid_d opts copy_d meth solve_d auto_d_result vg_d evaluateGrouping_def ev_d
        cache_get_fresh len key Let_def)
qed

lemma no_early_return:
  assumes "algo = ''dp'' \<or> algo = ''backtracking'' \<or> algo = ''flow'' \<or> algo = ''metaheuristic''"
    and "w_clock w k \<le> ao_timeLimitMs options"
    and "fst (run_candidate w items groups groupSize options perAlgoBudget algo) = Inr res"
  shows "auto_loop w items groups groupSize options perAlgoBudget k (algo # rest) bestResult =
         auto_loop w items groups groupSize options perAlgoBudget (k + 1) rest
           (tryUpdateBest bestResult res)"
proof -
  from assms(1) have "\<not> snd (run_candidate w items groups groupSize options perAlgoBudget algo)"
    by (auto simp: run_candidate_def)
  with assms(3) have "run_candidate w items groups groupSize options perAlgoBudget algo = (Inr res, False)"
    by (cases "run_candidate w items groups groupSize options perAlgoBudget algo") simp
  with assms show ?thesis by auto
qed

text \<open>
  The branches of \<^verbatim>\<open>roundrobin\<close>, \<^verbatim>\<open>lpt\<close> and \<^verbatim>\<open>kk\<close> return at once a result whose delta is at
  most \<^verbatim>\<open>earlyStopDelta\<close>; the branches of \<^verbatim>\<open>dp\<close>, \<^verbatim>\<open>backtracking\<close>, \<^verbatim>\<open>flow\<close> and
  \<^verbatim>\<open>metaheuristic\<close> of the same \<^verbatim>\<open>switch\<close> make no such test (lemma \<open>no_early_return\<close>).
\<close>

lemma early_return:
  assumes "algo = ''roundrobin'' \<or> algo = ''lpt'' \<or> algo = ''kk''"
    and "w_clock w k \<le> ao_timeLimitMs options"
    and "fst (run_candidate w items groups groupSize options perAlgoBudget algo) = Inr res"
    and "js_le (delta res) (Fin (ao_earlyStopDelta options))"
  shows "auto_loop w items groups groupSize options perAlgoBudget k (algo # rest) bestResult = Inl res"
proof -
  from assms(1) have "snd (run_candidate w items groups groupSize options perAlgoBudget algo)"
    by (auto simp: run_candidate_def)
  with assms(3) have "run_candidate w items groups groupSize options perAlgoBudget algo = (Inr res, True)"
    by (cases "run_candidate w items groups groupSize options perAlgoBudget algo") simp
  with assms show ?thesis by auto
qed

lemma early_return_roundrobin_example:
  "w_clock world0 1 \<le> ao_timeLimitMs auto_d \<and>
   fst (run_candidate world0 items_d 2 2 auto_d 6000 ''roundrobin'') =
     Inr \<lparr> groupsById = [[StrId ''item0'', StrId ''item2''], [StrId ''item1'', StrId ''item3'']],
           groupsByIndex = [[0, 2], [1, 3]], groupSums = [6, 4], delta = Fin 2,
           stdev = stdev_of [6, 4] 2, iterations = Some 1, methodUsed = ''roundrobin'' \<rparr> \<and>
   js_le (Fin 2) (Fin (ao_earlyStopDelta auto_d)) \<and>
   auto_loop world0 items_d 2 2 auto_d 6000 1 [''roundrobin'', ''backtracking'', ''lpt'', ''kk''] None =
     Inl \<lparr> groupsById = [[StrId ''item0'', StrId ''item2''], [StrId ''item1'', StrId ''item3'']],
           groupsByIndex = [[0, 2], [1, 3]], groupSums = [6, 4], delta = Fin 2,
           stdev = stdev_of [6, 4] 2, iterations = Some 1, methodUsed = ''roundrobin'' \<rparr>"
proof -
  have h1: "''roundrobin'' = ''roundrobin'' \<or> ''roundrobin'' = ''lpt'' \<or> ''roundrobin'' = ''kk''"
    by simp
  have h2: "w_clock world0 1 \<le> ao_timeLimitMs auto_d" by (simp add: world0_def auto_d_def)
  have h3: "fst (run_candidate world0 items_d 2 2 auto_d 6000 ''roundrobin'') =
     Inr \<lparr> groupsById = [[StrId ''item0'', StrId ''item2''], [StrId ''item1'', StrId ''item3'']],
           groupsByIndex = [[0, 2], [1, 3]], groupSums = [6, 4], delta = Fin 2,
           stdev = stdev_of [6, 4] 2, iterations = Some 1, methodUsed = ''roundrobin'' \<rparr>"
    by (simp add: run_candidate_def rr_d)
  have h4: "js_le (delta \<lparr> groupsById = [[StrId ''item0'', StrId ''item2''], [StrId ''item1'', StrId ''item3'']],
           groupsByIndex = [[0, 2], [1, 3]], groupSums = [6, 4], delta = Fin 2,
           stdev = stdev_of [6, 4] 2, iterations = Some 1, methodUsed = ''roundrobin'' \<rparr>)
         (Fin (ao_earlyStopDelta auto_d))"
    by (simp add: auto_d_def)
  from h2 h3 h4 early_return [OF h1 h2 h3 h4,
      of "[''backtracking'', ''lpt'', ''kk'']" None]
  show ?thesis by simp
qed

text \<open>
  Claim C5 (the code departs from it). Every executed candidate whose delta is at most
  \<^verbatim>\<open>earlyStopDelta\<close> is claimed to end the automatic strategy with its result. For the items
  of capacities 4, 3, 2, 1, two groups of two, and the options
  \<^verbatim>\<open>{preferredAlgorithms: ['dp'], earlyStopDelta: 4}\<close> the candidates are dp, roundrobin,
  backtracking, lpt, kk. \<^verbatim>\<open>dp\<close> runs first and its result \<open>[[0, 1], [2, 3]]\<close> has delta 4,
  which meets the threshold, yet its branch does not test the threshold: the loop goes on to
  \<^verbatim>\<open>roundrobin\<close>, whose branch does, and the call returns the round-robin grouping
  \<open>[[0, 2], [1, 3]]\<close> of delta 2.
\<close>

theorem C5_dp_meets_threshold_but_is_not_returned:
  "select_candidates world0 (length items_d) auto_d = [''dp'', ''roundrobin'', ''backtracking'', ''lpt'', ''kk''] \<and>
   run_candidate world0 items_d 2 2 auto_d 6000 ''dp'' =
     (Inr \<lparr> groupsById = [[StrId ''item0'', StrId ''item1''], [StrId ''item2'', StrId ''item3'']],
           groupsByIndex = [[0, 1], [2, 3]], groupSums = [7, 3], delta = Fin 4, stdev = Fin 0,
           iterations = Some 4, methodUsed = ''dp-integer-scaled'' \<rparr>, False) \<and>
   js_le (Fin 4) (Fin (ao_earlyStopDelta auto_d)) \<and>
   executeAutoStrategy world0 items_d 2 2 auto_d =
     Inr \<lparr> groupsById = [[StrId ''item0'', StrId ''item2''], [StrId ''item1'', StrId ''item3'']],
           groupsByIndex = [[0, 2], [1, 3]], groupSums = [6, 4], delta = Fin 2,
           stdev = stdev_of [6, 4] 2, iterations = Some 1, methodUsed = ''roundrobin'' \<rparr> \<and>
   fst (partitionBalanced world0 globalEvaluationCache items_d 2 2 opts_d) =
     Inr \<lparr> groupsById = [[StrId ''item0'', StrId ''item2''], [StrId ''item1'', StrId ''item3'']],
           groupsByIndex = [[0, 2], [1, 3]], groupSums = [6, 4], delta = Fin 2, stdev = Fin 1,
           iterations = Some 1, methodUsed = ''roundrobin'' \<rparr>"
proof -
  have len: "length items_d = 4" by (simp add: items_d_eq)
  have thr: "js_le (Fin 4) (Fin (ao_earlyStopDelta auto_d))" by (simp add: auto_d_def)
  show ?thesis
    unfolding len using thr by (simp add: cands_d run_dp_d auto_d_result pb_d)
qed

section \<open>Reproducibility\<close>

lemma eval_fresh:
  "fst (evaluateGrouping cache (fresh_ref cache) items byIdx opts) =
     (case evaluateGroupingFastCPU items byIdx of
        Inl e \<Rightarrow> Inl (AlgorithmError ''evaluate'')
      | Inr r \<Rightarrow> Inr r)"
  by (simp add: evaluateGrouping_def cache_get_fresh Let_def split: sum.splits)

lemma solve_world:
  "no_method no = ''roundrobin'' \<or> no_method no = ''lpt'' \<or> no_method no = ''kk'' \<Longrightarrow>
   solve w1 items groups groupSize no l vl = solve w2 items groups groupSize no l vl"
  by (auto simp: solve_def)


lemma fst_attempt:
  "fst (case S of
          Inl e \<Rightarrow> (Inl e, cache)
        | Inr result \<Rightarrow>
            if \<not> V result then (Inl (A result), cache)
            else (case EV result of
                    (Inl e, cache') \<Rightarrow> (Inl e, cache')
                  | (Inr evalResult, cache') \<Rightarrow> (Inr (F result evalResult), cache'))) =
   (case S of
      Inl e \<Rightarrow> Inl e
    | Inr result \<Rightarrow>
        if \<not> V result then Inl (A result)
        else (case fst (EV result) of
                Inl e \<Rightarrow> Inl e
              | Inr evalResult \<Rightarrow> Inr (F result evalResult)))"
  by (auto split: sum.splits prod.splits)

lemma fst_outcome:
  "fst (case att of
          (Inr result, cache') \<Rightarrow> (Inr result, cache')
        | (Inl algorithmError, cache') \<Rightarrow>
            (case R algorithmError of
               Some recoveredResult \<Rightarrow> (Inr recoveredResult, cache')
             | None \<Rightarrow>
                 (case D of
                    Inr g \<Rightarrow> (Inr g, cache')
                  | Inl e \<Rightarrow> (Inl (E e), cache')))) =
   (case fst att of
      Inr result \<Rightarrow> Inr result
    | Inl algorithmError \<Rightarrow>
        (case R algorithmError of
           Some recoveredResult \<Rightarrow> Inr recoveredResult
         | None \<Rightarrow> (case D of Inr g \<Rightarrow> Inr g | Inl e \<Rightarrow> Inl (E e))))"
  by (cases att) (auto split: sum.splits option.splits)

lemma pb_world_cache:
  assumes "po_method options = Some ''roundrobin'' \<or> po_method options = Some ''lpt'' \<or>
           po_method options = Some ''kk''"
  shows "fst (partitionBalanced w1 c1 items groups groupSize options) =
         fst (partitionBalanced w2 c2 items groups groupSize options)"
proof -
  have m: "no_method (normalizeOptions options) = ''roundrobin'' \<or>
           no_method (normalizeOptions options) = ''lpt'' \<or>
           no_method (normalizeOptions options) = ''kk''"
    using assms by (auto simp: normalizeOptions_def)
  then have na: "no_method (normalizeOptions options) \<noteq> ''auto''" by auto
  note s = solve_world [OF m, of w1 _ _ _ _ _ w2]
  show ?thesis
  proof (cases "validatePartitionInputs items groups groupSize")
    case (Some e) then show ?thesis by (simp add: partitionBalanced_def)
  next
    case None
    note v1 = this
    show ?thesis
    proof (cases "validatePartitionOptions options")
      case (Some e) then show ?thesis by (simp add: partitionBalanced_def v1)
    next
      case None
      show ?thesis
        unfolding partitionBalanced_def Let_def v1 None option.case
        by (simp only: fst_outcome fst_attempt eval_fresh na s simp_thms if_False)
    qed
  qed
qed

lemma init_population_clock:
  "init_population (env \<lparr> mhe_elapsed := e \<rparr>) k st = init_population env k st"
  by (induction env k st rule: init_population.induct) (simp_all split: prod.splits)

lemma ga_evaluate_clock:
  "ga_evaluate (env \<lparr> mhe_elapsed := e \<rparr>) sols st = ga_evaluate env sols st"
  by (induction env sols st rule: ga_evaluate.induct) (simp_all split: sum.splits)

lemma ga_offspring_clock:
  "ga_offspring (env \<lparr> mhe_elapsed := e \<rparr>) scores r = ga_offspring env scores r"
  by (simp add: ga_offspring_def Let_def cong: sum.case_cong prod.case_cong option.case_cong list.case_cong if_cong)

lemma ga_fill_clock:
  "ga_fill (env \<lparr> mhe_elapsed := e \<rparr>) scores k st = ga_fill env scores k st"
  by (induction env scores k st rule: ga_fill.induct)
     (simp_all add: ga_offspring_clock split: sum.splits prod.splits)

lemma ga_generation_clock:
  "ga_generation (env \<lparr> mhe_elapsed := e \<rparr>) st = ga_generation env st"
  by (simp add: ga_generation_def ga_evaluate_clock ga_fill_clock Let_def
      cong: sum.case_cong prod.case_cong option.case_cong list.case_cong if_cong)

lemma mh_finish_clock:
  "mh_finish (env \<lparr> mhe_elapsed := e \<rparr>) name sol fit iters = mh_finish env name sol fit iters"
  by (simp add: mh_finish_def cong: sum.case_cong)

lemma sa_step_clock:
  "sa_step (env \<lparr> mhe_elapsed := e \<rparr>) st = sa_step env st"
  by (simp add: sa_step_def Let_def cong: sum.case_cong prod.case_cong option.case_cong list.case_cong if_cong)

lemma tabu_scan_clock:
  "tabu_scan (env \<lparr> mhe_elapsed := e \<rparr>) st moves best = tabu_scan env st moves best"
  by (induction env st moves best rule: tabu_scan.induct) (simp_all split: sum.splits)

lemma tabu_step_clock:
  "tabu_step (env \<lparr> mhe_elapsed := e \<rparr>) st = tabu_step env st"
  by (simp add: tabu_step_def tabu_scan_clock Let_def cong: sum.case_cong prod.case_cong option.case_cong list.case_cong if_cong)

text \<open>A loop under a clock that never passes the limit is the loop without the time check.\<close>

lemma ga_loop_clock:
  assumes "\<forall>k. e1 k \<le> mh_timeLimitMs (mhe_opts env)" and "\<forall>k. e2 k \<le> mh_timeLimitMs (mhe_opts env)"
  shows "ga_loop (env \<lparr> mhe_elapsed := e1 \<rparr>) n st = ga_loop (env \<lparr> mhe_elapsed := e2 \<rparr>) n st"
proof (induction n arbitrary: st)
  case 0 show ?case by simp
next
  case (Suc n)
  from assms have a: "\<not> e1 (Suc (ga_iterations st)) > mh_timeLimitMs (mhe_opts env)"
    "\<not> e2 (Suc (ga_iterations st)) > mh_timeLimitMs (mhe_opts env)"
    by (simp_all add: not_less)
  show ?case
    by (simp add: a ga_generation_clock Suc.IH Let_def split: sum.splits)
qed

lemma sa_loop_clock:
  assumes "\<forall>k. e1 k \<le> mh_timeLimitMs (mhe_opts env)" and "\<forall>k. e2 k \<le> mh_timeLimitMs (mhe_opts env)"
  shows "sa_loop (env \<lparr> mhe_elapsed := e1 \<rparr>) n st = sa_loop (env \<lparr> mhe_elapsed := e2 \<rparr>) n st"
proof (induction n arbitrary: st)
  case 0 show ?case by simp
next
  case (Suc n)
  from assms have a: "\<not> e1 (Suc (sa_iterations st)) > mh_timeLimitMs (mhe_opts env)"
    "\<not> e2 (Suc (sa_iterations st)) > mh_timeLimitMs (mhe_opts env)"
    by (simp_all add: not_less)
  show ?case
    by (simp add: a sa_step_clock Suc.IH Let_def split: sum.splits)
qed

lemma tabu_loop_clock:
  assumes "\<forall>k. e1 k \<le> mh_timeLimitMs (mhe_opts env)" and "\<forall>k. e2 k \<le> mh_timeLimitMs (mhe_opts env)"
  shows "tabu_loop (env \<lparr> mhe_elapsed := e1 \<rparr>) n st = tabu_loop (env \<lparr> mhe_elapsed := e2 \<rparr>) n st"
proof (induction n arbitrary: st)
  case 0 show ?case by simp
next
  case (Suc n)
  from assms have a: "\<not> e1 (Suc (tb_iterations st)) > mh_timeLimitMs (mhe_opts env)"
    "\<not> e2 (Suc (tb_iterations st)) > mh_timeLimitMs (mhe_opts env)"
    by (simp_all add: not_less)
  show ?case
    by (simp add: a tabu_step_clock Suc.IH Let_def split: sum.splits)
qed

lemma geneticAlgorithm_clock:
  assumes "\<forall>k. e1 k \<le> mh_timeLimitMs (mhe_opts env)" and "\<forall>k. e2 k \<le> mh_timeLimitMs (mhe_opts env)"
  shows "geneticAlgorithm (env \<lparr> mhe_elapsed := e1 \<rparr>) r = geneticAlgorithm (env \<lparr> mhe_elapsed := e2 \<rparr>) r"
  by (simp add: geneticAlgorithm_def init_population_clock ga_loop_clock [OF assms] mh_finish_clock Let_def
      cong: sum.case_cong prod.case_cong option.case_cong list.case_cong if_cong)

lemma simulatedAnnealing_clock:
  assumes "\<forall>k. e1 k \<le> mh_timeLimitMs (mhe_opts env)" and "\<forall>k. e2 k \<le> mh_timeLimitMs (mhe_opts env)"
  shows "simulatedAnnealing (env \<lparr> mhe_elapsed := e1 \<rparr>) r = simulatedAnnealing (env \<lparr> mhe_elapsed := e2 \<rparr>) r"
  by (simp add: simulatedAnnealing_def sa_loop_clock [OF assms] mh_finish_clock Let_def
      cong: sum.case_cong prod.case_cong option.case_cong list.case_cong if_cong)

lemma tabuSearch_clock:
  assumes "\<forall>k. e1 k \<le> mh_timeLimitMs (mhe_opts env)" and "\<forall>k. e2 k \<le> mh_timeLimitMs (mhe_opts env)"
  shows "tabuSearch (env \<lparr> mhe_elapsed := e1 \<rparr>) r = tabuSearch (env \<lparr> mhe_elapsed := e2 \<rparr>) r"
  by (simp add: tabuSearch_def tabu_loop_clock [OF assms] mh_finish_clock Let_def
      cong: sum.case_cong prod.case_cong option.case_cong list.case_cong if_cong)

lemma metaheuristic_clock:
  assumes "\<forall>k. e1 k \<le> mh_timeLimitMs opts" and "\<forall>k. e2 k \<le> mh_timeLimitMs opts"
  shows "metaheuristic e1 items groups groupSize opts = metaheuristic e2 items groups groupSize opts"
proof -
  define env where "env = \<lparr> mhe_items = items, mhe_groups = groups, mhe_groupSize = groupSize,
                  mhe_opts = opts, mhe_elapsed = (\<lambda>k. 0) \<rparr>"
  have o: "mhe_opts env = opts" by (simp add: env_def)
  have e: "\<lparr> mhe_items = items, mhe_groups = groups, mhe_groupSize = groupSize,
                  mhe_opts = opts, mhe_elapsed = c \<rparr> = env \<lparr> mhe_elapsed := c \<rparr>" for c
    by (simp add: env_def)
  note a = assms [folded o]
  show ?thesis
    unfolding metaheuristic_def Let_def e
    by (simp add: geneticAlgorithm_clock [OF a] simulatedAnnealing_clock [OF a] tabuSearch_clock [OF a])
qed

lemma rand_below_eval:
  "rand_below n s = (nat \<lfloor>real_of_int ((1664525 * s + 1013904223) mod 4294967296) * real n / 4294967295\<rfloor>,
                     (1664525 * s + 1013904223) mod 4294967296)"
  by (simp add: rand_below_def rand_def lcg_next_def)


lemma rb1: "rand_below 4 123456789 = (0, 920370032)"
  by (simp add: rand_below_eval)

lemma rb2: "rand_below 3 920370032 = (2, 3761641487)"
  by (simp add: rand_below_eval)

lemma rb3: "rand_below 2 3761641487 = (Suc 0, 2252023330)"
  by (simp add: rand_below_eval)

lemma rb3s: "rand_below (Suc (Suc 0)) 3761641487 = (Suc 0, 2252023330)"
  using rb3 by (simp add: numeral_2_eq_2)

lemma rev_upt4: "rev [1..<4::nat] = [3, 2, 1]"
  by (simp add: upt_rec numeral_nat)

lemma upt4: "[0..<4::nat] = [0, 1, 2, 3]"
  by (simp add: upt_rec numeral_nat)

lemma replicate2: "replicate 2 x = [x, x]"
  by (simp add: numeral_2_eq_2)

lemma init_d: "generateRandomSolution 4 2 (init_rand None) = ([[3, 2], [1, 0]], 2252023330)"
  unfolding generateRandomSolution_def rev_upt4 upt4
  by (simp add: init_rand_def to_uint32_def rb1 rb2 rb3s js_get_def js_put_def indexed_def upt4 Let_def
      replicate2)


lemma fit_init: "calculateFitness items_d 2 [[3, 2], [Suc 0, 0]] = Inr (1 / 5)"
  by (simp add: calculateFitness_def calculateGroupSums_def items_d_eq cap_def upt_rec numeral_nat
      delta_of_def math_max_def math_min_def)

lemma tabu_loop_timeout:
  "0 < n \<Longrightarrow> mhe_elapsed env (tb_iterations st + 1) > mh_timeLimitMs (mhe_opts env) \<Longrightarrow>
   tabu_loop env n st = Inr (st \<lparr> tb_iterations := tb_iterations st + 1 \<rparr>)"
  by (cases n) (simp_all add: Let_def)

lemma tabu_loop_step:
  "0 < n \<Longrightarrow> \<not> mhe_elapsed env (tb_iterations st + 1) > mh_timeLimitMs (mhe_opts env) \<Longrightarrow>
   tabu_loop env n st =
     (case tabu_step env (st \<lparr> tb_iterations := tb_iterations st + 1 \<rparr>) of
        Inl e \<Rightarrow> Inl e
      | Inr st2 \<Rightarrow> tabu_loop env (n - 1) st2)"
  by (cases n) (auto simp: Let_def split: sum.splits)

lemma moves22: "tabu_moves 2 2 = [(0, 0, Suc 0, 0), (0, 0, Suc 0, Suc 0), (0, Suc 0, Suc 0, 0), (0, Suc 0, Suc 0, Suc 0)]"
  by (simp add: tabu_moves_def upt_rec numeral_nat)

lemma fit_d:
  "calculateFitness items_d 2 [[a, b], [c, d]] =
     (if a < 4 \<and> b < 4 \<and> c < 4 \<and> d < 4
      then (case delta_of [cap items_d a + cap items_d b, cap items_d c + cap items_d d] of
              Fin x \<Rightarrow> Inr (1 / (1 + x)) | _ \<Rightarrow> Inr 0)
      else Inl TypeError)"
  by (simp add: calculateFitness_def calculateGroupSums_def upt_rec numeral_nat items_d_eq)

lemma caps_d: "cap items_d 0 = 4" "cap items_d (Suc 0) = 3" "cap items_d 2 = 2" "cap items_d 3 = 1"
  by (simp_all add: cap_def items_d_eq)

lemma tabu_step_d:
  "tabu_step \<lparr> mhe_items = items_d, mhe_groups = 2, mhe_groupSize = 2, mhe_opts = (tabu_opts n),
      mhe_elapsed = e \<rparr>
     \<lparr> tb_current = [[3, 2], [Suc 0, 0]], tb_currentFitness = 1 / 5,
       tb_bestSolution = [[3, 2], [Suc 0, 0]], tb_bestFitness = 1 / 5,
       tb_tabuList = [], tb_iterations = Suc 0 \<rparr> =
   Inr \<lparr> tb_current = [[Suc 0, 2], [3, 0]], tb_currentFitness = 1,
       tb_bestSolution = [[Suc 0, 2], [3, 0]], tb_bestFitness = 1,
       tb_tabuList = [(0, 0, Suc 0, 0)], tb_iterations = Suc 0 \<rparr>"
proof -
  have len: "length items_d = 4" by (simp add: items_d_eq)
  have ts: "tabuSize (tabu_opts n) = 20" "aspirationCriteria (tabu_opts n)"
    by (simp_all add: tabu_opts_def default_mh_options_def)
  show ?thesis
    by (simp add: tabu_step_def moves22 swap_entries_def js_get_def js_put_def len fit_d caps_d
        delta_of_def math_max_def math_min_def ts Let_def)
qed


lemma tabu_opts_simps:
  "mh_type (tabu_opts n) = ''tabu-search''" "mh_seed (tabu_opts n) = None"
  "mh_maxIters (tabu_opts n) = n" "mh_timeLimitMs (tabu_opts n) = 1"
  by (simp_all add: tabu_opts_def default_mh_options_def)

lemma tabu_slow:
  assumes "0 < n"
  shows "metaheuristic clock_slow items_d 2 2 (tabu_opts n) =
   Inr \<lparr> srGroupsByIndex = [[3, 2], [1, 0]], srGroupSums = [3, 7], srIterations = 1,
         srMethod = ''metaheuristic-tabu-search'', srFitness = 1 / 5 \<rparr>"
proof -
  have len: "length items_d = 4" by (simp add: items_d_eq)
  show ?thesis
    unfolding metaheuristic_def Let_def len
    apply (simp add: tabu_opts_simps tabuSearch_def init_d len fit_init tabu_loop_timeout assms
        clock_slow_def mh_finish_def calculateGroupSums_def del: tabu_loop.simps)
    apply (simp add: items_d_eq cap_def upt_rec numeral_nat)
    done
qed

lemma tabu_fast:
  assumes "1 < n"
  shows "metaheuristic clock_fast items_d 2 2 (tabu_opts n) =
   Inr \<lparr> srGroupsByIndex = [[1, 2], [3, 0]], srGroupSums = [5, 5], srIterations = 2,
         srMethod = ''metaheuristic-tabu-search'', srFitness = 1 \<rparr>"
proof -
  have len: "length items_d = 4" by (simp add: items_d_eq)
  from assms have n: "0 < n" "0 < n - Suc 0" "Suc 0 < n" by simp_all
  show ?thesis
    unfolding metaheuristic_def Let_def len
    apply (simp add: tabu_opts_simps tabuSearch_def init_d len fit_init tabu_loop_step tabu_step_d
        clock_fast_def n del: tabu_loop.simps)
    apply (simp add: tabu_opts_simps tabu_loop_timeout clock_fast_def mh_finish_def
        calculateGroupSums_def n del: tabu_loop.simps)
    apply (simp add: items_d_eq cap_def upt_rec numeral_nat)
    done
qed

lemma tabu_one:
  assumes "e (Suc 0) \<le> 1"
  shows "metaheuristic e items_d 2 2 (tabu_opts 1) =
   Inr \<lparr> srGroupsByIndex = [[1, 2], [3, 0]], srGroupSums = [5, 5], srIterations = 1,
         srMethod = ''metaheuristic-tabu-search'', srFitness = 1 \<rparr>"
proof -
  have len: "length items_d = 4" by (simp add: items_d_eq)
  from assms have t: "\<not> 1 < e (Suc 0)" by simp
  show ?thesis
    unfolding metaheuristic_def Let_def len
    apply (simp add: tabu_opts_simps tabuSearch_def init_d len fit_init tabu_step_d t
        mh_finish_def calculateGroupSums_def)
    apply (simp add: items_d_eq cap_def upt_rec numeral_nat)
    done
qed

text \<open>
  Claim C7, as amended. For fixed items, options and method the result does not depend on
  anything else, provided no time limit is hit:
  \<^item> with method \<^verbatim>\<open>roundrobin\<close>, \<^verbatim>\<open>lpt\<close> or \<^verbatim>\<open>kk\<close> the result of the entry point is the same
    for every clock, every performance history and every state of the evaluation cache;
  \<^item> two runs of \<^verbatim>\<open>metaheuristic\<close> (genetic, simulated annealing or tabu search) with the
    same seed return the same result whenever neither run's clock passes \<^verbatim>\<open>timeLimitMs\<close>
    at a check: all randomness comes from the seeded generator.
\<close>

theorem C7_reproducible_unless_time_limit_hit:
  "(po_method options = Some ''roundrobin'' \<or> po_method options = Some ''lpt'' \<or>
    po_method options = Some ''kk'' \<longrightarrow>
      fst (partitionBalanced w1 c1 items groups groupSize options) =
      fst (partitionBalanced w2 c2 items groups groupSize options)) \<and>
   ((\<forall>k. e1 k \<le> mh_timeLimitMs opts) \<and> (\<forall>k. e2 k \<le> mh_timeLimitMs opts) \<longrightarrow>
      metaheuristic e1 items' groups' groupSize' opts = metaheuristic e2 items' groups' groupSize' opts)"
  using pb_world_cache [of options w1 c1 items groups groupSize w2 c2]
    metaheuristic_clock [of e1 opts e2 items' groups' groupSize']
  by blast

theorem C7_reproducible_unless_time_limit_hit_witness:
  "po_method (no_options \<lparr> po_method := Some ''roundrobin'' \<rparr>) = Some ''roundrobin'' \<and>
   fst (partitionBalanced world0 globalEvaluationCache (items6 ''item'') 2 3
          (no_options \<lparr> po_method := Some ''roundrobin'' \<rparr>)) =
   fst (partitionBalanced world_late cache_a (items6 ''item'') 2 3
          (no_options \<lparr> po_method := Some ''roundrobin'' \<rparr>)) \<and>
   map_sum id groupsByIndex
     (fst (partitionBalanced world_late cache_a (items6 ''item'') 2 3
          (no_options \<lparr> po_method := Some ''roundrobin'' \<rparr>))) = Inr [[0, 2, 4], [1, 3, 5]] \<and>
   (\<forall>k. (0::real) \<le> mh_timeLimitMs (tabu_opts 1)) \<and>
   (\<forall>k. (1::real) / 2 \<le> mh_timeLimitMs (tabu_opts 1)) \<and>
   metaheuristic (\<lambda>k. 0) items_d 2 2 (tabu_opts 1) = metaheuristic (\<lambda>k. 1 / 2) items_d 2 2 (tabu_opts 1) \<and>
   metaheuristic (\<lambda>k. 1 / 2) items_d 2 2 (tabu_opts 1) =
     Inr \<lparr> srGroupsByIndex = [[1, 2], [3, 0]], srGroupSums = [5, 5], srIterations = 1,
           srMethod = ''metaheuristic-tabu-search'', srFitness = 1 \<rparr>"
proof -
  have m: "po_method (no_options \<lparr> po_method := Some ''roundrobin'' \<rparr>) = Some ''roundrobin''"
    by simp
  have l: "(\<forall>k::nat. (0::real) \<le> mh_timeLimitMs (tabu_opts 1)) \<and>
           (\<forall>k::nat. (1::real) / 2 \<le> mh_timeLimitMs (tabu_opts 1))"
    by (simp add: tabu_opts_simps)
  have v: "metaheuristic (\<lambda>k. 1 / 2) items_d 2 2 (tabu_opts 1) =
     Inr \<lparr> srGroupsByIndex = [[1, 2], [3, 0]], srGroupSums = [5, 5], srIterations = 1,
           srMethod = ''metaheuristic-tabu-search'', srFitness = 1 \<rparr>"
    by (rule tabu_one) simp
  from m l v pb6 [of world_late cache_a "''item''"]
    C7_reproducible_unless_time_limit_hit [of "no_options \<lparr> po_method := Some ''roundrobin'' \<rparr>"
      world0 globalEvaluationCache "items6 ''item''" 2 3 world_late cache_a
      "\<lambda>k. 0" "tabu_opts 1" "\<lambda>k. 1 / 2" items_d 2 2]
  show ?thesis by simp
qed

text \<open>
  The claim as it was stated fails for tabu search: the same four items (capacities
  4, 3, 2, 1), the same default seed, the same options (time limit 1 ms, 1000 iterations),
  and two runs that differ only in when the limit is passed. The run whose first check
  comes too late returns the initial random solution \<open>[[3, 2], [1, 0]]\<close> of delta 4; the
  run that completes one iteration first returns \<open>[[1, 2], [3, 0]]\<close> of delta 0.
\<close>

theorem C7_time_limit_counterexample:
  "metaheuristic clock_slow items_d 2 2 (tabu_opts 1000) =
     Inr \<lparr> srGroupsByIndex = [[3, 2], [1, 0]], srGroupSums = [3, 7], srIterations = 1,
           srMethod = ''metaheuristic-tabu-search'', srFitness = 1 / 5 \<rparr> \<and>
   metaheuristic clock_fast items_d 2 2 (tabu_opts 1000) =
     Inr \<lparr> srGroupsByIndex = [[1, 2], [3, 0]], srGroupSums = [5, 5], srIterations = 2,
           srMethod = ''metaheuristic-tabu-search'', srFitness = 1 \<rparr> \<and>
   delta_of [3, 7] = Fin 4 \<and> delta_of [5, 5] = Fin 0"
proof -
  have a: "metaheuristic clock_slow items_d 2 2 (tabu_opts 1000) =
     Inr \<lparr> srGroupsByIndex = [[3, 2], [1, 0]], srGroupSums = [3, 7], srIterations = 1,
           srMethod = ''metaheuristic-tabu-search'', srFitness = 1 / 5 \<rparr>"
    by (rule tabu_slow) simp
  have b: "metaheuristic clock_fast items_d 2 2 (tabu_opts 1000) =
     Inr \<lparr> srGroupsByIndex = [[1, 2], [3, 0]], srGroupSums = [5, 5], srIterations = 2,
           srMethod = ''metaheuristic-tabu-search'', srFitness = 1 \<rparr>"
    by (rule tabu_fast) simp
  show ?thesis
    unfolding a b by (simp add: delta_of_def math_max_def math_min_def)
qed

section \<open>The entry point never fails on validated input\<close>

lemma recover_none: "recover defaultRecoveryManager items groups groupSize no e = None"
  by (simp add: defaultRecoveryManager_def NumericalPrecisionRecovery_def ProblemSizeReduction_def
      TimeoutRecovery_def SimplerAlgorithmFallback_def)

lemma copy_id: "ensureInputImmutability items = items"
  by (simp add: ensureInputImmutability_def map_idI)

lemma valid_inputs:
  assumes "validatePartitionInputs items groups groupSize = None"
  shows "0 < groups" "0 < groupSize" "length items = groups * groupSize"
  using assms
  by (auto simp: validatePartitionInputs_def validateGroupParameters_def validateItemCount_def
      split: if_splits option.splits)

lemma set_insort_cmp: "set (insort_cmp cmp x xs) = insert x (set xs)"
  by (induction xs) auto

lemma set_sort_cmp: "set (sort_cmp cmp xs) = set xs"
  by (induction xs) (simp_all add: sort_cmp_def set_insort_cmp)

lemma length_insort_cmp: "length (insort_cmp cmp x xs) = Suc (length xs)"
  by (induction xs) auto

lemma length_sort_cmp: "length (sort_cmp cmp xs) = length xs"
  by (induction xs) (simp_all add: sort_cmp_def length_insort_cmp)

lemma gd_loop_ok:
  assumes "0 < groups"
  shows "length byId = groups \<Longrightarrow> length byIdx = groups \<Longrightarrow>
    \<exists>byId' sms'. gd_loop groups L (byId, byIdx, sms) =
      Inr (byId', map (\<lambda>j. byIdx ! j @ map (snd \<circ> fst) (filter (\<lambda>x. snd x mod groups = j) L))
                    [0..<groups], sms')"
proof (induction L arbitrary: byId byIdx sms)
  case Nil
  then have "map ((!) byIdx) [0..<groups] = byIdx" using map_nth [of byIdx] by simp
  then show ?case by simp
next
  case (Cons x L)
  obtain it index i where x: "x = ((it, index), i)" by (metis surj_pair)
  let ?gi = "i mod groups"
  have gi: "?gi < groups" using assms by simp
  let ?byIdx1 = "byIdx[?gi := byIdx ! ?gi @ [index]]"
  from Cons.IH [of "byId[?gi := byId ! ?gi @ [item_id it]]" ?byIdx1
      "sms[?gi := sms ! ?gi + capacity it]"] Cons.prems
  obtain byId' sms' where r: "gd_loop groups L (byId[?gi := byId ! ?gi @ [item_id it]], ?byIdx1,
        sms[?gi := sms ! ?gi + capacity it]) =
      Inr (byId', map (\<lambda>j. ?byIdx1 ! j @ map (snd \<circ> fst) (filter (\<lambda>x. snd x mod groups = j) L))
                    [0..<groups], sms')"
    by auto
  have "map (\<lambda>j. ?byIdx1 ! j @ map (snd \<circ> fst) (filter (\<lambda>x. snd x mod groups = j) L)) [0..<groups]
      = map (\<lambda>j. byIdx ! j @ map (snd \<circ> fst) (filter (\<lambda>x. snd x mod groups = j) (x # L))) [0..<groups]"
  proof (intro map_cong refl)
    fix j assume "j \<in> set [0..<groups]"
    then have "j < length byIdx" using Cons.prems by simp
    then show "?byIdx1 ! j @ map (snd \<circ> fst) (filter (\<lambda>x. snd x mod groups = j) L) =
       byIdx ! j @ map (snd \<circ> fst) (filter (\<lambda>x. snd x mod groups = j) (x # L))"
      by (simp add: x nth_list_update)
  qed
  with r show ?case using assms gi Cons.prems by (simp add: x Let_def)
qed

lemma filter_eq_upt: "j < g \<Longrightarrow> filter (\<lambda>i. i = j) [0..<g] = [j]"
proof (induction g)
  case 0 then show ?case by simp
next
  case (Suc g)
  show ?case
  proof (cases "j < g")
    case True
    with Suc.IH show ?thesis by simp
  next
    case False
    with Suc.prems have "j = g" by simp
    moreover have "filter (\<lambda>i. i = g) [0..<g] = []" by (simp add: filter_empty_conv)
    ultimately show ?thesis by simp
  qed
qed

lemma filter_mod_block:
  assumes "j < g"
  shows "filter (\<lambda>i. i mod g = j) [g * m..<g * m + g] = [g * m + j]"
proof -
  have "map (\<lambda>i. i + g * m) [0..<g] = [g * m..<g + g * m]" by (rule map_add_upt)
  then have "[g * m..<g * m + g] = map (\<lambda>i. i + g * m) [0..<g]"
    by (simp only: add.commute [of "g * m" g])
  then have "filter (\<lambda>i. i mod g = j) [g * m..<g * m + g] =
      map (\<lambda>i. i + g * m) (filter (\<lambda>i. (i + g * m) mod g = j) [0..<g])"
    by (simp only: filter_map comp_def)
  also have "filter (\<lambda>i. (i + g * m) mod g = j) [0..<g] = filter (\<lambda>i. i = j) [0..<g]"
    by (rule filter_cong) simp_all
  also have "filter (\<lambda>i. i = j) [0..<g] = [j]" using assms by (rule filter_eq_upt)
  finally show ?thesis by simp
qed

lemma length_filter_mod:
  assumes "j < g"
  shows "length (filter (\<lambda>i. i mod g = j) [0..<g * m]) = m"
proof (induction m)
  case 0 show ?case by simp
next
  case (Suc m)
  have "[0..<g * m + g] = [0..<g * m] @ [g * m..<g * m + g]"
    by (rule upt_add_eq_append) simp
  moreover have "g * Suc m = g * m + g" by simp
  ultimately have "[0..<g * Suc m] = [0..<g * m] @ [g * m..<g * m + g]" by (simp only:)
  then show ?case using Suc filter_mod_block [OF assms, of m] by (simp del: upt_Suc mult_Suc_right)
qed

lemma filter_snd_zip:
  "length xs = length ns \<Longrightarrow> map snd (filter (\<lambda>x. P (snd x)) (zip xs ns)) = filter P ns"
  by (induction xs ns rule: list_induct2) auto

lemma gd_groups:
  assumes "0 < groups" and "length items = groups * groupSize"
  shows "\<exists>g. createGracefulDegradation items groups groupSize = Inr g \<and>
             methodUsed g = ''graceful-degradation'' \<and>
             length (groupsByIndex g) = groups \<and>
             (\<forall>grp \<in> set (groupsByIndex g). length grp = groupSize) \<and>
             set (concat (groupsByIndex g)) = {0..<length items}"
proof -
  define S where "S = sort_cmp (\<lambda>a b. capacity (fst b) - capacity (fst a)) (indexed items)"
  define L where "L = indexed S"
  define G where "G = (\<lambda>j. map (snd \<circ> fst) (filter (\<lambda>x. snd x mod groups = j) L))"
  have lenS: "length S = length items" by (simp add: S_def length_sort_cmp indexed_def)
  have setS: "set S = set (indexed items)" by (simp add: S_def set_sort_cmp)
  have L: "L = zip S [0..<length S]" by (simp add: L_def indexed_def)
  from gd_loop_ok [OF assms(1), of "replicate groups []" "replicate groups []" L "replicate groups 0"]
  obtain byId' sms' where r: "gd_loop groups L (replicate groups [], replicate groups [], replicate groups 0) =
      Inr (byId', map (\<lambda>j. replicate groups [] ! j @ G j) [0..<groups], sms')"
    by (auto simp: G_def)
  have "map (\<lambda>j. replicate groups [] ! j @ G j) [0..<groups] = map G [0..<groups]"
    by (rule map_cong) simp_all
  with r have r': "gd_loop groups L (replicate groups [], replicate groups [], replicate groups 0) =
      Inr (byId', map G [0..<groups], sms')" by simp
  have len: "length (G j) = groupSize" if "j < groups" for j
  proof -
    have "length (G j) = length (map snd (filter (\<lambda>x. snd x mod groups = j) L))"
      by (simp add: G_def)
    also have "map snd (filter (\<lambda>x. snd x mod groups = j) L) =
        filter (\<lambda>i. i mod groups = j) [0..<length S]"
      unfolding L by (rule filter_snd_zip) simp
    also have "length \<dots> = groupSize"
      using length_filter_mod [OF that, of groupSize] by (simp add: lenS assms(2))
    finally show ?thesis .
  qed
  have cover: "set (concat (map G [0..<groups])) = {0..<length items}"
  proof -
    have "set (concat (map G [0..<groups])) = (snd \<circ> fst) ` set L"
    proof (intro equalityI subsetI)
      fix x assume "x \<in> set (concat (map G [0..<groups]))"
      then show "x \<in> (snd \<circ> fst) ` set L" by (auto simp: G_def)
    next
      fix x assume "x \<in> (snd \<circ> fst) ` set L"
      then obtain y where y: "y \<in> set L" "x = snd (fst y)" by auto
      have "snd y mod groups < groups" using assms(1) by simp
      moreover have "x \<in> set (G (snd y mod groups))" using y by (auto simp: G_def)
      ultimately show "x \<in> set (concat (map G [0..<groups]))" by auto
    qed
    also have "\<dots> = snd ` set (map fst L)" by (simp add: image_comp)
    also have "map fst L = S" by (simp add: L)
    also have "snd ` set S = set (map snd (indexed items))" by (simp add: setS)
    also have "\<dots> = {0..<length items}" by (simp add: indexed_def)
    finally show ?thesis .
  qed
  show ?thesis
    using r' len cover
    by (simp add: createGracefulDegradation_def S_def [symmetric] L_def [symmetric])
qed

text \<open>What \<^verbatim>\<open>validateGrouping\<close> accepts.\<close>

lemma concat_map_Nil: "concat (map f xs) = [] \<longleftrightarrow> (\<forall>x \<in> set xs. f x = [])"
  by (induction xs) auto

lemma validateGrouping_iff:
  "validateGrouping items B m \<longleftrightarrow>
     (\<forall>grp \<in> set B. length grp = m) \<and> length (concat B) = card (set (concat B)) \<and>
     card (set (concat B)) = length items \<and>
     (\<forall>i \<in> set (concat B). 0 \<le> i \<and> i < int (length items))"
proof -
  have z: "map fst (zip B [0..<length B]) = B" by (simp add: map_fst_zip)
  have "set B = fst ` set (zip B [0..<length B])" using z by (metis set_map)
  then have a: "(\<forall>x \<in> set (zip B [0..<length B]). length (fst x) = m) \<longleftrightarrow>
           (\<forall>grp \<in> set B. length grp = m)"
    by simp
  have b: "(\<forall>x \<in> set (zip B [0..<length B]).
              (case x of (grp, i) \<Rightarrow> if length grp \<noteq> m then [WrongGroupSize i (length grp)] else []) = []) \<longleftrightarrow>
           (\<forall>x \<in> set (zip B [0..<length B]). length (fst x) = m)"
    by (intro ball_cong refl) (simp split: prod.splits)
  have c: "(\<forall>x \<in> set (concat B). (if x < 0 \<or> int (length items) \<le> x then [InvalidIndex x] else []) = []) \<longleftrightarrow>
           (\<forall>i \<in> set (concat B). 0 \<le> i \<and> i < int (length items))"
    by (intro ball_cong refl) auto
  have d: "(if P then [e] else []) = [] \<longleftrightarrow> \<not> P" for P and e :: grouping_problem
    by simp
  show ?thesis
    unfolding validateGrouping_def validateGrouping_errors_def Let_def indexed_def
      append_is_Nil_conv concat_map_Nil b a c d
    by (auto simp: not_less not_le)
qed

lemma sum_list_const: "(\<forall>x \<in> set xs. f x = (c::nat)) \<Longrightarrow> sum_list (map f xs) = length xs * c"
  by (induction xs) auto

lemma valid_of_nat:
  fixes byIdx :: "nat list list"
  assumes "\<forall>grp \<in> set byIdx. length grp = m" and "set (concat byIdx) = {0..<length items}"
    and "length byIdx * m = length items"
  shows "validateGrouping items (map (map int) byIdx) m"
proof -
  have c: "concat (map (map int) byIdx) = map int (concat byIdx)" by (simp add: map_concat)
  have "sum_list (map length byIdx) = length byIdx * m" using assms(1) by (rule sum_list_const)
  then have l: "length (concat byIdx) = length items"
    using assms(3) by (simp add: length_concat)
  have s: "set (map int (concat byIdx)) = int ` {0..<length items}"
    by (simp only: set_map assms(2))
  have k: "card (int ` {0..<length items}) = length items" by (simp add: card_image)
  show ?thesis
    unfolding validateGrouping_iff c s k
    using assms(1) l by auto
qed

lemma groups_of_valid:
  fixes byIdx :: "nat list list"
  assumes "validateGrouping items (map (map int) byIdx) m" and "0 < m" and "length items = n * m"
  shows "length byIdx = n"
proof -
  from assms(1) have a: "\<forall>grp \<in> set byIdx. length grp = m"
    and b: "length (concat (map (map int) byIdx)) = length items"
    by (auto simp: validateGrouping_iff)
  have "sum_list (map length byIdx) = length byIdx * m" using a by (rule sum_list_const)
  then have "length (concat (map (map int) byIdx)) = length byIdx * m"
    by (simp add: length_concat comp_def)
  with b assms(2,3) show ?thesis by simp
qed

lemma gd_valid:
  assumes "validatePartitionInputs items groups groupSize = None"
  shows "\<exists>g. createGracefulDegradation items groups groupSize = Inr g \<and>
             methodUsed g = ''graceful-degradation'' \<and>
             length (groupsByIndex g) = groups \<and>
             validateGrouping items (map (map int) (groupsByIndex g)) groupSize"
proof -
  note v = valid_inputs [OF assms]
  from gd_groups [OF v(1) v(3)] obtain g where g: "createGracefulDegradation items groups groupSize = Inr g"
     "methodUsed g = ''graceful-degradation''" "length (groupsByIndex g) = groups"
     "\<forall>grp \<in> set (groupsByIndex g). length grp = groupSize"
     "set (concat (groupsByIndex g)) = {0..<length items}" by blast
  have "validateGrouping items (map (map int) (groupsByIndex g)) groupSize"
    using g(4) g(5) by (rule valid_of_nat) (simp add: g(3) v(3))
  with g show ?thesis by blast
qed

lemma group_sum_ok:
  "\<forall>i \<in> set idxs. 0 \<le> i \<and> i < int (length items) \<Longrightarrow> \<exists>v. group_sum items idxs s = Inr v"
  by (induction idxs arbitrary: s) (auto simp: capacity_at_def)

lemma group_sums_of_ok:
  "\<forall>i \<in> set (concat B). 0 \<le> i \<and> i < int (length items) \<Longrightarrow> \<exists>v. group_sums_of items B = Inr v"
proof (induction B)
  case Nil show ?case by simp
next
  case (Cons grp B)
  then obtain v where "group_sums_of items B = Inr v" by auto
  moreover from Cons.prems obtain s where "group_sum items grp 0 = Inr s"
    using group_sum_ok [of grp items 0] by auto
  ultimately show ?case by simp
qed

lemma fast_ok:
  assumes "validateGrouping items B m"
  shows "\<exists>ev. evaluateGroupingFastCPU items B = Inr ev"
proof -
  from assms have "\<forall>i \<in> set (concat B). 0 \<le> i \<and> i < int (length items)"
    by (simp add: validateGrouping_iff)
  from group_sums_of_ok [OF this] show ?thesis
    by (auto simp: evaluateGroupingFastCPU_def Let_def)
qed

text \<open>The automatic strategy when the budget is spent before the first candidate.\<close>

lemma auto_loop_late:
  "ao_timeLimitMs ao < w_clock w k \<Longrightarrow>
   auto_loop w items groups groupSize ao budget k candidates None = Inr None"
  by (cases candidates) simp_all

lemma auto_late:
  assumes "ao_timeLimitMs ao < w_clock w 0"
  shows "executeAutoStrategy w items groups groupSize ao = createGracefulDegradation items groups groupSize"
  unfolding executeAutoStrategy_def Let_def auto_loop_late [OF assms]
  by (simp split: option.splits)

lemma case_case_sum:
  "(case (case x of Inl a \<Rightarrow> Inl c | Inr b \<Rightarrow> Inr b) of Inl e \<Rightarrow> Inl e | Inr ev \<Rightarrow> Inr (g ev)) =
   (case x of Inl a \<Rightarrow> Inl c | Inr b \<Rightarrow> Inr (g b))"
  by (cases x) simp_all

lemma pb_outcome:
  assumes "validatePartitionInputs items groups groupSize = None"
      and "validatePartitionOptions options = None"
      and "createGracefulDegradation items groups groupSize = Inr d"
  shows "\<exists>S. fst (partitionBalanced w cache items groups groupSize options) =
    (case (case S of
             Inl e \<Rightarrow> Inl e
           | Inr result \<Rightarrow>
               if \<not> validateGrouping items (map (map int) (groupsByIndex result)) groupSize
               then Inl (AlgorithmError (methodUsed result))
               else (case evaluateGroupingFastCPU items (map (map int) (groupsByIndex result)) of
                       Inl e \<Rightarrow> Inl (AlgorithmError ''evaluate'')
                     | Inr ev \<Rightarrow> Inr (result \<lparr> groupSums := evalGroupSums ev,
                                              delta := evalDelta ev, stdev := evalStdev ev \<rparr>))) of
       Inr result \<Rightarrow> Inr result
     | Inl e \<Rightarrow> Inr d) \<and>
    ((po_method options = None \<or> po_method options = Some ''auto'') \<and>
       no_timeLimitMs (normalizeOptions options) < w_clock w 0 \<longrightarrow> S = Inr d)"
proof -
  have m: "no_method (normalizeOptions options) = ''auto''"
    if "po_method options = None \<or> po_method options = Some ''auto''"
    using that by (auto simp: normalizeOptions_def)
  show ?thesis
    unfolding partitionBalanced_def Let_def assms(1,2) option.case copy_id
    apply (simp only: fst_outcome fst_attempt eval_fresh)
    apply (simp only: recover_none option.case assms(3) sum.case case_case_sum)
    apply (rule exI, rule conjI, rule refl)
    apply (auto simp: solve_def m auto_late assms(3))
    done
qed

lemma gd6: "createGracefulDegradation (items6 p) 2 3 =
     Inr \<lparr> groupsById = [[StrId (p @ ''0''), StrId (p @ ''2''), StrId (p @ ''4'')],
                          [StrId (p @ ''1''), StrId (p @ ''3''), StrId (p @ ''5'')]],
           groupsByIndex = [[0, 2, 4], [1, 3, 5]], groupSums = [18, 13],
           delta = Fin 5, stdev = stdev_of [18, 13] 2,
           iterations = None, methodUsed = ''graceful-degradation'' \<rparr>"
proof -
  have u: "[0..<6::nat] = [0, 1, 2, 3, 4, 5]" by (simp add: upt_rec numeral_nat)
  have l: "length (items6 p) = 6" by (simp add: items6_eq)
  have s: "sort_cmp (\<lambda>a b. capacity (fst b) - capacity (fst a)) (indexed (items6 p)) = indexed (items6 p)"
    unfolding indexed_def l u by (simp add: items6_eq sort_cmp_def)
  have l2: "length (indexed (items6 p)) = 6" by (simp add: indexed_def l)
  show ?thesis
    unfolding createGracefulDegradation_def Let_def s
    unfolding indexed_def l l2 u
    by (simp add: items6_eq replicate2 Let_def delta_of_def math_max_def math_min_def)
qed

text \<open>
  Claim C6. Once the inputs and the options have passed validation, \<^verbatim>\<open>partitionBalanced\<close>
  returns a grouping, never an error, for every clock (every time budget and every moment at
  which it is exhausted), every performance history and every cache state; the grouping has
  \<open>groups\<close> groups and passes \<^verbatim>\<open>validateGrouping\<close> (every group has \<open>groupSize\<close> indices,
  every index of the items occurs exactly once). The graceful-degradation fallback succeeds
  on every validated input with such a grouping, and it is what the automatic strategy
  returns when the budget is already exhausted at the first candidate (as with
  \<^verbatim>\<open>timeLimitMs: 0\<close>).
\<close>

theorem C6_never_raises_after_validation:
  assumes "validatePartitionInputs items groups groupSize = None"
      and "validatePartitionOptions options = None"
  shows "(\<exists>g. fst (partitionBalanced w cache items groups groupSize options) = Inr g \<and>
              length (groupsByIndex g) = groups \<and>
              validateGrouping items (map (map int) (groupsByIndex g)) groupSize) \<and>
         (\<exists>d. createGracefulDegradation items groups groupSize = Inr d \<and>
              length (groupsByIndex d) = groups \<and>
              validateGrouping items (map (map int) (groupsByIndex d)) groupSize \<and>
              ((po_method options = None \<or> po_method options = Some ''auto'') \<and>
               no_timeLimitMs (normalizeOptions options) < w_clock w 0 \<longrightarrow>
                 map_sum id (\<lambda>g. (groupsByIndex g, methodUsed g))
                   (fst (partitionBalanced w cache items groups groupSize options)) =
                 Inr (groupsByIndex d, ''graceful-degradation'')))"
proof -
  note v = valid_inputs [OF assms(1)]
  from gd_valid [OF assms(1)] obtain d where d: "createGracefulDegradation items groups groupSize = Inr d"
    "methodUsed d = ''graceful-degradation''" "length (groupsByIndex d) = groups"
    "validateGrouping items (map (map int) (groupsByIndex d)) groupSize" by blast
  from pb_outcome [OF assms d(1), of w cache] obtain S where
    S: "fst (partitionBalanced w cache items groups groupSize options) =
    (case (case S of
             Inl e \<Rightarrow> Inl e
           | Inr result \<Rightarrow>
               if \<not> validateGrouping items (map (map int) (groupsByIndex result)) groupSize
               then Inl (AlgorithmError (methodUsed result))
               else (case evaluateGroupingFastCPU items (map (map int) (groupsByIndex result)) of
                       Inl e \<Rightarrow> Inl (AlgorithmError ''evaluate'')
                     | Inr ev \<Rightarrow> Inr (result \<lparr> groupSums := evalGroupSums ev,
                                              delta := evalDelta ev, stdev := evalStdev ev \<rparr>))) of
       Inr result \<Rightarrow> Inr result
     | Inl e \<Rightarrow> Inr d)"
    and late: "(po_method options = None \<or> po_method options = Some ''auto'') \<and>
       no_timeLimitMs (normalizeOptions options) < w_clock w 0 \<longrightarrow> S = Inr d"
    by blast
  have ok: "\<exists>g. fst (partitionBalanced w cache items groups groupSize options) = Inr g \<and>
              length (groupsByIndex g) = groups \<and>
              validateGrouping items (map (map int) (groupsByIndex g)) groupSize"
  proof (cases S)
    case (Inl e)
    with S d show ?thesis by simp
  next
    case (Inr result)
    show ?thesis
    proof (cases "validateGrouping items (map (map int) (groupsByIndex result)) groupSize")
      case False
      with S Inr d show ?thesis by simp
    next
      case True
      from fast_ok [OF True] obtain ev where
        ev: "evaluateGroupingFastCPU items (map (map int) (groupsByIndex result)) = Inr ev" by blast
      from groups_of_valid [OF True v(2) v(3)] have "length (groupsByIndex result) = groups" .
      with S Inr True ev show ?thesis by simp
    qed
  qed
  have fallback: "map_sum id (\<lambda>g. (groupsByIndex g, methodUsed g))
                   (fst (partitionBalanced w cache items groups groupSize options)) =
                 Inr (groupsByIndex d, ''graceful-degradation'')"
    if "(po_method options = None \<or> po_method options = Some ''auto'') \<and>
        no_timeLimitMs (normalizeOptions options) < w_clock w 0"
  proof -
    from late that have Sd: "S = Inr d" by blast
    from fast_ok [OF d(4)] obtain ev where
      ev: "evaluateGroupingFastCPU items (map (map int) (groupsByIndex d)) = Inr ev" by blast
    show ?thesis by (simp add: S Sd d ev)
  qed
  from ok d fallback show ?thesis by blast
qed

theorem C6_never_raises_after_validation_witness:
  "validatePartitionInputs (items6 ''item'') 2 3 = None \<and>
   validatePartitionOptions (no_options \<lparr> po_timeLimitMs := Some 0 \<rparr>) = None \<and>
   po_method (no_options \<lparr> po_timeLimitMs := Some 0 \<rparr>) = None \<and>
   no_timeLimitMs (normalizeOptions (no_options \<lparr> po_timeLimitMs := Some 0 \<rparr>)) < w_clock world_late 0 \<and>
   (\<exists>g. fst (partitionBalanced world_late globalEvaluationCache (items6 ''item'') 2 3
               (no_options \<lparr> po_timeLimitMs := Some 0 \<rparr>)) = Inr g \<and>
        length (groupsByIndex g) = 2 \<and>
        validateGrouping (items6 ''item'') (map (map int) (groupsByIndex g)) 3) \<and>
   map_sum id (\<lambda>g. (groupsByIndex g, methodUsed g))
     (fst (partitionBalanced world_late globalEvaluationCache (items6 ''item'') 2 3
               (no_options \<lparr> po_timeLimitMs := Some 0 \<rparr>))) =
     Inr ([[0, 2, 4], [1, 3, 5]], ''graceful-degradation'')"
proof -
  have h1: "validatePartitionInputs (items6 ''item'') 2 3 = None" by (rule valid6)
  have h2: "validatePartitionOptions (no_options \<lparr> po_timeLimitMs := Some 0 \<rparr>) = None"
    by (simp add: validatePartitionOptions_def no_options_def negative_option_def)
  have h3: "po_method (no_options \<lparr> po_timeLimitMs := Some 0 \<rparr>) = None"
    by (simp add: no_options_def)
  have h4: "no_timeLimitMs (normalizeOptions (no_options \<lparr> po_timeLimitMs := Some 0 \<rparr>)) < w_clock world_late 0"
    by (simp add: normalizeOptions_def no_options_def world_late_def)
  from h1 h2 h3 h4
    C6_never_raises_after_validation [OF h1 h2, of world_late globalEvaluationCache]
  show ?thesis by (simp add: gd6)
qed

section \<open>Local refinement never increases delta\<close>

subsection \<open>Sums, maxima and minima\<close>




lemma math_max_Cons: "math_max (x # xs) = js_max (Fin x) (math_max xs)"
  by (simp add: math_max_def)

lemma math_min_Cons: "math_min (x # xs) = js_min (Fin x) (math_min xs)"
  by (simp add: math_min_def)

lemma math_max_eq: "math_max xs = (if xs = [] then NegInf else Fin (Max (set xs)))"
proof (induction xs)
  case Nil show ?case by (simp add: math_max_def)
next
  case (Cons x xs) then show ?case by (cases "xs = []") (simp_all add: math_max_Cons)
qed

lemma math_min_eq: "math_min xs = (if xs = [] then PosInf else Fin (Min (set xs)))"
proof (induction xs)
  case Nil show ?case by (simp add: math_min_def)
next
  case (Cons x xs) then show ?case by (cases "xs = []") (simp_all add: math_min_Cons)
qed

lemma math_max_set: "set xs = set ys \<Longrightarrow> math_max xs = math_max ys"
  by (auto simp: math_max_eq)

lemma math_min_set: "set xs = set ys \<Longrightarrow> math_min xs = math_min ys"
  by (auto simp: math_min_eq)

lemma delta_of_set: "set xs = set ys \<Longrightarrow> delta_of xs = delta_of ys"
  by (simp add: delta_of_def math_max_set [of xs ys] math_min_set [of xs ys])










lemma math_max_cases: "math_max xs = NegInf \<or> (\<exists>x. math_max xs = Fin x)"
  by (simp add: math_max_eq)

lemma math_min_cases: "math_min xs = PosInf \<or> (\<exists>x. math_min xs = Fin x)"
  by (simp add: math_min_eq)




subsection \<open>A swap keeps the invariant\<close>

lemma lr_inv_upd [simp]:
  "lr_inv items groups groupSize (st \<lparr> lr_improvements := a \<rparr>) = lr_inv items groups groupSize st"
  "lr_inv items groups groupSize (st \<lparr> lr_iterations := b \<rparr>) = lr_inv items groups groupSize st"
  "lr_inv items groups groupSize (st \<lparr> lr_randState := c \<rparr>) = lr_inv items groups groupSize st"
  by (simp_all add: lr_inv_def)





subsection \<open>The best-improvement round\<close>










subsection \<open>The stochastic round\<close>











subsection \<open>The example, best improvement\<close>

lemma items_lr_eq: "items_lr =
  [\<lparr>item_id = StrId ''item0'', capacity = 15\<rparr>, \<lparr>item_id = StrId ''item1'', capacity = 14\<rparr>,
   \<lparr>item_id = StrId ''item2'', capacity = 10\<rparr>, \<lparr>item_id = StrId ''item3'', capacity = 8\<rparr>,
   \<lparr>item_id = StrId ''item4'', capacity = 4\<rparr>, \<lparr>item_id = StrId ''item5'', capacity = 3\<rparr>]"
  by (simp add: items_lr_def fromCapacities_def indexed_def upt_rec numeral_nat digit_char_def)

lemma capI_lr:
  "capI items_lr 0 = 15" "capI items_lr 1 = 14" "capI items_lr 2 = 10"
  "capI items_lr 3 = 8" "capI items_lr 4 = 4" "capI items_lr 5 = 3"
  by (simp_all add: capI_def items_lr_eq)


lemma cands11_23: "lr_cands11 2 3 =
   [(0, 0, Suc 0, 0), (0, 0, Suc 0, Suc 0), (0, 0, Suc 0, 2),
    (0, Suc 0, Suc 0, 0), (0, Suc 0, Suc 0, Suc 0), (0, Suc 0, Suc 0, 2),
    (0, 2, Suc 0, 0), (0, 2, Suc 0, Suc 0), (0, 2, Suc 0, 2)]"
  by (simp add: lr_cands11_def upt_rec numeral_nat)

lemma pairs3: "pairs_of 3 = [(0, Suc 0), (0, 2), (Suc 0, 2)]"
  by (simp add: pairs_of_def upt_rec numeral_nat)

lemma cands22_23: "lr_cands22 2 3 =
   [(0, (0, Suc 0), Suc 0, (0, Suc 0)), (0, (0, Suc 0), Suc 0, (0, 2)), (0, (0, Suc 0), Suc 0, (Suc 0, 2)),
    (0, (0, 2), Suc 0, (0, Suc 0)), (0, (0, 2), Suc 0, (0, 2)), (0, (0, 2), Suc 0, (Suc 0, 2)),
    (0, (Suc 0, 2), Suc 0, (0, Suc 0)), (0, (Suc 0, 2), Suc 0, (0, 2)), (0, (Suc 0, 2), Suc 0, (Suc 0, 2))]"
proof -
  have u: "[0..<2::nat] = [0, Suc 0]" "[Suc 0..<2] = [Suc 0]" "[2..<2::nat] = []"
    by (simp_all add: upt_rec numeral_nat)
  show ?thesis by (simp add: lr_cands22_def pairs3 u)
qed

lemma others2: "others [a, b] 0 (Suc 0) = []"
  by (simp add: others_def indexed_def upt_rec numeral_nat)

lemma newDelta2: "newDelta_of [a, b] 0 (Suc 0) x y = Fin (max x y - min x y)"
  by (simp add: newDelta_of_def others2 math_max_def math_min_def)

lemma delta2: "delta_of [a, b] = Fin (max a b - min a b)"
  by (simp add: delta_of_def math_max_def math_min_def)

lemma newDelta_nonneg: "\<not> js_less (newDelta_of sms g1 g2 x y) (Fin 0)"
proof -
  have 1: "\<not> max x y - min m (min x y) < 0" for m :: real
    by (simp add: min_def max_def)
  have 2: "\<not> max M (max x y) - min x y < 0" for M :: real
    by (simp add: min_def max_def)
  have 3: "\<not> max M (max x y) - min m (min x y) < 0" for M m :: real
    by (simp add: min_def max_def)
  have 4: "\<not> max x y - min x y < 0" by (simp add: min_def max_def)
  from math_max_cases [of "others sms g1 g2"] math_min_cases [of "others sms g1 g2"]
  show ?thesis
    by (auto simp only: newDelta_of_def Let_def js_max.simps js_min.simps js_sub.simps js_less.simps
        1 2 3 4)
qed

lemma scan11_zero: "fst best = Fin 0 \<Longrightarrow> scan11 items st best c = best"
  by (cases c) (simp add: scan11_def Let_def newDelta_nonneg)

lemma scan22_zero: "fst best = Fin 0 \<Longrightarrow> scan22 items st best c = best"
  by (cases c) (simp add: scan22_def Let_def newDelta_nonneg split: prod.splits)

lemma fold_scan11_zero: "fst best = Fin 0 \<Longrightarrow> foldl (scan11 items st) best cs = best"
  by (induction cs) (simp_all add: scan11_zero)

lemma fold_scan22_zero: "fst best = Fin 0 \<Longrightarrow> foldl (scan22 items st) best cs = best"
  by (induction cs) (simp_all add: scan22_zero)

lemma scan_lr:
  "foldl (scan11 items_lr
      \<lparr> lr_groups = [[0, 3, 5], [1, 2, 4]], lr_sums = [26, 28], lr_iterations = Suc 0,
        lr_improvements = 0, lr_randState = s \<rparr>) (Fin 2, None) (lr_cands11 2 3) =
   (Fin 0, Some (Move11 0 2 (Suc 0) 2 5 4 27 27))"
  by (simp add: cands11_23 scan11_def newDelta2 capI_lr Let_def)

lemma best1: "iterateBest items_lr default_lr_options 2 3
     \<lparr> lr_groups = [[0, 3, 5], [1, 2, 4]], lr_sums = [26, 28], lr_iterations = Suc 0,
       lr_improvements = 0, lr_randState = s \<rparr> =
   (True, \<lparr> lr_groups = [[0, 3, 4], [1, 2, 5]], lr_sums = [27, 27], lr_iterations = Suc 0,
       lr_improvements = Suc 0, lr_randState = s \<rparr>)"
  by (simp add: iterateBest_def default_lr_options_def delta2 scan_lr fold_scan22_zero Let_def)

lemma best2: "iterateBest items_lr default_lr_options 2 3
     \<lparr> lr_groups = [[0, 3, 4], [1, 2, 5]], lr_sums = [27, 27], lr_iterations = k,
       lr_improvements = n, lr_randState = s \<rparr> =
   (False, \<lparr> lr_groups = [[0, 3, 4], [1, 2, 5]], lr_sums = [27, 27], lr_iterations = k,
       lr_improvements = n, lr_randState = s \<rparr>)"
  by (simp add: iterateBest_def default_lr_options_def delta2 fold_scan11_zero fold_scan22_zero Let_def)





subsection \<open>The example, stochastic\<close>











end
